theory Spec2Isabelle
  imports Complex_Main "HOL-Library.Sublist" "HOL-Library.Log_Nat"
begin

section \<open>GameSaver: backup service and catalog save-path detection\<close>

text \<open>
  A shallow embedding of \<^verbatim>\<open>backupService.ts\<close> and
  \<^verbatim>\<open>catalogSaveDetectionService.ts\<close>. Strings are character lists, JavaScript
  exceptions are values \<open>Inl (Error message)\<close>, mutation of the database object and of
  the module-level \<^verbatim>\<open>inFlight\<close> set is explicit state passing, and every call that
  leaves the process (file system, clock, uuid) is answered by a host function that sees
  the history of earlier calls and is recorded in that history.
\<close>

subsection \<open>Shared types (\<^verbatim>\<open>shared/types.ts\<close>)\<close>

datatype GameStatus = Protected | Warning | ErrorStatus
datatype SaveLocationType = Folder | File
datatype SnapshotReason = Auto | Manual | PreRestore
datatype EventLogType = BackupEvent | RestoreEvent | ErrorEvent

datatype error = Error string

record StoredGame =
  g_id :: string
  g_name :: string
  g_install_path :: string
  g_exe_path :: string
  g_created_at :: string
  g_last_seen_at :: "string option"
  g_status :: GameStatus
  g_folder_name :: string

record SaveLocation =
  loc_id :: string
  loc_game_id :: string
  loc_path :: string
  loc_type :: SaveLocationType
  loc_auto_detected :: bool
  loc_enabled :: bool

record Snapshot =
  sn_id :: string
  sn_game_id :: string
  sn_created_at :: string
  sn_size_bytes :: nat
  sn_checksum :: string
  sn_storage_path :: string
  sn_reason :: SnapshotReason

record SnapshotFile =
  sf_id :: string
  sf_snapshot_id :: string
  sf_location_id :: string
  sf_relative_path :: string
  sf_size_bytes :: nat
  sf_checksum :: string

record EventLog =
  ev_game_id :: "string option"
  ev_type :: EventLogType
  ev_message :: string

record Settings =
  backupFrequencyMinutes :: int
  retentionCount :: int
  storageRoot :: string
  compressionEnabled :: bool
  dataRoot :: string

text \<open>\<^verbatim>\<open>db.state\<close>: the tables the backup service reads and writes.\<close>

record AppState =
  games :: "StoredGame list"
  saveLocations :: "SaveLocation list"
  snapshots :: "Snapshot list"
  snapshotFiles :: "SnapshotFile list"
  eventLogs :: "EventLog list"

subsection \<open>JavaScript built-ins\<close>

text \<open>
  The pure built-ins of the platform the services call. Their code is not part of the
  repository (Node's \<^verbatim>\<open>path\<close> module, ICU collation, Unicode case mapping, SHA-256 in
  \<^verbatim>\<open>hash.ts\<close>, the folder helpers of \<^verbatim>\<open>storage.ts\<close>), so they are parameters:
  every theorem below holds for whatever they compute.
\<close>

record platform =
  localeCompare :: "string \<Rightarrow> string \<Rightarrow> int"
  toLowerCase :: "string \<Rightarrow> string"
  hashText :: "string \<Rightarrow> string"
  path_sep :: string
  path_join :: "string list \<Rightarrow> string"
  path_resolve :: "string list \<Rightarrow> string"
  path_normalize :: "string \<Rightarrow> string"
  path_basename :: "string \<Rightarrow> string"
  path_dirname :: "string \<Rightarrow> string"
  path_relative :: "string \<Rightarrow> string \<Rightarrow> string"
  path_parse_name :: "string \<Rightarrow> string"
  win32 :: bool
  getSnapshotRoot :: "string \<Rightarrow> string \<Rightarrow> string \<Rightarrow> string"
  toSafeGameFolderName :: "string \<Rightarrow> string"
  formatSnapshotTimestamp :: "string \<Rightarrow> string"
  dateToISOString :: "string \<Rightarrow> string option"

text \<open>\<^verbatim>\<open>Array.prototype.sort\<close> with a comparator: a stable sort. An element moves in
  front of the ones it does not compare greater than, so rows that compare equal keep
  their input order. The comparator's number is an integer (\<^verbatim>\<open>localeCompare\<close>) or a
  difference of scores.\<close>

fun insertBy :: "('a \<Rightarrow> 'a \<Rightarrow> 'b::{ord,zero}) \<Rightarrow> 'a \<Rightarrow> 'a list \<Rightarrow> 'a list" where
  "insertBy cmp x [] = [x]"
| "insertBy cmp x (y # ys) = (if cmp x y \<le> 0 then x # y # ys else y # insertBy cmp x ys)"

definition sortBy :: "('a \<Rightarrow> 'a \<Rightarrow> 'b::{ord,zero}) \<Rightarrow> 'a list \<Rightarrow> 'a list" where
  "sortBy cmp xs = foldr (insertBy cmp) xs []"

text \<open>\<^verbatim>\<open>Array.prototype.join\<close>.\<close>

fun joinWith :: "string \<Rightarrow> string list \<Rightarrow> string" where
  "joinWith sep [] = []"
| "joinWith sep [x] = x"
| "joinWith sep (x # y # ys) = x @ sep @ joinWith sep (y # ys)"

text \<open>\<^verbatim>\<open>String.prototype.split\<close> with a one-character separator.\<close>

fun splitOn :: "char \<Rightarrow> string \<Rightarrow> string list" where
  "splitOn c [] = [[]]"
| "splitOn c (x # xs) =
     (if x = c then [] # splitOn c xs
      else (case splitOn c xs of [] \<Rightarrow> [[x]] | seg # segs \<Rightarrow> (x # seg) # segs))"

text \<open>A non-negative integer in a template literal: its decimal digits.\<close>

fun numberToString :: "nat \<Rightarrow> string" where
  "numberToString n =
     (if n < 10 then [char_of (48 + n)]
      else numberToString (n div 10) @ [char_of (48 + n mod 10)])"

declare numberToString.simps [simp del]

text \<open>\<^verbatim>\<open>String.prototype.trim\<close>: the white space and line terminators among the
  characters below 256.\<close>

definition isWhiteSpace :: "char \<Rightarrow> bool" where
  "isWhiteSpace c = ((of_char c :: nat) \<in> {9, 10, 11, 12, 13, 32, 160})"

definition trim :: "string \<Rightarrow> string" where
  "trim s = rev (dropWhile isWhiteSpace (rev (dropWhile isWhiteSpace s)))"

subsection \<open>The aggregate snapshot checksum\<close>

text \<open>
  \<^verbatim>\<open>computeSnapshotChecksum\<close>: the rows are copied, sorted by comparing
  \<^verbatim>\<open>relative_path\<close> alone, rendered as
  \<^verbatim>\<open>location_id:relative_path:checksum:size_bytes\<close>, joined by \<^verbatim>\<open>|\<close> and hashed.
\<close>

definition snapshotFileLine :: "SnapshotFile \<Rightarrow> string" where
  "snapshotFileLine file =
     sf_location_id file @ '':'' @ sf_relative_path file @ '':'' @ sf_checksum file @ '':''
       @ numberToString (sf_size_bytes file)"

definition snapshotChecksumPayload :: "platform \<Rightarrow> SnapshotFile list \<Rightarrow> string" where
  "snapshotChecksumPayload pf files =
     joinWith ''|''
       (map snapshotFileLine
         (sortBy (\<lambda>a b. localeCompare pf (sf_relative_path a) (sf_relative_path b)) files))"

definition computeSnapshotChecksum :: "platform \<Rightarrow> SnapshotFile list \<Rightarrow> string" where
  "computeSnapshotChecksum pf files = hashText pf (snapshotChecksumPayload pf files)"

subsection \<open>The host: file system, clock, identifiers\<close>

datatype json =
    JNull
  | JBool bool
  | JNumber rat
  | JString string
  | JArray "json list"
  | JObject "(string \<times> json) list"

text \<open>A parsed object is a finite map: the first binding of a key is the property's
  value. Reading a property of anything but an object gives \<^verbatim>\<open>undefined\<close>.\<close>

fun jsonField :: "json \<Rightarrow> string \<Rightarrow> json option" where
  "jsonField (JObject kvs) k = map_of kvs k"
| "jsonField _ k = None"

record SnapshotManifestLocation =
  ml_path :: string
  ml_type :: SaveLocationType
  ml_auto_detected :: bool
  ml_enabled :: bool
  ml_storage_folder :: string

text \<open>\<^verbatim>\<open>SnapshotManifestPayload\<close>; its \<^verbatim>\<open>version\<close> is the constant 2.\<close>

record SnapshotManifestPayload =
  mf_snapshot_id :: string
  mf_created_at :: string
  mf_reason :: SnapshotReason
  mf_locations :: "string \<rightharpoonup> SnapshotManifestLocation"

text \<open>Every call that leaves the process, in the order the code makes it.\<close>

datatype fs_event =
    EnsureDir string
  | ExistsSync string
  | StatIsDirectory string
  | WalkFiles string
  | CopyFile string string nat
  | StatSize string
  | HashFile string
  | RemoveDir string
  | WriteManifest string SnapshotManifestPayload
  | ReadJsonFile string
  | PersistDb AppState
  | Uuid
  | Now

text \<open>
  What the outside world answers. Each function sees the calls made so far; an
  \<open>error\<close> result is the call throwing. \<open>readJsonFile\<close> is
  \<^verbatim>\<open>JSON.parse(await fs.promises.readFile(p))\<close>, \<open>None\<close> when either throws.
\<close>

record host =
  existsSync :: "fs_event list \<Rightarrow> string \<Rightarrow> bool"
  statIsDirectory :: "fs_event list \<Rightarrow> string \<Rightarrow> error + bool"
  ensureDir :: "fs_event list \<Rightarrow> string \<Rightarrow> error option"
  walkFiles :: "fs_event list \<Rightarrow> string \<Rightarrow> error + string list"
  copyFileWithRetries :: "fs_event list \<Rightarrow> string \<Rightarrow> string \<Rightarrow> nat \<Rightarrow> error option"
  statSize :: "fs_event list \<Rightarrow> string \<Rightarrow> error + nat"
  hashFile :: "fs_event list \<Rightarrow> string \<Rightarrow> error + string"
  removeDirSafe :: "fs_event list \<Rightarrow> string \<Rightarrow> error option"
  writeManifestFile :: "fs_event list \<Rightarrow> string \<Rightarrow> SnapshotManifestPayload \<Rightarrow> error option"
  readJsonFile :: "fs_event list \<Rightarrow> string \<Rightarrow> json option"
  persistDb :: "fs_event list \<Rightarrow> AppState \<Rightarrow> error option"
  uuid :: "fs_event list \<Rightarrow> string"
  nowISOString :: "fs_event list \<Rightarrow> string"

text \<open>The mutable state of the module: the database object, the \<^verbatim>\<open>inFlight\<close> set and
  the calls made to the host so far.\<close>

record state =
  db :: AppState
  inFlight :: "string set"
  trace :: "fs_event list"

subsection \<open>Services the backup service imports\<close>

text \<open>Modelled from the spec: \<^verbatim>\<open>getStoredGameById\<close> of \<^verbatim>\<open>gameService.ts\<close> is not
  among the sources; the index is a flat collection of rows keyed by id.\<close>

definition getStoredGameById :: "AppState \<Rightarrow> string \<Rightarrow> StoredGame option" where
  "getStoredGameById d gameId = find (\<lambda>game. g_id game = gameId) (games d)"

text \<open>Modelled from the spec: \<^verbatim>\<open>listSaveLocations\<close> of \<^verbatim>\<open>saveLocationService.ts\<close> is
  not among the sources; it lists the game's save locations (the derived \<^verbatim>\<open>exists\<close>
  flag is not read by the backup service).\<close>

definition listSaveLocations :: "AppState \<Rightarrow> string \<Rightarrow> SaveLocation list" where
  "listSaveLocations d gameId = filter (\<lambda>loc. loc_game_id loc = gameId) (saveLocations d)"

text \<open>Modelled from the spec: \<^verbatim>\<open>updateGameStatus\<close> of \<^verbatim>\<open>gameService.ts\<close> is not among
  the sources; \<^verbatim>\<open>update_status\<close> mutates the status of the game's row.\<close>

definition updateGameStatus :: "AppState \<Rightarrow> string \<Rightarrow> GameStatus \<Rightarrow> AppState" where
  "updateGameStatus d gameId status =
     d\<lparr>games := map (\<lambda>game. if g_id game = gameId then game\<lparr>g_status := status\<rparr> else game)
          (games d)\<rparr>"

text \<open>Modelled from the spec: \<^verbatim>\<open>logEvent\<close> of \<^verbatim>\<open>eventLogService.ts\<close> is not among the
  sources; the event log is append-only.\<close>

definition logEvent :: "AppState \<Rightarrow> string \<Rightarrow> EventLogType \<Rightarrow> string \<Rightarrow> AppState" where
  "logEvent d gameId type message =
     d\<lparr>eventLogs := eventLogs d @
          [\<lparr>ev_game_id = Some gameId, ev_type = type, ev_message = message\<rparr>]\<rparr>"

subsection \<open>Path containment\<close>

definition normalizePathForKey :: "platform \<Rightarrow> string \<Rightarrow> string" where
  "normalizePathForKey pf targetPath =
     (let normalized = path_resolve pf [path_normalize pf targetPath]
      in if win32 pf then toLowerCase pf normalized else normalized)"

definition assertPathWithinRoot :: "platform \<Rightarrow> string \<Rightarrow> string \<Rightarrow> string \<Rightarrow> error + unit" where
  "assertPathWithinRoot pf rootPath targetPath contextName =
     (let normalizedRoot = normalizePathForKey pf rootPath;
          normalizedTarget = normalizePathForKey pf targetPath;
          normalizedRootWithSeparator =
            (if suffix (path_sep pf) normalizedRoot then normalizedRoot
             else normalizedRoot @ path_sep pf)
      in if normalizedTarget = normalizedRoot \<or> prefix normalizedRootWithSeparator normalizedTarget
         then Inr ()
         else Inl (Error (contextName @ '' resolves outside its allowed root.'')))"

definition resolveSnapshotFileAbsolutePath ::
  "platform \<Rightarrow> string \<Rightarrow> SnapshotFile \<Rightarrow> SnapshotManifestPayload \<Rightarrow> error + string" where
  \<open>resolveSnapshotFileAbsolutePath pf snapshotRoot file manifest =
     (case map_option ml_storage_folder (mf_locations manifest (sf_location_id file)) of
        None \<Rightarrow>
          Inl (Error (''Snapshot manifest is missing storage mapping for location "''
                 @ sf_location_id file @ ''".''))
      | Some storageFolder \<Rightarrow>
          if storageFolder = [] \<or> trim storageFolder = [] then
            Inl (Error (''Snapshot manifest is missing storage mapping for location "''
                   @ sf_location_id file @ ''".''))
          else
            (let absolutePath = path_resolve pf [snapshotRoot, storageFolder, sf_relative_path file]
             in case assertPathWithinRoot pf snapshotRoot absolutePath ''Snapshot file path'' of
                  Inl e \<Rightarrow> Inl e
                | Inr _ \<Rightarrow> Inr absolutePath))\<close>

subsection \<open>Reading the manifest\<close>

definition SNAPSHOT_MANIFEST_FILE_NAME :: string where
  "SNAPSHOT_MANIFEST_FILE_NAME = ''snapshot.manifest.json''"

text \<open>\<^verbatim>\<open>Object.entries\<close>: one pair per key; an array's keys are its indices.\<close>

fun objectEntries :: "json \<Rightarrow> (string \<times> json) list" where
  "objectEntries (JObject kvs) =
     List.map_filter (\<lambda>k. map_option (Pair k) (map_of kvs k)) (remdups (map fst kvs))"
| "objectEntries (JArray xs) = zip (map numberToString [0..<length xs]) xs"
| "objectEntries _ = []"

definition parseSnapshotReason :: "json option \<Rightarrow> SnapshotReason option" where
  "parseSnapshotReason v =
     (if v = Some (JString ''auto'') then Some Auto
      else if v = Some (JString ''manual'') then Some Manual
      else if v = Some (JString ''pre-restore'') then Some PreRestore
      else None)"

text \<open>One iteration of the loop over the manifest's locations: \<open>None\<close> is
  \<^verbatim>\<open>continue\<close>.\<close>

definition parseManifestLocation :: "json \<Rightarrow> SnapshotManifestLocation option" where
  "parseManifestLocation v =
     (case (jsonField v ''path'', jsonField v ''type'', jsonField v ''auto_detected'',
            jsonField v ''enabled'', jsonField v ''storage_folder'') of
        (Some (JString p), Some (JString t), Some (JBool a), Some (JBool e), Some (JString sf)) \<Rightarrow>
          if (t \<noteq> ''file'' \<and> t \<noteq> ''folder'') \<or> trim sf = [] then None
          else Some \<lparr>ml_path = p, ml_type = (if t = ''file'' then File else Folder),
                      ml_auto_detected = a, ml_enabled = e, ml_storage_folder = trim sf\<rparr>
      | _ \<Rightarrow> None)"

fun normalizeManifestLocations ::
  "(string \<times> json) list \<Rightarrow> (string \<rightharpoonup> SnapshotManifestLocation)
     \<Rightarrow> (string \<rightharpoonup> SnapshotManifestLocation)" where
  "normalizeManifestLocations [] normalized = normalized"
| "normalizeManifestLocations ((locationId, v) # rest) normalized =
     normalizeManifestLocations rest
       (case parseManifestLocation v of
          None \<Rightarrow> normalized
        | Some l \<Rightarrow> normalized(locationId \<mapsto> l))"

definition isObjectValue :: "json \<Rightarrow> bool" where
  "isObjectValue v = (case v of JObject _ \<Rightarrow> True | JArray _ \<Rightarrow> True | _ \<Rightarrow> False)"

definition validateManifest :: "platform \<Rightarrow> json \<Rightarrow> SnapshotManifestPayload option" where
  "validateManifest pf parsed =
     (if jsonField parsed ''version'' \<noteq> Some (JNumber 2) then None
      else case jsonField parsed ''snapshot_id'' of
        Some (JString snapshot_id) \<Rightarrow>
          if trim snapshot_id = [] then None
          else (case jsonField parsed ''created_at'' of
            Some (JString created_at) \<Rightarrow>
              if trim created_at = [] then None
              else (case parseSnapshotReason (jsonField parsed ''reason'') of
                None \<Rightarrow> None
              | Some reason \<Rightarrow>
                  (case jsonField parsed ''locations'' of
                     None \<Rightarrow> None
                   | Some locations \<Rightarrow>
                       if \<not> isObjectValue locations then None
                       else (let normalized =
                                   normalizeManifestLocations (objectEntries locations) Map.empty
                             in case dateToISOString pf created_at of
                                  None \<Rightarrow> None
                                | Some isoText \<Rightarrow>
                                    Some \<lparr>mf_snapshot_id = trim snapshot_id, mf_created_at = isoText,
                                           mf_reason = reason, mf_locations = normalized\<rparr>)))
          | _ \<Rightarrow> None)
      | _ \<Rightarrow> None)"

definition readSnapshotManifest ::
  "platform \<Rightarrow> host \<Rightarrow> string \<Rightarrow> fs_event list \<Rightarrow> SnapshotManifestPayload option \<times> fs_event list" where
  "readSnapshotManifest pf h snapshotRoot tr =
     (let manifestPath = path_join pf [snapshotRoot, SNAPSHOT_MANIFEST_FILE_NAME];
          tr1 = tr @ [ExistsSync manifestPath]
      in if \<not> existsSync h tr manifestPath then (None, tr1)
         else (case readJsonFile h tr1 manifestPath of
                 None \<Rightarrow> (None, tr1 @ [ReadJsonFile manifestPath])
               | Some parsed \<Rightarrow> (validateManifest pf parsed, tr1 @ [ReadJsonFile manifestPath])))"

subsection \<open>Delete and verify\<close>

text \<open>\<^verbatim>\<open>deleteSnapshot\<close>; \<open>logIt\<close> is \<^verbatim>\<open>options.log !== false\<close>.\<close>

definition deleteSnapshot :: "host \<Rightarrow> string \<Rightarrow> bool \<Rightarrow> state \<Rightarrow> (error + unit) \<times> state" where
  "deleteSnapshot h snapshotId logIt s =
     (case find (\<lambda>item. sn_id item = snapshotId) (snapshots (db s)) of
        None \<Rightarrow> (Inr (), s)
      | Some snapshot \<Rightarrow>
          (let tr1 = trace s @ [RemoveDir (sn_storage_path snapshot)]
           in case removeDirSafe h (trace s) (sn_storage_path snapshot) of
                Some e \<Rightarrow> (Inl e, s\<lparr>trace := tr1\<rparr>)
              | None \<Rightarrow>
                  (let db1 = (db s)\<lparr>snapshots :=
                                 filter (\<lambda>item. sn_id item \<noteq> snapshotId) (snapshots (db s)),
                               snapshotFiles :=
                                 filter (\<lambda>item. sf_snapshot_id item \<noteq> snapshotId)
                                   (snapshotFiles (db s))\<rparr>;
                       tr2 = tr1 @ [PersistDb db1]
                   in case persistDb h tr1 db1 of
                        Some e \<Rightarrow> (Inl e, s\<lparr>db := db1, trace := tr2\<rparr>)
                      | None \<Rightarrow>
                          (Inr (),
                           s\<lparr>db := (if logIt
                                     then logEvent db1 (sn_game_id snapshot) BackupEvent
                                            ''Snapshot deleted.''
                                     else db1),
                              trace := tr2\<rparr>))))"

record VerifyResult =
  vr_ok :: bool
  vr_issues :: nat

text \<open>The loop of \<^verbatim>\<open>verifySnapshot\<close> over the snapshot's file rows.\<close>

fun verifyFiles ::
  "platform \<Rightarrow> host \<Rightarrow> string \<Rightarrow> SnapshotManifestPayload \<Rightarrow> SnapshotFile list \<Rightarrow> nat
     \<Rightarrow> fs_event list \<Rightarrow> (error + nat) \<times> fs_event list" where
  "verifyFiles pf h storagePath manifest [] issues tr = (Inr issues, tr)"
| "verifyFiles pf h storagePath manifest (file # rest) issues tr =
     (case resolveSnapshotFileAbsolutePath pf storagePath file manifest of
        Inl e \<Rightarrow> (Inl e, tr)
      | Inr absolutePath \<Rightarrow>
          (let tr1 = tr @ [ExistsSync absolutePath]
           in if \<not> existsSync h tr absolutePath
              then verifyFiles pf h storagePath manifest rest (issues + 1) tr1
              else (case hashFile h tr1 absolutePath of
                      Inl e \<Rightarrow> (Inl e, tr1 @ [HashFile absolutePath])
                    | Inr checksum \<Rightarrow>
                        verifyFiles pf h storagePath manifest rest
                          (if checksum \<noteq> sf_checksum file then issues + 1 else issues)
                          (tr1 @ [HashFile absolutePath]))))"

definition verifySnapshot ::
  "platform \<Rightarrow> host \<Rightarrow> string \<Rightarrow> state \<Rightarrow> (error + VerifyResult) \<times> state" where
  "verifySnapshot pf h snapshotId s =
     (case find (\<lambda>item. sn_id item = snapshotId) (snapshots (db s)) of
        None \<Rightarrow> (Inl (Error ''Snapshot not found''), s)
      | Some snapshot \<Rightarrow>
          (let files = filter (\<lambda>item. sf_snapshot_id item = snapshotId) (snapshotFiles (db s))
           in case readSnapshotManifest pf h (sn_storage_path snapshot) (trace s) of
                (None, tr1) \<Rightarrow>
                  (Inl (Error ''Snapshot manifest is missing or invalid.''), s\<lparr>trace := tr1\<rparr>)
              | (Some manifest, tr1) \<Rightarrow>
                  (case verifyFiles pf h (sn_storage_path snapshot) manifest files 0 tr1 of
                     (Inl e, tr2) \<Rightarrow> (Inl e, s\<lparr>trace := tr2\<rparr>)
                   | (Inr issues, tr2) \<Rightarrow>
                       (Inr \<lparr>vr_ok = (issues = 0), vr_issues = issues\<rparr>, s\<lparr>trace := tr2\<rparr>))))"

subsection \<open>Snapshot and storage folder names\<close>

definition isDirectoryPath :: "host \<Rightarrow> string \<Rightarrow> fs_event list \<Rightarrow> bool \<times> fs_event list" where
  "isDirectoryPath h targetPath tr =
     (let tr1 = tr @ [ExistsSync targetPath]
      in if \<not> existsSync h tr targetPath then (False, tr1)
         else (case statIsDirectory h tr1 targetPath of
                 Inl e \<Rightarrow> (False, tr1 @ [StatIsDirectory targetPath])
               | Inr b \<Rightarrow> (b, tr1 @ [StatIsDirectory targetPath])))"

text \<open>The \<^verbatim>\<open>while\<close> loop of \<^verbatim>\<open>resolveUniqueSnapshotFolderName\<close>: it runs for as long
  as the host reports the candidate as a directory, so it need not return.\<close>

partial_function (option) uniqueSnapshotFolderLoop ::
  "platform \<Rightarrow> host \<Rightarrow> string \<Rightarrow> string \<Rightarrow> string \<Rightarrow> string \<Rightarrow> nat \<Rightarrow> fs_event list
     \<Rightarrow> (string \<times> fs_event list) option" where
  "uniqueSnapshotFolderLoop pf h rootDir gameFolder base candidate suffixNo tr =
     (let r = isDirectoryPath h (getSnapshotRoot pf rootDir gameFolder candidate) tr
      in if fst r
         then uniqueSnapshotFolderLoop pf h rootDir gameFolder base
                (base @ ''_'' @ numberToString suffixNo) (suffixNo + 1) (snd r)
         else Some (candidate, snd r))"

text \<open>\<^verbatim>\<open>formatSnapshotTimestamp\<close> reads the local-time fields of a \<^verbatim>\<open>Date\<close>; it is the
  platform's \<open>formatSnapshotTimestamp\<close>.\<close>

definition resolveUniqueSnapshotFolderName ::
  "platform \<Rightarrow> host \<Rightarrow> string \<Rightarrow> string \<Rightarrow> string \<Rightarrow> fs_event list
     \<Rightarrow> (string \<times> fs_event list) option" where
  "resolveUniqueSnapshotFolderName pf h rootDir gameFolder createdAt tr =
     (let base = formatSnapshotTimestamp pf createdAt
      in uniqueSnapshotFolderLoop pf h rootDir gameFolder base base 2 tr)"

partial_function (option) uniqueFolderNameLoop ::
  "platform \<Rightarrow> string \<Rightarrow> string list \<Rightarrow> string \<Rightarrow> nat \<Rightarrow> string option" where
  "uniqueFolderNameLoop pf base used candidate suffixNo =
     (if toLowerCase pf candidate \<in> set used
      then uniqueFolderNameLoop pf base used
             (base @ '' ('' @ numberToString suffixNo @ '')'') (suffixNo + 1)
      else Some candidate)"

text \<open>\<^verbatim>\<open>ensureUniqueFolderName\<close> returns the name and the grown \<^verbatim>\<open>used\<close> set.\<close>

definition ensureUniqueFolderName ::
  "platform \<Rightarrow> string \<Rightarrow> string list \<Rightarrow> (string \<times> string list) option" where
  "ensureUniqueFolderName pf base used =
     (case uniqueFolderNameLoop pf base used base 2 of
        None \<Rightarrow> None
      | Some candidate \<Rightarrow> Some (candidate, used @ [toLowerCase pf candidate]))"

definition isSlash :: "char \<Rightarrow> bool" where
  "isSlash c = (c = CHR 0x5C \<or> c = CHR ''/'')"

definition resolveLocationStorageFolderBase :: "platform \<Rightarrow> SaveLocation \<Rightarrow> string" where
  "resolveLocationStorageFolderBase pf location =
     (let trimmed = rev (dropWhile isSlash (rev (loc_path location)));
          name = path_basename pf trimmed;
          fallback = (if loc_type location = File then ''File'' else ''Folder'');
          safe = toSafeGameFolderName pf (if name = [] then fallback else name)
      in if length safe > 0 then safe else fallback)"

fun buildLocationStorageFoldersLoop ::
  "platform \<Rightarrow> SaveLocation list \<Rightarrow> (string \<rightharpoonup> string) \<Rightarrow> string list
     \<Rightarrow> (string \<rightharpoonup> string) option" where
  "buildLocationStorageFoldersLoop pf [] folders used = Some folders"
| "buildLocationStorageFoldersLoop pf (location # rest) folders used =
     (case ensureUniqueFolderName pf (resolveLocationStorageFolderBase pf location) used of
        None \<Rightarrow> None
      | Some (unique, used') \<Rightarrow>
          buildLocationStorageFoldersLoop pf rest (folders(loc_id location \<mapsto> unique)) used')"

definition buildLocationStorageFolders ::
  "platform \<Rightarrow> SaveLocation list \<Rightarrow> (string \<rightharpoonup> string) option" where
  "buildLocationStorageFolders pf locations =
     buildLocationStorageFoldersLoop pf locations Map.empty []"

subsection \<open>Retention\<close>

fun deleteSnapshots :: "host \<Rightarrow> Snapshot list \<Rightarrow> state \<Rightarrow> (error + unit) \<times> state" where
  "deleteSnapshots h [] s = (Inr (), s)"
| "deleteSnapshots h (snapshot # rest) s =
     (case deleteSnapshot h (sn_id snapshot) False s of
        (Inl e, s') \<Rightarrow> (Inl e, s')
      | (Inr _, s') \<Rightarrow> deleteSnapshots h rest s')"

text \<open>\<^verbatim>\<open>applyRetentionPolicy\<close>: \<open>keep\<close> is \<^verbatim>\<open>Math.max(1, settings.retentionCount)\<close>,
  the setting read as an integer.\<close>

definition retentionOrder :: "platform \<Rightarrow> string \<Rightarrow> Snapshot list \<Rightarrow> Snapshot list" where
  "retentionOrder pf gameId rows =
     sortBy (\<lambda>left right. localeCompare pf (sn_created_at right) (sn_created_at left))
       (filter (\<lambda>snapshot. sn_game_id snapshot = gameId) rows)"

definition applyRetentionPolicy ::
  "platform \<Rightarrow> host \<Rightarrow> Settings \<Rightarrow> string \<Rightarrow> state \<Rightarrow> (error + unit) \<times> state" where
  "applyRetentionPolicy pf h settings gameId s =
     (let keep = max 1 (retentionCount settings);
          ordered = retentionOrder pf gameId (snapshots (db s));
          toRemove = drop (nat keep) ordered
      in deleteSnapshots h toRemove s)"

subsection \<open>Backup\<close>

definition listFilesForLocation ::
  "host \<Rightarrow> SaveLocation \<Rightarrow> fs_event list \<Rightarrow> (error + string list) \<times> fs_event list" where
  "listFilesForLocation h location tr =
     (if loc_type location = File then (Inr [loc_path location], tr)
      else (walkFiles h tr (loc_path location), tr @ [WalkFiles (loc_path location)]))"

text \<open>The inner loop of \<^verbatim>\<open>backupGame\<close>: copy, stat and hash each file of one location and
  push its row.\<close>

fun backupFiles ::
  "platform \<Rightarrow> host \<Rightarrow> string \<Rightarrow> string \<Rightarrow> (string \<rightharpoonup> string) \<Rightarrow> SaveLocation \<Rightarrow> string list
     \<Rightarrow> SnapshotFile list \<times> nat \<Rightarrow> fs_event list
     \<Rightarrow> (error + SnapshotFile list \<times> nat) \<times> fs_event list" where
  "backupFiles pf h snapshotRoot snapshotId folders location [] acc tr = (Inr acc, tr)"
| "backupFiles pf h snapshotRoot snapshotId folders location (filePath # rest) acc tr =
     (let relativePath =
            (if loc_type location = File then path_basename pf filePath
             else path_relative pf (loc_path location) filePath);
          locationFolder =
            (case folders (loc_id location) of Some f \<Rightarrow> f | None \<Rightarrow> loc_id location);
          destPath = path_join pf [snapshotRoot, locationFolder, relativePath];
          tr1 = tr @ [CopyFile filePath destPath 4]
      in case copyFileWithRetries h tr filePath destPath 4 of
           Some e \<Rightarrow> (Inl e, tr1)
         | None \<Rightarrow>
             (case statSize h tr1 destPath of
                Inl e \<Rightarrow> (Inl e, tr1 @ [StatSize destPath])
              | Inr fileSize \<Rightarrow>
                  (let tr2 = tr1 @ [StatSize destPath]
                   in case hashFile h tr2 destPath of
                        Inl e \<Rightarrow> (Inl e, tr2 @ [HashFile destPath])
                      | Inr checksum \<Rightarrow>
                          (let tr3 = tr2 @ [HashFile destPath];
                               row = \<lparr>sf_id = uuid h tr3, sf_snapshot_id = snapshotId,
                                      sf_location_id = loc_id location,
                                      sf_relative_path = relativePath,
                                      sf_size_bytes = fileSize, sf_checksum = checksum\<rparr>
                           in backupFiles pf h snapshotRoot snapshotId folders location rest
                                (fst acc @ [row], snd acc + fileSize) (tr3 @ [Uuid])))))"

text \<open>The outer loop over the enabled locations; the accumulator is
  \<^verbatim>\<open>snapshotFiles\<close>, \<^verbatim>\<open>totalSize\<close> and \<^verbatim>\<open>warnings\<close>.\<close>

fun backupLocations ::
  "platform \<Rightarrow> host \<Rightarrow> string \<Rightarrow> string \<Rightarrow> string \<Rightarrow> (string \<rightharpoonup> string) \<Rightarrow> SaveLocation list
     \<Rightarrow> SnapshotFile list \<times> nat \<times> nat \<Rightarrow> state
     \<Rightarrow> (error + SnapshotFile list \<times> nat \<times> nat) \<times> state" where
  "backupLocations pf h gameId snapshotRoot snapshotId folders [] acc s = (Inr acc, s)"
| "backupLocations pf h gameId snapshotRoot snapshotId folders (location # rest) acc s =
     (let tr1 = trace s @ [ExistsSync (loc_path location)]
      in if \<not> existsSync h (trace s) (loc_path location)
         then backupLocations pf h gameId snapshotRoot snapshotId folders rest
                (fst acc, fst (snd acc), snd (snd acc) + 1)
                (s\<lparr>db := logEvent (db s) gameId ErrorEvent
                             (''Save location missing: '' @ loc_path location),
                   trace := tr1\<rparr>)
         else (case listFilesForLocation h location tr1 of
                 (Inl e, tr2) \<Rightarrow> (Inl e, s\<lparr>trace := tr2\<rparr>)
               | (Inr files, tr2) \<Rightarrow>
                   (case backupFiles pf h snapshotRoot snapshotId folders location files
                           (fst acc, fst (snd acc)) tr2 of
                      (Inl e, tr3) \<Rightarrow> (Inl e, s\<lparr>trace := tr3\<rparr>)
                    | (Inr acc', tr3) \<Rightarrow>
                        backupLocations pf h gameId snapshotRoot snapshotId folders rest
                          (fst acc', snd acc', snd (snd acc)) (s\<lparr>trace := tr3\<rparr>))))"

definition manifestLocationsOf ::
  "SaveLocation list \<Rightarrow> (string \<rightharpoonup> string) \<Rightarrow> (string \<rightharpoonup> SnapshotManifestLocation)" where
  "manifestLocationsOf locations folders =
     fold (\<lambda>location m.
            m(loc_id location \<mapsto>
               \<lparr>ml_path = loc_path location, ml_type = loc_type location,
                 ml_auto_detected = loc_auto_detected location, ml_enabled = loc_enabled location,
                 ml_storage_folder =
                   (case folders (loc_id location) of Some f \<Rightarrow> f | None \<Rightarrow> loc_id location)\<rparr>))
       locations Map.empty"

definition writeSnapshotManifest ::
  "platform \<Rightarrow> host \<Rightarrow> string \<Rightarrow> Snapshot \<Rightarrow> SaveLocation list \<Rightarrow> (string \<rightharpoonup> string)
     \<Rightarrow> fs_event list \<Rightarrow> error option \<times> fs_event list" where
  "writeSnapshotManifest pf h snapshotRoot snapshot locations folders tr =
     (let payload = \<lparr>mf_snapshot_id = sn_id snapshot, mf_created_at = sn_created_at snapshot,
                      mf_reason = sn_reason snapshot,
                      mf_locations = manifestLocationsOf locations folders\<rparr>;
          manifestPath = path_join pf [snapshotRoot, SNAPSHOT_MANIFEST_FILE_NAME]
      in (writeManifestFile h tr manifestPath payload, tr @ [WriteManifest manifestPath payload]))"

fun reasonText :: "SnapshotReason \<Rightarrow> string" where
  "reasonText Auto = ''auto''"
| "reasonText Manual = ''manual''"
| "reasonText PreRestore = ''pre-restore''"

text \<open>\<^verbatim>\<open>error.message || error\<close> in a template literal.\<close>

fun errorText :: "error \<Rightarrow> string" where
  "errorText (Error message) = (if message = [] then ''Error'' else message)"

text \<open>The \<^verbatim>\<open>try\<close> block of \<^verbatim>\<open>backupGame\<close>. \<open>Inl\<close> is an exception on its way to the
  \<^verbatim>\<open>catch\<close> clause, \<open>Inr None\<close> is \<^verbatim>\<open>return null\<close>.\<close>

definition backupTry ::
  "platform \<Rightarrow> host \<Rightarrow> Settings \<Rightarrow> string \<Rightarrow> SnapshotReason \<Rightarrow> bool \<Rightarrow> string \<Rightarrow> string \<Rightarrow> string
     \<Rightarrow> state \<Rightarrow> ((error + Snapshot option) \<times> state) option" where
  "backupTry pf h settings gameId reason skipRetention snapshotId createdAt snapshotRoot s =
     (let tr1 = trace s @ [EnsureDir snapshotRoot]
      in case ensureDir h (trace s) snapshotRoot of
           Some e \<Rightarrow> Some (Inl e, s\<lparr>trace := tr1\<rparr>)
         | None \<Rightarrow>
            (let locations = filter loc_enabled (listSaveLocations (db s) gameId)
             in case buildLocationStorageFolders pf locations of
                  None \<Rightarrow> None
                | Some locationStorageFolders \<Rightarrow>
                   if length locations = 0 then
                     Some (Inr None,
                           s\<lparr>db := logEvent (updateGameStatus (db s) gameId Warning) gameId
                                      ErrorEvent ''Backup skipped: no enabled save locations.'',
                              trace := tr1\<rparr>)
                   else
                    (case backupLocations pf h gameId snapshotRoot snapshotId
                            locationStorageFolders locations ([], 0, 0) (s\<lparr>trace := tr1\<rparr>) of
                       (Inl e, s2) \<Rightarrow> Some (Inl e, s2)
                     | (Inr (fileRows, totalSize, warnings), s2) \<Rightarrow>
                        if length fileRows = 0 then
                          (let d = logEvent (updateGameStatus (db s2) gameId Warning) gameId
                                     ErrorEvent
                                     ''Backup skipped: no files found in enabled save locations.'';
                               tr3 = trace s2 @ [RemoveDir snapshotRoot]
                           in case removeDirSafe h (trace s2) snapshotRoot of
                                Some e \<Rightarrow> Some (Inl e, s2\<lparr>db := d, trace := tr3\<rparr>)
                              | None \<Rightarrow> Some (Inr None, s2\<lparr>db := d, trace := tr3\<rparr>))
                        else
                          (let snapshot =
                                 \<lparr>sn_id = snapshotId, sn_game_id = gameId,
                                   sn_created_at = createdAt, sn_size_bytes = totalSize,
                                   sn_checksum = computeSnapshotChecksum pf fileRows,
                                   sn_storage_path = snapshotRoot, sn_reason = reason\<rparr>
                           in case writeSnapshotManifest pf h snapshotRoot snapshot locations
                                     locationStorageFolders (trace s2) of
                                (Some e, tr3) \<Rightarrow> Some (Inl e, s2\<lparr>trace := tr3\<rparr>)
                              | (None, tr3) \<Rightarrow>
                                 (let d1 = (db s2)\<lparr>snapshots := snapshots (db s2) @ [snapshot],
                                                    snapshotFiles :=
                                                      snapshotFiles (db s2) @ fileRows\<rparr>;
                                      tr4 = tr3 @ [PersistDb d1];
                                      s3 = s2\<lparr>db := d1, trace := tr4\<rparr>
                                  in case persistDb h tr3 d1 of
                                       Some e \<Rightarrow> Some (Inl e, s3)
                                     | None \<Rightarrow>
                                        (case (if skipRetention then (Inr (), s3)
                                               else applyRetentionPolicy pf h settings gameId s3) of
                                           (Inl e, s4) \<Rightarrow> Some (Inl e, s4)
                                         | (Inr _, s4) \<Rightarrow>
                                            Some (Inr (Some snapshot),
                                                  s4\<lparr>db :=
                                                       logEvent
                                                         (updateGameStatus (db s4) gameId
                                                            (if warnings > 0 then Warning
                                                             else Protected))
                                                         gameId BackupEvent
                                                         (''Snapshot created ('' @ reasonText reason
                                                            @ '').'')\<rparr>)))))))"

text \<open>\<^verbatim>\<open>backupGame\<close>. The result is \<open>None\<close> when one of the naming loops does not
  return; \<open>Some (Inl e, s)\<close> is a rejected promise, \<open>Some (Inr None, s)\<close> is
  \<^verbatim>\<open>null\<close>.\<close>

definition backupGame ::
  "platform \<Rightarrow> host \<Rightarrow> Settings \<Rightarrow> string \<Rightarrow> SnapshotReason \<Rightarrow> bool \<Rightarrow> state
     \<Rightarrow> ((error + Snapshot option) \<times> state) option" where
  "backupGame pf h settings gameId reason skipRetention s =
     (if gameId \<in> inFlight s then Some (Inr None, s)
      else
       (let s1 = s\<lparr>inFlight := insert gameId (inFlight s)\<rparr>
        in case getStoredGameById (db s1) gameId of
             None \<Rightarrow>
               Some (Inl (Error ''Game not found''), s1\<lparr>inFlight := inFlight s1 - {gameId}\<rparr>)
           | Some game \<Rightarrow>
              (let snapshotId = uuid h (trace s1);
                   tr1 = trace s1 @ [Uuid];
                   createdAt = nowISOString h tr1;
                   tr2 = tr1 @ [Now]
               in case resolveUniqueSnapshotFolderName pf h (storageRoot settings)
                         (g_folder_name game) createdAt tr2 of
                    None \<Rightarrow> None
                  | Some (snapshotFolder, tr3) \<Rightarrow>
                     (let snapshotRoot =
                            getSnapshotRoot pf (storageRoot settings) (g_folder_name game)
                              snapshotFolder
                      in case backupTry pf h settings gameId reason skipRetention snapshotId
                                createdAt snapshotRoot (s1\<lparr>trace := tr3\<rparr>) of
                           None \<Rightarrow> None
                         | Some (Inr r, s2) \<Rightarrow>
                             Some (Inr r, s2\<lparr>inFlight := inFlight s2 - {gameId}\<rparr>)
                         | Some (Inl e, s2) \<Rightarrow>
                            (let d = logEvent (updateGameStatus (db s2) gameId Warning) gameId
                                       ErrorEvent (''Backup failed: '' @ errorText e);
                                 tr4 = trace s2 @ [RemoveDir snapshotRoot];
                                 s3 = s2\<lparr>db := d, trace := tr4,
                                         inFlight := inFlight s2 - {gameId}\<rparr>
                             in case removeDirSafe h (trace s2) snapshotRoot of
                                  Some e' \<Rightarrow> Some (Inl e', s3)
                                | None \<Rightarrow> Some (Inl e, s3))))))"

subsection \<open>Restore\<close>

text \<open>The loop of \<^verbatim>\<open>restoreSnapshot\<close> over the snapshot's file rows.\<close>

fun restoreFiles ::
  "platform \<Rightarrow> host \<Rightarrow> string \<Rightarrow> SnapshotManifestPayload \<Rightarrow> (string \<rightharpoonup> SaveLocation)
     \<Rightarrow> SnapshotFile list \<Rightarrow> fs_event list \<Rightarrow> (error + unit) \<times> fs_event list" where
  "restoreFiles pf h storagePath manifest locationMap [] tr = (Inr (), tr)"
| "restoreFiles pf h storagePath manifest locationMap (file # rest) tr =
     (case locationMap (sf_location_id file) of
        None \<Rightarrow> restoreFiles pf h storagePath manifest locationMap rest tr
      | Some location \<Rightarrow>
          if \<not> loc_enabled location
          then restoreFiles pf h storagePath manifest locationMap rest tr
          else (case resolveSnapshotFileAbsolutePath pf storagePath file manifest of
                  Inl e \<Rightarrow> (Inl e, tr)
                | Inr sourcePath \<Rightarrow>
                    (let tr1 = tr @ [ExistsSync sourcePath]
                     in if \<not> existsSync h tr sourcePath
                        then restoreFiles pf h storagePath manifest locationMap rest tr1
                        else
                         (let destRoot = (if loc_type location = File
                                          then path_dirname pf (loc_path location)
                                          else loc_path location);
                              destPath = path_resolve pf [destRoot, sf_relative_path file]
                          in case assertPathWithinRoot pf destRoot destPath
                                    ''Restore destination path'' of
                               Inl e \<Rightarrow> (Inl e, tr1)
                             | Inr _ \<Rightarrow>
                                 (case copyFileWithRetries h tr1 sourcePath destPath 3 of
                                    Some e \<Rightarrow> (Inl e, tr1 @ [CopyFile sourcePath destPath 3])
                                  | None \<Rightarrow>
                                      restoreFiles pf h storagePath manifest locationMap rest
                                        (tr1 @ [CopyFile sourcePath destPath 3]))))))"

definition restoreSnapshot ::
  "platform \<Rightarrow> host \<Rightarrow> Settings \<Rightarrow> string \<Rightarrow> state \<Rightarrow> ((error + unit) \<times> state) option" where
  "restoreSnapshot pf h settings snapshotId s =
     (case find (\<lambda>item. sn_id item = snapshotId) (snapshots (db s)) of
        None \<Rightarrow> Some (Inl (Error ''Snapshot not found''), s)
      | Some snapshot \<Rightarrow>
         (let gameId = sn_game_id snapshot;
              locationMap =
                map_of (rev (map (\<lambda>loc. (loc_id loc, loc)) (listSaveLocations (db s) gameId)));
              files = filter (\<lambda>item. sf_snapshot_id item = snapshotId) (snapshotFiles (db s))
          in case readSnapshotManifest pf h (sn_storage_path snapshot) (trace s) of
               (None, tr1) \<Rightarrow>
                 Some (Inl (Error ''Snapshot manifest is missing or invalid.''), s\<lparr>trace := tr1\<rparr>)
             | (Some manifest, tr1) \<Rightarrow>
                (case backupGame pf h settings gameId PreRestore True (s\<lparr>trace := tr1\<rparr>) of
                   None \<Rightarrow> None
                 | Some (Inl e, s2) \<Rightarrow> Some (Inl e, s2)
                 | Some (Inr None, s2) \<Rightarrow>
                     Some (Inl (Error
                             ''Restore blocked: failed to create safety backup before restore.''),
                           s2)
                 | Some (Inr (Some safetySnapshot), s2) \<Rightarrow>
                    (case restoreFiles pf h (sn_storage_path snapshot) manifest locationMap files
                            (trace s2) of
                       (Inl e, tr3) \<Rightarrow> Some (Inl e, s2\<lparr>trace := tr3\<rparr>)
                     | (Inr _, tr3) \<Rightarrow>
                         Some (Inr (),
                               s2\<lparr>db := logEvent (db s2) gameId RestoreEvent
                                           (''Snapshot restored ('' @ sn_created_at snapshot
                                              @ '').''),
                                  trace := tr3\<rparr>)))))"

subsection \<open>The containment rule in the words of the specification\<close>

text \<open>The specification's \<^verbatim>\<open>assert_within(root, target)\<close>: after normalization the
  target equals the root or begins with the root followed by the separator. It is
  compared with \<open>assertPathWithinRoot\<close> below.\<close>

definition specWithinRoot :: "platform \<Rightarrow> string \<Rightarrow> string \<Rightarrow> bool" where
  "specWithinRoot pf rootPath targetPath =
     (normalizePathForKey pf targetPath = normalizePathForKey pf rootPath
      \<or> prefix (normalizePathForKey pf rootPath @ path_sep pf) (normalizePathForKey pf targetPath))"

subsection \<open>File copies in the history of host calls\<close>

text \<open>\<^verbatim>\<open>copyFileWithRetries\<close> is the only call by which the backup service writes a
  save file: into the snapshot directory on backup, into the save location on restore.\<close>

definition isCopyFile :: "fs_event \<Rightarrow> bool" where
  "isCopyFile ev = (case ev of CopyFile src dst n \<Rightarrow> True | _ \<Rightarrow> False)"

section \<open>Catalog save-path detection\<close>

text \<open>
  \<^verbatim>\<open>catalogSaveDetectionService.ts\<close>. The \<^verbatim>\<open>debug\<close> object, which the service only
  writes, is left out of progress payloads and results.
\<close>

subsection \<open>Numbers\<close>

text \<open>
  Scores and percentages are JavaScript numbers, IEEE 754 binary64. A finite double is
  represented by the rational it denotes. A decimal literal denotes the double nearest to
  it, and an arithmetic operation gives the double nearest to the exact result, ties going
  to the even significand; \<^verbatim>\<open>toDouble\<close> is that rounding, with 53 significant bits
  and the subnormal spacing below \<^verbatim>\<open>2^-1022\<close>. Comparisons, \<^verbatim>\<open>Math.min\<close> and
  \<^verbatim>\<open>Math.max\<close> are exact. Infinities, NaN and the sign of zero are not represented:
  the service divides a count by a positive count, adds 0.15, subtracts two scores and
  multiplies a quotient by 70, all within the range from -2 to 70; the counts are below
  \<^verbatim>\<open>2^53\<close> and so are doubles themselves.
\<close>

type_synonym double = rat

definition twoPower :: "int \<Rightarrow> rat" where
  "twoPower k = (if 0 \<le> k then 2 ^ nat k else 1 / 2 ^ nat (- k))"

text \<open>The integer nearest to a rational, the even one of two equally near.\<close>

definition roundHalfEven :: "rat \<Rightarrow> int" where
  "roundHalfEven q =
     (let f = \<lfloor>q\<rfloor>; r = q - of_int f
      in if r < 1 / 2 then f else if 1 / 2 < r then f + 1 else if even f then f else f + 1)"

text \<open>The exponent \<^verbatim>\<open>e\<close> with \<^verbatim>\<open>2^e <= q < 2^(e+1)\<close>, for positive \<^verbatim>\<open>q\<close>:
  the bit lengths of numerator and denominator fix it up to one.\<close>

definition binaryExponent :: "rat \<Rightarrow> int" where
  "binaryExponent q =
     (let k = bitlen (fst (quotient_of q)) - bitlen (snd (quotient_of q))
      in if twoPower k \<le> q then k else k - 1)"

definition toDouble :: "rat \<Rightarrow> double" where
  "toDouble q =
     (if q = 0 then 0
      else (let e = max (binaryExponent \<bar>q\<bar>) (- 1022); ulp = twoPower (e - 52)
            in sgn q * of_int (roundHalfEven (\<bar>q\<bar> / ulp)) * ulp))"

definition doubleAdd :: "double \<Rightarrow> double \<Rightarrow> double" where
  "doubleAdd x y = toDouble (x + y)"

definition doubleSub :: "double \<Rightarrow> double \<Rightarrow> double" where
  "doubleSub x y = toDouble (x - y)"

definition doubleMul :: "double \<Rightarrow> double \<Rightarrow> double" where
  "doubleMul x y = toDouble (x * y)"

definition doubleDiv :: "double \<Rightarrow> double \<Rightarrow> double" where
  "doubleDiv x y = toDouble (x / y)"

subsection \<open>Types\<close>

datatype DetectionStatus =
  CatalogMissing | CatalogInvalid | NoMatch | NoWindowsLocations | NoValidCandidates | Matched

record CatalogLocation =
  cl_system :: string
  cl_location :: string

record ParsedCatalogEntry =
  pe_title :: string
  pe_saveLocations :: "CatalogLocation list"

record ExeMetadata =
  productName :: "string option"
  fileDescription :: "string option"

datatype CandidateSource = Filesystem | Registry

record CatalogSavePathCandidate =
  cand_path :: string
  cand_score :: double
  cand_source :: CandidateSource
  cand_rawLocation :: string
  cand_reasons :: "string list"

record CatalogSaveDetectionProgress =
  pr_percent :: int
  pr_processed :: int
  pr_total :: int
  pr_message :: string
  pr_matchedTitle :: "string option"

record CatalogSaveDetectionResult =
  rs_status :: DetectionStatus
  rs_matchedTitle :: "string option"
  rs_matchScore :: double
  rs_titleAmbiguous :: bool
  rs_candidates :: "CatalogSavePathCandidate list"
  rs_metadata :: "ExeMetadata option"
  rs_warnings :: "string list"

text \<open>The progress callback is caller code: it sees the payload (and, being stateful,
  the payloads it was given before) and either returns or throws.\<close>

type_synonym progressCallback =
  "CatalogSaveDetectionProgress list \<Rightarrow> CatalogSaveDetectionProgress \<Rightarrow> error option"

record CatalogSaveDetectionInput =
  catalogPath :: string
  gameName :: string
  exePath :: string
  installPath :: string
  onProgress :: "progressCallback option"

text \<open>\<^verbatim>\<open>CatalogDetectionAdapters\<close>. The metadata, registry and Steam adapters are called
  with \<^verbatim>\<open>.catch\<close>, so their rejection is already folded into the value
  (\<^verbatim>\<open>null\<close> or the empty list); the catalog loader is awaited bare and may reject.\<close>

record CatalogDetectionAdapters =
  ad_readExeMetadata :: "(string \<Rightarrow> ExeMetadata option) option"
  ad_readRegistryValues :: "(string \<Rightarrow> string list) option"
  ad_listSteamLibraries :: "string list option"
  ad_loadCatalogEntries :: "(string \<Rightarrow> error + ParsedCatalogEntry list option) option"

record ResolveContext =
  rc_installPath :: string
  rc_gameName :: string
  rc_steamLibraries :: "string list"

text \<open>
  What the machine answers during one detection: the catalog file (existence,
  modification time, parsed content; \<open>None\<close> is the call throwing), the default
  adapters, and the two functions of the service that walk the file system and the
  environment, \<^verbatim>\<open>expandLocationTemplate\<close> and \<^verbatim>\<open>scoreCandidatePath\<close>.
\<close>

record catalogHost =
  ch_existsSync :: "string \<Rightarrow> bool"
  ch_statMtimeMs :: "string \<Rightarrow> rat option"
  ch_readJson :: "string \<Rightarrow> json option"
  ch_readExeMetadataFromFile :: "string \<Rightarrow> ExeMetadata option"
  ch_readRegistryValuesFromKey :: "string \<Rightarrow> string list"
  ch_detectSteamLibraries :: "string list"
  ch_expandLocationTemplate :: "string \<Rightarrow> ResolveContext \<Rightarrow> string list"
  ch_scoreCandidatePath ::
    "string \<Rightarrow> CandidateSource \<Rightarrow> string \<Rightarrow> CatalogSavePathCandidate option"

text \<open>The module-level \<^verbatim>\<open>catalogCache\<close> and the payloads handed to the callback so
  far.\<close>

record detectionState =
  catalogCache :: "string \<rightharpoonup> rat \<times> ParsedCatalogEntry list"
  delivered :: "CatalogSaveDetectionProgress list"

subsection \<open>Regular expressions of the service, as string functions\<close>

definition isWordChar :: "char \<Rightarrow> bool" where
  "isWordChar c =
     (let n = (of_char c :: nat)
      in (48 \<le> n \<and> n \<le> 57) \<or> (65 \<le> n \<and> n \<le> 90) \<or> n = 95 \<or> (97 \<le> n \<and> n \<le> 122))"

definition isLowerAlnum :: "char \<Rightarrow> bool" where
  "isLowerAlnum c =
     (let n = (of_char c :: nat) in (48 \<le> n \<and> n \<le> 57) \<or> (97 \<le> n \<and> n \<le> 122))"

definition isAsciiLetter :: "char \<Rightarrow> bool" where
  "isAsciiLetter c =
     (let n = (of_char c :: nat) in (65 \<le> n \<and> n \<le> 90) \<or> (97 \<le> n \<and> n \<le> 122))"

text \<open>The \<^verbatim>\<open>i\<close> flag of a regular expression without the \<^verbatim>\<open>u\<close> flag: letters of
  ASCII match in either case.\<close>

definition asciiLowerChar :: "char \<Rightarrow> char" where
  "asciiLowerChar c =
     (let n = (of_char c :: nat) in if 65 \<le> n \<and> n \<le> 90 then char_of (n + 32) else c)"

definition prefixIgnoreCase :: "string \<Rightarrow> string \<Rightarrow> bool" where
  "prefixIgnoreCase pat s =
     (map asciiLowerChar pat = map asciiLowerChar (take (length pat) s))"

text \<open>\<^verbatim>\<open>s.replace(/\bw\b/g, r)\<close> for a word \<open>w\<close> of word characters: a maximal run of
  word characters that equals \<open>w\<close> becomes \<open>r\<close>. The run read so far is kept
  reversed.\<close>

definition flushRun :: "string \<Rightarrow> string \<Rightarrow> string \<Rightarrow> string" where
  "flushRun w r run = (if rev run = w then r else rev run)"

fun replaceWordFrom :: "string \<Rightarrow> string \<Rightarrow> string \<Rightarrow> string \<Rightarrow> string" where
  "replaceWordFrom w r run [] = flushRun w r run"
| "replaceWordFrom w r run (c # cs) =
     (if isWordChar c then replaceWordFrom w r (c # run) cs
      else flushRun w r run @ c # replaceWordFrom w r [] cs)"

definition replaceWord :: "string \<Rightarrow> string \<Rightarrow> string \<Rightarrow> string" where
  "replaceWord w r s = replaceWordFrom w r [] s"

text \<open>\<^verbatim>\<open>s.replace(/pat/g, rep)\<close> for a literal, non-empty pattern.\<close>

fun replaceAllFrom :: "string \<Rightarrow> string \<Rightarrow> nat \<Rightarrow> string \<Rightarrow> string" where
  "replaceAllFrom pat rep skip [] = []"
| "replaceAllFrom pat rep skip (c # cs) =
     (if skip > 0 then replaceAllFrom pat rep (skip - 1) cs
      else if pat \<noteq> [] \<and> prefix pat (c # cs)
           then rep @ replaceAllFrom pat rep (length pat - 1) cs
           else c # replaceAllFrom pat rep 0 cs)"

definition replaceAll :: "string \<Rightarrow> string \<Rightarrow> string \<Rightarrow> string" where
  "replaceAll pat rep s = replaceAllFrom pat rep 0 s"

text \<open>\<^verbatim>\<open>s.replace(/[class]+/g, ' ')\<close>: every maximal run of characters of the class
  becomes one space.\<close>

fun collapseRunsFrom :: "(char \<Rightarrow> bool) \<Rightarrow> bool \<Rightarrow> string \<Rightarrow> string" where
  "collapseRunsFrom P inRun [] = []"
| "collapseRunsFrom P inRun (c # cs) =
     (if P c then (if inRun then collapseRunsFrom P True cs
                   else CHR '' '' # collapseRunsFrom P True cs)
      else c # collapseRunsFrom P False cs)"

definition collapseRuns :: "(char \<Rightarrow> bool) \<Rightarrow> string \<Rightarrow> string" where
  "collapseRuns P s = collapseRunsFrom P False s"

text \<open>\<^verbatim>\<open>String.prototype.includes\<close>.\<close>

fun stringIncludes :: "string \<Rightarrow> string \<Rightarrow> bool" where
  "stringIncludes [] t = (t = [])"
| "stringIncludes (c # cs) t = (prefix t (c # cs) \<or> stringIncludes cs t)"

subsection \<open>Title similarity\<close>

definition romanNumerals :: "(string \<times> string) list" where
  "romanNumerals =
     [(''xx'', ''20''), (''xix'', ''19''), (''xviii'', ''18''), (''xvii'', ''17''),
      (''xvi'', ''16''), (''xv'', ''15''), (''xiv'', ''14''), (''xiii'', ''13''),
      (''xii'', ''12''), (''xi'', ''11''), (''x'', ''10''), (''ix'', ''9''),
      (''viii'', ''8''), (''vii'', ''7''), (''vi'', ''6''), (''v'', ''5''), (''iv'', ''4''),
      (''iii'', ''3''), (''ii'', ''2''), (''i'', ''1'')]"

definition normalizeTitle :: "platform \<Rightarrow> string \<Rightarrow> string" where
  "normalizeTitle pf v =
     (let romanNormalized =
            fold (\<lambda>wr s. replaceWord (fst wr) (snd wr) s) romanNumerals (toLowerCase pf v)
      in trim
           (collapseRuns isWhiteSpace
              (collapseRuns (\<lambda>c. \<not> isLowerAlnum c)
                 (replaceAll ''game of the year'' ''goty''
                    (replaceAll ''definitive edition'' ''de'' romanNormalized)))))"

definition scoreTitleSimilarity :: "platform \<Rightarrow> string \<Rightarrow> string \<Rightarrow> double" where
  "scoreTitleSimilarity pf leftTitle rightTitle =
     (let leftNorm = normalizeTitle pf leftTitle;
          rightNorm = normalizeTitle pf rightTitle
      in if leftNorm = [] \<or> rightNorm = [] then 0
         else if leftNorm = rightNorm then 1
         else
          (let leftTokens = filter (\<lambda>t. t \<noteq> []) (splitOn CHR '' '' leftNorm);
               rightTokens = filter (\<lambda>t. t \<noteq> []) (splitOn CHR '' '' rightNorm)
           in if length leftTokens = 0 \<or> length rightTokens = 0 then 0
              else
               (let leftSet = remdups leftTokens;
                    rightSet = remdups rightTokens;
                    overlap = length (filter (\<lambda>token. token \<in> set rightSet) leftSet);
                    unionSize = length (remdups (leftSet @ rightSet));
                    jaccard = (if unionSize > 0
                               then doubleDiv (of_nat overlap) (of_nat unionSize) else 0);
                    containsBonus =
                      (if stringIncludes leftNorm rightNorm \<or> stringIncludes rightNorm leftNorm
                       then toDouble (15 / 100) else 0)
                in min 1 (doubleAdd jaccard containsBonus))))"

subsection \<open>Lists of strings\<close>

fun dedupeStringsFrom :: "platform \<Rightarrow> string list \<Rightarrow> string list \<Rightarrow> string list" where
  "dedupeStringsFrom pf seen [] = []"
| "dedupeStringsFrom pf seen (v # rest) =
     (let trimmed = trim v
      in if trimmed = [] then dedupeStringsFrom pf seen rest
         else (let key = toLowerCase pf trimmed
               in if key \<in> set seen then dedupeStringsFrom pf seen rest
                  else trimmed # dedupeStringsFrom pf (seen @ [key]) rest))"

definition dedupeStrings :: "platform \<Rightarrow> string list \<Rightarrow> string list" where
  "dedupeStrings pf vs = dedupeStringsFrom pf [] vs"

subsection \<open>Composite location strings\<close>

text \<open>One alternative of \<^verbatim>\<open>LOCATION_SPLIT_START_PATTERN\<close> anchored at the head of the
  string: the length of the match. \<open>delimited close cs\<close> is
  \<^verbatim>\<open>[^close]+close\<close> after the opening character.\<close>

definition delimited :: "char \<Rightarrow> string \<Rightarrow> nat option" where
  "delimited close cs =
     (let inner = takeWhile (\<lambda>c. c \<noteq> close) cs
      in if inner \<noteq> [] \<and> length inner < length cs then Some (length inner + 2) else None)"

definition registryRootNames :: "string list" where
  "registryRootNames = [''HKEY_CURRENT_USER'', ''HKEY_LOCAL_MACHINE'', ''HKCU'', ''HKLM'']"

definition registryPrefix :: "string \<Rightarrow> nat option" where
  "registryPrefix s =
     (case filter (\<lambda>name. prefixIgnoreCase (name @ [CHR 0x5C]) s) registryRootNames of
        [] \<Rightarrow> None
      | name # others \<Rightarrow> Some (length name + 1))"

definition matchLengthAt :: "string \<Rightarrow> nat option" where
  "matchLengthAt s =
     (case s of
        [] \<Rightarrow> None
      | c # cs \<Rightarrow>
          if c = CHR ''<'' then delimited CHR ''>'' cs
          else if c = CHR ''%'' then delimited CHR ''%'' cs
          else (case registryPrefix s of
                  Some n \<Rightarrow> Some n
                | None \<Rightarrow>
                    if isAsciiLetter c \<and> prefix [CHR '':'', CHR 0x5C] cs then Some 3 else None))"

text \<open>\<^verbatim>\<open>normalized.matchAll(pattern)\<close>: the indices of the matches, left to right,
  a match starting where the previous one ended at the earliest.\<close>

fun matchStartsFrom :: "nat \<Rightarrow> nat \<Rightarrow> string \<Rightarrow> nat list" where
  "matchStartsFrom skip i [] = []"
| "matchStartsFrom skip i (c # cs) =
     (if skip > 0 then matchStartsFrom (skip - 1) (i + 1) cs
      else (case matchLengthAt (c # cs) of
              None \<Rightarrow> matchStartsFrom 0 (i + 1) cs
            | Some n \<Rightarrow> i # matchStartsFrom (n - 1) (i + 1) cs))"

definition isListSeparator :: "char \<Rightarrow> bool" where
  "isListSeparator c = (isWhiteSpace c \<or> c = CHR '','' \<or> c = CHR '';'' \<or> c = CHR ''|'')"

definition isListPunctuation :: "char \<Rightarrow> bool" where
  "isListPunctuation c = (c = CHR '','' \<or> c = CHR '';'' \<or> c = CHR ''|'')"

definition isSimpleSplitChar :: "char \<Rightarrow> bool" where
  "isSimpleSplitChar c = (c = CHR '';'' \<or> c = CHR 0x0A \<or> c = CHR 0x0D)"

text \<open>\<^verbatim>\<open>s.split(/[;\n\r]+/g)\<close> followed by \<^verbatim>\<open>trim\<close> and the removal of empty
  items.\<close>

fun splitWhere :: "(char \<Rightarrow> bool) \<Rightarrow> string \<Rightarrow> string list" where
  "splitWhere P [] = [[]]"
| "splitWhere P (x # xs) =
     (if P x then [] # splitWhere P xs
      else (case splitWhere P xs of [] \<Rightarrow> [[x]] | seg # segs \<Rightarrow> (x # seg) # segs))"

text \<open>\<^verbatim>\<open>s.replace(/\r?\n/g, ' ')\<close>.\<close>

fun replaceLineBreaks :: "string \<Rightarrow> string" where
  "replaceLineBreaks [] = []"
| "replaceLineBreaks [c] = (if c = CHR 0x0A then '' '' else [c])"
| "replaceLineBreaks (c # d # cs) =
     (if c = CHR 0x0D \<and> d = CHR 0x0A then CHR '' '' # replaceLineBreaks cs
      else if c = CHR 0x0A then CHR '' '' # replaceLineBreaks (d # cs)
      else c # replaceLineBreaks (d # cs))"

definition cleanSegment :: "string \<Rightarrow> string" where
  "cleanSegment s =
     trim (rev (dropWhile isListPunctuation (rev (dropWhile isListPunctuation (trim s)))))"

fun sliceSegments :: "string \<Rightarrow> nat list \<Rightarrow> string list" where
  "sliceSegments normalized [] = []"
| "sliceSegments normalized [start] = [drop start normalized]"
| "sliceSegments normalized (start # following # later) =
     take (following - start) (drop start normalized)
       # sliceSegments normalized (following # later)"

definition splitCompositeLocation :: "string \<Rightarrow> string list" where
  "splitCompositeLocation location =
     (let normalized = trim (replaceLineBreaks location)
      in if normalized = [] then []
         else
          (let starts = filter (\<lambda>i. i = 0 \<or> isListSeparator (normalized ! (i - 1)))
                          (matchStartsFrom 0 0 normalized);
               uniqueStarts = sort (remdups starts)
           in if length uniqueStarts \<le> 1 then
                (let simpleSplit = filter (\<lambda>item. item \<noteq> [])
                                     (map trim (splitWhere isSimpleSplitChar normalized))
                 in if length simpleSplit > 1 then simpleSplit else [normalized])
              else
                (let segments = filter (\<lambda>segment. segment \<noteq> [])
                                  (map cleanSegment (sliceSegments normalized uniqueStarts))
                 in if length segments > 0 then segments else [normalized])))"

subsection \<open>Loading the catalog\<close>

text \<open>JavaScript truthiness of a parsed JSON value.\<close>

fun isTruthy :: "json \<Rightarrow> bool" where
  "isTruthy JNull = False"
| "isTruthy (JBool b) = b"
| "isTruthy (JNumber n) = (n \<noteq> 0)"
| "isTruthy (JString s) = (s \<noteq> [])"
| "isTruthy (JArray xs) = True"
| "isTruthy (JObject kvs) = True"

fun isArray :: "json \<Rightarrow> bool" where
  "isArray (JArray xs) = True"
| "isArray _ = False"

definition getCatalogGamesArray :: "json \<Rightarrow> json list option" where
  "getCatalogGamesArray input =
     (if \<not> isTruthy input \<or> \<not> isObjectValue input \<or> isArray input then None
      else (case jsonField input ''games'' of
              Some (JArray gamesArray) \<Rightarrow> Some gamesArray
            | _ \<Rightarrow> None))"

definition jsonTrimmedString :: "json option \<Rightarrow> string" where
  "jsonTrimmedString v = (case v of Some (JString s) \<Rightarrow> trim s | _ \<Rightarrow> [])"

fun dedupeLocationsFrom ::
  "platform \<Rightarrow> string list \<Rightarrow> CatalogLocation list \<Rightarrow> CatalogLocation list" where
  "dedupeLocationsFrom pf seen [] = []"
| "dedupeLocationsFrom pf seen (item # rest) =
     (let key = toLowerCase pf (cl_system item) @ ''|'' @ toLowerCase pf (cl_location item)
      in if key \<in> set seen then dedupeLocationsFrom pf seen rest
         else item # dedupeLocationsFrom pf (seen @ [key]) rest)"

definition normalizeCatalogLocations :: "platform \<Rightarrow> json option \<Rightarrow> CatalogLocation list" where
  "normalizeCatalogLocations pf input =
     (case input of
        Some (JArray items) \<Rightarrow>
          (let expanded =
                 filter (\<lambda>item. length (cl_system item) > 0 \<and> length (cl_location item) > 0)
                   (concat (map (\<lambda>item.
                       (let system = jsonTrimmedString (jsonField item ''system'');
                            rawLocation = jsonTrimmedString (jsonField item ''location'')
                        in map (\<lambda>location. \<lparr>cl_system = system, cl_location = location\<rparr>)
                             (splitCompositeLocation rawLocation)))
                     (filter (\<lambda>item. isTruthy item \<and> isObjectValue item) items)))
           in dedupeLocationsFrom pf [] expanded)
      | _ \<Rightarrow> [])"

text \<open>The mapping of the \<^verbatim>\<open>games\<close> array in \<^verbatim>\<open>loadCatalogEntries\<close>.\<close>

definition parseCatalogEntries :: "platform \<Rightarrow> json list \<Rightarrow> ParsedCatalogEntry list" where
  "parseCatalogEntries pf gamesArray =
     filter (\<lambda>entry. length (pe_title entry) > 0)
       (map (\<lambda>item.
              \<lparr>pe_title = jsonTrimmedString (jsonField item ''title''),
                pe_saveLocations =
                  normalizeCatalogLocations pf (jsonField item ''save_game_data_locations'')\<rparr>)
          (filter (\<lambda>item. isTruthy item \<and> isObjectValue item) gamesArray))"

definition loadCatalogEntries ::
  "platform \<Rightarrow> catalogHost \<Rightarrow> string \<Rightarrow> CatalogDetectionAdapters
     \<Rightarrow> (string \<rightharpoonup> rat \<times> ParsedCatalogEntry list)
     \<Rightarrow> (error + ParsedCatalogEntry list option) \<times> (string \<rightharpoonup> rat \<times> ParsedCatalogEntry list)" where
  "loadCatalogEntries pf h path adapters cache =
     (case ad_loadCatalogEntries adapters of
        Some loader \<Rightarrow> (loader path, cache)
      | None \<Rightarrow>
          if \<not> ch_existsSync h path then (Inr None, cache)
          else (case ch_statMtimeMs h path of
                  None \<Rightarrow> (Inr None, cache)
                | Some mtimeMs \<Rightarrow>
                    (let cacheKey = path_resolve pf [path]
                     in case (case cache cacheKey of
                                Some cached \<Rightarrow>
                                  if fst cached = mtimeMs then Some (snd cached) else None
                              | None \<Rightarrow> None) of
                          Some entries \<Rightarrow> (Inr (Some entries), cache)
                        | None \<Rightarrow>
                            (case ch_readJson h path of
                               None \<Rightarrow> (Inr (Some []), cache)
                             | Some parsed \<Rightarrow>
                                 (case getCatalogGamesArray parsed of
                                    None \<Rightarrow> (Inr (Some []), cache)
                                  | Some gamesArray \<Rightarrow>
                                      (let entries = parseCatalogEntries pf gamesArray
                                       in (Inr (Some entries),
                                           cache(cacheKey \<mapsto> (mtimeMs, entries)))))))))"

subsection \<open>Progress reports\<close>

text \<open>\<^verbatim>\<open>reportProgress\<close>: without a callback nothing happens; with one, the clamped
  payload is handed over and whatever the callback throws leaves \<^verbatim>\<open>reportProgress\<close>,
  which has no \<^verbatim>\<open>try\<close>.\<close>

definition reportProgress ::
  "progressCallback option \<Rightarrow> CatalogSaveDetectionProgress \<Rightarrow> CatalogSaveDetectionProgress list
     \<Rightarrow> error option \<times> CatalogSaveDetectionProgress list" where
  "reportProgress callback payload given =
     (case callback of
        None \<Rightarrow> (None, given)
      | Some cb \<Rightarrow>
          (let clamped = payload\<lparr>pr_percent := max 0 (min 100 (pr_percent payload)),
                                 pr_processed := max 0 (pr_processed payload),
                                 pr_total := max 1 (pr_total payload)\<rparr>
           in (cb given clamped, given @ [clamped])))"

text \<open>\<^verbatim>\<open>Math.round\<close>: the nearest integer, the greater of two equally near.\<close>

definition mathRound :: "double \<Rightarrow> int" where
  "mathRound q = \<lfloor>q + 1 / 2\<rfloor>"

subsection \<open>Registry paths\<close>

definition isRegistryPath :: "string \<Rightarrow> bool" where
  "isRegistryPath v = (registryPrefix (trim v) \<noteq> None)"

definition normalizeRegistryPath :: "string \<Rightarrow> string" where
  "normalizeRegistryPath v =
     (let trimmed = trim v
      in if prefixIgnoreCase (''HKCU'' @ [CHR 0x5C]) trimmed
         then ''HKEY_CURRENT_USER'' @ drop 4 trimmed
         else if prefixIgnoreCase (''HKLM'' @ [CHR 0x5C]) trimmed
         then ''HKEY_LOCAL_MACHINE'' @ drop 4 trimmed
         else trimmed)"

subsection \<open>Merging candidates\<close>

definition candidateKey :: "platform \<Rightarrow> CatalogSavePathCandidate \<Rightarrow> string" where
  "candidateKey pf candidate =
     (if win32 pf then toLowerCase pf (cand_path candidate) else cand_path candidate)"

text \<open>One iteration of the loop of \<^verbatim>\<open>mergeCandidatesByPath\<close> over a \<^verbatim>\<open>Map\<close> kept in
  insertion order.\<close>

fun mergeCandidate ::
  "platform \<Rightarrow> (string \<times> CatalogSavePathCandidate) list \<Rightarrow> CatalogSavePathCandidate
     \<Rightarrow> (string \<times> CatalogSavePathCandidate) list" where
  "mergeCandidate pf [] candidate = [(candidateKey pf candidate, candidate)]"
| "mergeCandidate pf ((k, existing) # rest) candidate =
     (if k = candidateKey pf candidate
      then (k, (if cand_score candidate > cand_score existing then candidate else existing)
                 \<lparr>cand_reasons :=
                    dedupeStrings pf (cand_reasons existing @ cand_reasons candidate)\<rparr>) # rest
      else (k, existing) # mergeCandidate pf rest candidate)"

definition mergeCandidatesByPath ::
  "platform \<Rightarrow> CatalogSavePathCandidate list \<Rightarrow> CatalogSavePathCandidate list" where
  "mergeCandidatesByPath pf input =
     sortBy (\<lambda>l r. doubleSub (cand_score r) (cand_score l))
       (map snd (fold (\<lambda>candidate byPath. mergeCandidate pf byPath candidate) input []))"

subsection \<open>Detection\<close>

definition emptyResult :: "DetectionStatus \<Rightarrow> CatalogSaveDetectionResult" where
  "emptyResult st =
     \<lparr>rs_status = st, rs_matchedTitle = None, rs_matchScore = 0, rs_titleAmbiguous = False,
       rs_candidates = [], rs_metadata = None, rs_warnings = []\<rparr>"

definition readExeMetadataOf ::
  "catalogHost \<Rightarrow> CatalogDetectionAdapters \<Rightarrow> string \<Rightarrow> ExeMetadata option" where
  "readExeMetadataOf h adapters path =
     (case ad_readExeMetadata adapters of
        Some reader \<Rightarrow> reader path
      | None \<Rightarrow> ch_readExeMetadataFromFile h path)"

definition detectionQueryNames ::
  "platform \<Rightarrow> ExeMetadata option \<Rightarrow> CatalogSaveDetectionInput \<Rightarrow> string list" where
  "detectionQueryNames pf metadata input =
     (let installFolderName = path_basename pf (path_normalize pf (installPath input));
          exeFileName = path_parse_name pf (path_basename pf (exePath input))
      in dedupeStrings pf
           [case metadata of
              Some m \<Rightarrow> (case productName m of Some v \<Rightarrow> v | None \<Rightarrow> [])
            | None \<Rightarrow> [],
            case metadata of
              Some m \<Rightarrow> (case fileDescription m of Some v \<Rightarrow> v | None \<Rightarrow> [])
            | None \<Rightarrow> [],
            gameName input, installFolderName, exeFileName])"

text \<open>The \<^verbatim>\<open>reduce\<close> over the query names and the sort of the scored entries, best
  score first.\<close>

definition titleScore :: "platform \<Rightarrow> string list \<Rightarrow> ParsedCatalogEntry \<Rightarrow> double" where
  "titleScore pf queryNames entry =
     fold (\<lambda>query best. max best (scoreTitleSimilarity pf query (pe_title entry))) queryNames 0"

definition rankCatalogEntries ::
  "platform \<Rightarrow> string list \<Rightarrow> ParsedCatalogEntry list
     \<Rightarrow> (ParsedCatalogEntry \<times> double) list" where
  "rankCatalogEntries pf queryNames entries =
     sortBy (\<lambda>l r. doubleSub (snd r) (snd l))
       (map (\<lambda>entry. (entry, titleScore pf queryNames entry)) entries)"

definition windowsLocationsOf :: "platform \<Rightarrow> ParsedCatalogEntry \<Rightarrow> string list" where
  "windowsLocationsOf pf entry =
     dedupeStrings pf
       (filter (\<lambda>location. length location > 0)
          (concat (map (\<lambda>location. splitCompositeLocation (trim (cl_location location)))
             (filter (\<lambda>location. toLowerCase pf (trim (cl_system location)) = ''windows'')
                (pe_saveLocations entry)))))"

text \<open>The body of the loop between its two progress reports: the candidates one raw
  location contributes.\<close>

definition resolveLocationCandidates ::
  "catalogHost \<Rightarrow> CatalogDetectionAdapters \<Rightarrow> ResolveContext \<Rightarrow> string
     \<Rightarrow> CatalogSavePathCandidate list" where
  "resolveLocationCandidates h adapters ctx rawLocation =
     (if isRegistryPath rawLocation then
        (let registryKey = normalizeRegistryPath rawLocation;
             registryValues =
               (case ad_readRegistryValues adapters of
                  Some reader \<Rightarrow> reader registryKey
                | None \<Rightarrow> ch_readRegistryValuesFromKey h registryKey)
         in concat (map (\<lambda>registryValue.
                      List.map_filter
                        (\<lambda>candidatePath. ch_scoreCandidatePath h candidatePath Registry rawLocation)
                        (ch_expandLocationTemplate h registryValue ctx))
                    registryValues))
      else List.map_filter
             (\<lambda>candidatePath. ch_scoreCandidatePath h candidatePath Filesystem rawLocation)
             (ch_expandLocationTemplate h rawLocation ctx))"

definition checkingPayload :: "string \<Rightarrow> nat \<Rightarrow> nat \<Rightarrow> CatalogSaveDetectionProgress" where
  "checkingPayload title totalLocations index =
     \<lparr>pr_percent =
         20 + mathRound (doubleMul (doubleDiv (of_nat index) (of_nat (max 1 totalLocations))) 70),
       pr_processed = int index, pr_total = int totalLocations,
       pr_message = ''Checking location '' @ numberToString (index + 1) @ ''/''
                      @ numberToString totalLocations @ ''...'',
       pr_matchedTitle = Some title\<rparr>"

definition validatedPayload :: "string \<Rightarrow> nat \<Rightarrow> nat \<Rightarrow> CatalogSaveDetectionProgress" where
  "validatedPayload title totalLocations index =
     \<lparr>pr_percent =
         20 + mathRound
                (doubleMul (doubleDiv (of_nat (index + 1)) (of_nat (max 1 totalLocations))) 70),
       pr_processed = int (index + 1), pr_total = int totalLocations,
       pr_message = ''Validated '' @ numberToString (index + 1) @ ''/''
                      @ numberToString totalLocations @ '' locations.'',
       pr_matchedTitle = Some title\<rparr>"

text \<open>The \<^verbatim>\<open>for\<close> loop over \<^verbatim>\<open>windowsLocations\<close>.\<close>

fun resolveLocations ::
  "catalogHost \<Rightarrow> CatalogDetectionAdapters \<Rightarrow> ResolveContext \<Rightarrow> progressCallback option
     \<Rightarrow> string \<Rightarrow> nat \<Rightarrow> nat \<Rightarrow> string list \<Rightarrow> CatalogSavePathCandidate list
     \<Rightarrow> CatalogSaveDetectionProgress list
     \<Rightarrow> (error + CatalogSavePathCandidate list) \<times> CatalogSaveDetectionProgress list" where
  "resolveLocations h adapters ctx cb title totalLocations index [] resolved given =
     (Inr resolved, given)"
| "resolveLocations h adapters ctx cb title totalLocations index (rawLocation # rest) resolved
     given =
     (if rawLocation = []
      then resolveLocations h adapters ctx cb title totalLocations (index + 1) rest resolved given
      else (case reportProgress cb (checkingPayload title totalLocations index) given of
              (Some e, given1) \<Rightarrow> (Inl e, given1)
            | (None, given1) \<Rightarrow>
                (let resolved1 = resolved @ resolveLocationCandidates h adapters ctx rawLocation
                 in case reportProgress cb (validatedPayload title totalLocations index) given1 of
                      (Some e, given2) \<Rightarrow> (Inl e, given2)
                    | (None, given2) \<Rightarrow>
                        resolveLocations h adapters ctx cb title totalLocations (index + 1) rest
                          resolved1 given2)))"

definition ambiguousWarning :: "string \<Rightarrow> string \<Rightarrow> string" where
  \<open>ambiguousWarning bestTitle secondTitle =
     ''Ambiguous title match: "'' @ bestTitle @ ''" vs "'' @ secondTitle @ ''".''\<close>

definition matchedMessage :: "string \<Rightarrow> string" where
  \<open>matchedMessage title = ''Matched "'' @ title @ ''". Resolving Windows save locations...''\<close>

text \<open>\<^verbatim>\<open>detectCatalogSavePaths\<close> from the choice of the best entry on: the entry passed
  the threshold.\<close>

definition detectWithMatch ::
  "platform \<Rightarrow> catalogHost \<Rightarrow> CatalogSaveDetectionInput \<Rightarrow> CatalogDetectionAdapters
     \<Rightarrow> ExeMetadata option \<Rightarrow> ParsedCatalogEntry \<times> double
     \<Rightarrow> (ParsedCatalogEntry \<times> double) option
     \<Rightarrow> detectionState \<Rightarrow> (error + CatalogSaveDetectionResult) \<times> detectionState" where
  "detectWithMatch pf h input adapters metadata best second s =
     (let titleAmbiguous =
            (case second of
               Some sec \<Rightarrow>
                 snd sec \<ge> toDouble (65 / 100)
                 \<and> doubleSub (snd best) (snd sec) \<le> toDouble (5 / 100)
             | None \<Rightarrow> False);
          warnings =
            (case second of
               Some sec \<Rightarrow>
                 if titleAmbiguous
                 then [ambiguousWarning (pe_title (fst best)) (pe_title (fst sec))] else []
             | None \<Rightarrow> []);
          windowsLocations = windowsLocationsOf pf (fst best);
          result = (\<lambda>st candidates.
                     \<lparr>rs_status = st, rs_matchedTitle = Some (pe_title (fst best)),
                       rs_matchScore = snd best, rs_titleAmbiguous = titleAmbiguous,
                       rs_candidates = candidates, rs_metadata = metadata,
                       rs_warnings = warnings\<rparr>)
      in if length windowsLocations = 0 then (Inr (result NoWindowsLocations []), s)
         else
          (let steamLibraries =
                 (case ad_listSteamLibraries adapters of
                    Some libraries \<Rightarrow> libraries
                  | None \<Rightarrow> ch_detectSteamLibraries h);
               ctx = \<lparr>rc_installPath = installPath input, rc_gameName = gameName input,
                       rc_steamLibraries = steamLibraries\<rparr>;
               totalLocations = length windowsLocations
           in case reportProgress (onProgress input)
                     \<lparr>pr_percent = 20, pr_processed = 0, pr_total = int totalLocations,
                       pr_message = matchedMessage (pe_title (fst best)),
                       pr_matchedTitle = Some (pe_title (fst best))\<rparr> (delivered s) of
                (Some e, given1) \<Rightarrow> (Inl e, s\<lparr>delivered := given1\<rparr>)
              | (None, given1) \<Rightarrow>
                  (case resolveLocations h adapters ctx (onProgress input) (pe_title (fst best))
                          totalLocations 0 windowsLocations [] given1 of
                     (Inl e, given2) \<Rightarrow> (Inl e, s\<lparr>delivered := given2\<rparr>)
                   | (Inr resolvedCandidates, given2) \<Rightarrow>
                       (case reportProgress (onProgress input)
                               \<lparr>pr_percent = 95, pr_processed = int totalLocations,
                                 pr_total = int totalLocations,
                                 pr_message = ''Ranking candidate save paths...'',
                                 pr_matchedTitle = Some (pe_title (fst best))\<rparr> given2 of
                          (Some e, given3) \<Rightarrow> (Inl e, s\<lparr>delivered := given3\<rparr>)
                        | (None, given3) \<Rightarrow>
                            (let candidates = mergeCandidatesByPath pf resolvedCandidates
                             in if length candidates = 0
                                then (Inr (result NoValidCandidates []),
                                      s\<lparr>delivered := given3\<rparr>)
                                else (Inr (result Matched candidates),
                                      s\<lparr>delivered := given3\<rparr>))))))"

text \<open>\<^verbatim>\<open>detectCatalogSavePaths\<close> from the second progress report on: the catalog has
  entries. The best entry is rejected when its score is below 0.45.\<close>

definition detectWithEntries ::
  "platform \<Rightarrow> catalogHost \<Rightarrow> CatalogSaveDetectionInput \<Rightarrow> CatalogDetectionAdapters
     \<Rightarrow> ParsedCatalogEntry list \<Rightarrow> detectionState
     \<Rightarrow> (error + CatalogSaveDetectionResult) \<times> detectionState" where
  "detectWithEntries pf h input adapters entries s =
     (case reportProgress (onProgress input)
             \<lparr>pr_percent = 15, pr_processed = 0, pr_total = 1,
               pr_message = ''Matching game title using executable metadata...'',
               pr_matchedTitle = None\<rparr> (delivered s) of
        (Some e, given1) \<Rightarrow> (Inl e, s\<lparr>delivered := given1\<rparr>)
      | (None, given1) \<Rightarrow>
          (let metadata = readExeMetadataOf h adapters (exePath input);
               queryNames = detectionQueryNames pf metadata input;
               ranked = rankCatalogEntries pf queryNames entries;
               s1 = s\<lparr>delivered := given1\<rparr>
           in case ranked of
                [] \<Rightarrow> (Inr ((emptyResult NoMatch)\<lparr>rs_metadata := metadata\<rparr>), s1)
              | best # others \<Rightarrow>
                  if snd best < toDouble (45 / 100)
                  then (Inr ((emptyResult NoMatch)\<lparr>rs_matchScore := snd best,
                                                     rs_metadata := metadata\<rparr>), s1)
                  else detectWithMatch pf h input adapters metadata best
                         (case others of [] \<Rightarrow> None | sec # later \<Rightarrow> Some sec) s1))"

definition loadingPayload :: CatalogSaveDetectionProgress where
  "loadingPayload =
     \<lparr>pr_percent = 5, pr_processed = 0, pr_total = 1,
       pr_message = ''Loading catalog database...'', pr_matchedTitle = None\<rparr>"

definition detectCatalogSavePaths ::
  "platform \<Rightarrow> catalogHost \<Rightarrow> CatalogSaveDetectionInput \<Rightarrow> CatalogDetectionAdapters
     \<Rightarrow> detectionState \<Rightarrow> (error + CatalogSaveDetectionResult) \<times> detectionState" where
  "detectCatalogSavePaths pf h input adapters s =
     (case reportProgress (onProgress input) loadingPayload (delivered s) of
        (Some e, given1) \<Rightarrow> (Inl e, s\<lparr>delivered := given1\<rparr>)
      | (None, given1) \<Rightarrow>
          (case loadCatalogEntries pf h (catalogPath input) adapters (catalogCache s) of
             (Inl e, cache1) \<Rightarrow> (Inl e, \<lparr>catalogCache = cache1, delivered = given1\<rparr>)
           | (Inr None, cache1) \<Rightarrow>
               (Inr (emptyResult CatalogMissing), \<lparr>catalogCache = cache1, delivered = given1\<rparr>)
           | (Inr (Some entries), cache1) \<Rightarrow>
               if length entries = 0
               then (Inr (emptyResult CatalogInvalid),
                     \<lparr>catalogCache = cache1, delivered = given1\<rparr>)
               else detectWithEntries pf h input adapters entries
                      \<lparr>catalogCache = cache1, delivered = given1\<rparr>))"

subsection \<open>Names for what the theorems speak about\<close>

text \<open>\<^verbatim>\<open>ranked[0].score\<close> in \<^verbatim>\<open>detectCatalogSavePaths\<close>, for a catalog with
  entries.\<close>

definition bestRankedScore ::
  "platform \<Rightarrow> catalogHost \<Rightarrow> CatalogSaveDetectionInput \<Rightarrow> CatalogDetectionAdapters
     \<Rightarrow> ParsedCatalogEntry list \<Rightarrow> double" where
  "bestRankedScore pf h input adapters entries =
     snd (hd (rankCatalogEntries pf
                (detectionQueryNames pf (readExeMetadataOf h adapters (exePath input)) input)
                entries))"

text \<open>Every payload of the list was taken by the callback without a throw, each call
  seeing the payloads given before it.\<close>

fun quietFrom ::
  "progressCallback \<Rightarrow> CatalogSaveDetectionProgress list \<Rightarrow> CatalogSaveDetectionProgress list
     \<Rightarrow> bool" where
  "quietFrom cb given [] = True"
| "quietFrom cb given (p # ps) = (cb given p = None \<and> quietFrom cb (given @ [p]) ps)"

text \<open>What a step that may fail with an error ended in.\<close>

fun outcomeOf :: "error + 'a \<Rightarrow> error option" where
  "outcomeOf (Inl e) = Some e"
| "outcomeOf (Inr v) = None"

text \<open>A stretch of a run seen from the callback: the payloads given grew from
  \<^verbatim>\<open>given\<close> to \<^verbatim>\<open>given'\<close>; either every call returned, or every call but the last
  returned and the last threw \<^verbatim>\<open>e\<close>.\<close>

definition callbackRun ::
  "progressCallback \<Rightarrow> CatalogSaveDetectionProgress list \<Rightarrow> CatalogSaveDetectionProgress list
     \<Rightarrow> error option \<Rightarrow> bool" where
  "callbackRun cb given given' outcome =
     (case outcome of
        None \<Rightarrow> \<exists>ps. given' = given @ ps \<and> quietFrom cb given ps
      | Some e \<Rightarrow> \<exists>ps p. given' = given @ ps @ [p] \<and> quietFrom cb given ps
                          \<and> cb (given @ ps) p = Some e)"

section \<open>A concrete host for the examples\<close>

text \<open>A POSIX-like platform: code-unit comparison, separator \<^verbatim>\<open>/\<close>, and a
  \<^verbatim>\<open>path.resolve\<close> that restarts at an absolute argument and folds \<^verbatim>\<open>.\<close> and
  \<^verbatim>\<open>..\<close> segments.\<close>

fun compareCodeUnits :: "string \<Rightarrow> string \<Rightarrow> int" where
  "compareCodeUnits [] [] = 0"
| "compareCodeUnits [] (y # ys) = -1"
| "compareCodeUnits (x # xs) [] = 1"
| "compareCodeUnits (x # xs) (y # ys) =
     (if (of_char x :: nat) < of_char y then -1
      else if (of_char y :: nat) < of_char x then 1
      else compareCodeUnits xs ys)"

fun resolveSegments :: "string list \<Rightarrow> string list \<Rightarrow> string list" where
  "resolveSegments [] acc = rev acc"
| "resolveSegments (seg # rest) acc =
     (if seg = ''..'' then resolveSegments rest (drop 1 acc)
      else if seg = [] \<or> seg = ''.'' then resolveSegments rest acc
      else resolveSegments rest (seg # acc))"

definition posixResolve :: "string list \<Rightarrow> string" where
  "posixResolve parts =
     ''/'' @ joinWith ''/''
       (resolveSegments
          (concat (map (splitOn CHR ''/'')
             (fold (\<lambda>part acc. if take 1 part = ''/'' then [part] else acc @ [part]) parts [])))
          [])"

definition posixBasename :: "string \<Rightarrow> string" where
  "posixBasename p = last (splitOn CHR ''/'' p)"

definition posixDirname :: "string \<Rightarrow> string" where
  "posixDirname p = joinWith ''/'' (butlast (splitOn CHR ''/'' p))"

definition examplePlatform :: platform where
  "examplePlatform =
     \<lparr>localeCompare = compareCodeUnits, toLowerCase = (\<lambda>s. s), hashText = (\<lambda>s. s),
       path_sep = ''/'', path_join = joinWith ''/'', path_resolve = posixResolve,
       path_normalize = (\<lambda>p. p), path_basename = posixBasename, path_dirname = posixDirname,
       path_relative = (\<lambda>fromPath toPath. drop (length fromPath + 1) toPath),
       path_parse_name = (\<lambda>p. takeWhile (\<lambda>c. c \<noteq> CHR ''.'') p), win32 = False,
       getSnapshotRoot = (\<lambda>rootDir gameFolder snapshotFolder.
          joinWith ''/'' [rootDir, gameFolder, ''Snapshots'', snapshotFolder]),
       toSafeGameFolderName = (\<lambda>s. s), formatSnapshotTimestamp = (\<lambda>s. s),
       dateToISOString = Some\<rparr>"

text \<open>A manifest on disk with one location stored under \<^verbatim>\<open>Saves\<close>, and one whose
  storage folder climbs out of the snapshot directory.\<close>

definition manifestJson :: "string \<Rightarrow> json" where
  "manifestJson storageFolder =
     JObject [(''version'', JNumber 2), (''snapshot_id'', JString ''snap-1''),
              (''created_at'', JString ''2024-01-01T00:00:00.000Z''),
              (''reason'', JString ''manual''),
              (''locations'', JObject [(''loc-1'',
                 JObject [(''path'', JString ''/saves/profile.sav''), (''type'', JString ''file''),
                          (''auto_detected'', JBool False), (''enabled'', JBool True),
                          (''storage_folder'', JString storageFolder)])])]"

text \<open>A host on which every path exists, no candidate folder is taken, every file has
  three bytes, and nothing fails.\<close>

definition exampleHost :: host where
  "exampleHost =
     \<lparr>existsSync = (\<lambda>tr p. True), statIsDirectory = (\<lambda>tr p. Inr False),
       ensureDir = (\<lambda>tr p. None), walkFiles = (\<lambda>tr p. Inr []),
       copyFileWithRetries = (\<lambda>tr src dst n. None), statSize = (\<lambda>tr p. Inr 3),
       hashFile = (\<lambda>tr p. Inr ''abc''), removeDirSafe = (\<lambda>tr p. None),
       writeManifestFile = (\<lambda>tr p payload. None),
       readJsonFile = (\<lambda>tr p. Some (manifestJson ''Saves'')),
       persistDb = (\<lambda>tr d. None),
       uuid = (\<lambda>tr. ''id-'' @ numberToString (length tr)),
       nowISOString = (\<lambda>tr. ''2024-01-03T00:00:00.000Z'')\<rparr>"

definition lockedHost :: host where
  "lockedHost = exampleHost\<lparr>removeDirSafe := (\<lambda>tr p. Some (Error ''locked''))\<rparr>"

definition traversalHost :: host where
  "traversalHost = exampleHost\<lparr>readJsonFile := (\<lambda>tr p. Some (manifestJson ''../../outside''))\<rparr>"

definition exampleGame :: StoredGame where
  "exampleGame =
     \<lparr>g_id = ''game-1'', g_name = ''Game One'', g_install_path = ''/games/one'',
       g_exe_path = ''/games/one/one.exe'', g_created_at = ''2024-01-01T00:00:00.000Z'',
       g_last_seen_at = None, g_status = Protected, g_folder_name = ''game-1''\<rparr>"

definition exampleLocation :: SaveLocation where
  "exampleLocation =
     \<lparr>loc_id = ''loc-1'', loc_game_id = ''game-1'', loc_path = ''/saves/profile.sav'',
       loc_type = File, loc_auto_detected = False, loc_enabled = True\<rparr>"

definition snapshotOne :: Snapshot where
  "snapshotOne =
     \<lparr>sn_id = ''snap-1'', sn_game_id = ''game-1'', sn_created_at = ''2024-01-01T00:00:00.000Z'',
       sn_size_bytes = 3, sn_checksum = ''c1'',
       sn_storage_path = ''/backups/game-1/Snapshots/s1'', sn_reason = Manual\<rparr>"

definition snapshotTwo :: Snapshot where
  "snapshotTwo =
     \<lparr>sn_id = ''snap-2'', sn_game_id = ''game-1'', sn_created_at = ''2024-01-02T00:00:00.000Z'',
       sn_size_bytes = 3, sn_checksum = ''c2'',
       sn_storage_path = ''/backups/game-1/Snapshots/s2'', sn_reason = Auto\<rparr>"

definition fileOne :: SnapshotFile where
  "fileOne =
     \<lparr>sf_id = ''file-1'', sf_snapshot_id = ''snap-1'', sf_location_id = ''loc-1'',
       sf_relative_path = ''profile.sav'', sf_size_bytes = 3, sf_checksum = ''abc''\<rparr>"

definition exampleDb :: AppState where
  "exampleDb =
     \<lparr>games = [exampleGame], saveLocations = [exampleLocation],
       snapshots = [snapshotOne, snapshotTwo], snapshotFiles = [fileOne], eventLogs = []\<rparr>"

definition exampleState :: state where
  "exampleState = \<lparr>db = exampleDb, inFlight = {}, trace = []\<rparr>"

definition busyState :: state where
  "busyState = exampleState\<lparr>inFlight := {''game-1''}\<rparr>"

definition exampleSettings :: Settings where
  "exampleSettings =
     \<lparr>backupFrequencyMinutes = 5, retentionCount = 2, storageRoot = ''/backups'',
       compressionEnabled = False, dataRoot = ''/data''\<rparr>"

text \<open>Two rows of one snapshot with the same relative path under different locations.\<close>

definition rowLocOne :: SnapshotFile where
  "rowLocOne =
     \<lparr>sf_id = ''file-1'', sf_snapshot_id = ''snap-1'', sf_location_id = ''loc-1'',
       sf_relative_path = ''save.dat'', sf_size_bytes = 3, sf_checksum = ''aaa''\<rparr>"

definition rowLocTwo :: SnapshotFile where
  "rowLocTwo =
     \<lparr>sf_id = ''file-2'', sf_snapshot_id = ''snap-1'', sf_location_id = ''loc-2'',
       sf_relative_path = ''save.dat'', sf_size_bytes = 3, sf_checksum = ''bbb''\<rparr>"

text \<open>The example state without save locations: a backup of the game has nothing to
  copy.\<close>

definition noLocationsState :: state where
  "noLocationsState = exampleState\<lparr>db := exampleDb\<lparr>saveLocations := []\<rparr>\<rparr>"

text \<open>The example state after the save location of the snapshot was deleted and the same
  file registered again: the row of \<^verbatim>\<open>snap-1\<close> names a location that is gone.\<close>

definition movedLocation :: SaveLocation where
  "movedLocation = exampleLocation\<lparr>loc_id := ''loc-2''\<rparr>"

definition movedState :: state where
  "movedState = exampleState\<lparr>db := exampleDb\<lparr>saveLocations := [movedLocation]\<rparr>\<rparr>"

subsection \<open>Catalog examples\<close>

definition catalogPlatform :: platform where
  "catalogPlatform = examplePlatform\<lparr>toLowerCase := map asciiLowerChar\<rparr>"

definition entryJson :: json where
  "entryJson =
     JObject [(''title'', JString ''Wrapped Game''),
              (''save_game_data_locations'',
               JArray [JObject [(''system'', JString ''Windows''),
                                (''location'', JString ''/saves'')]])]"

definition wrappedCatalogJson :: json where
  "wrappedCatalogJson =
     JObject [(''source'', JString ''PCGamingWiki''), (''count'', JNumber 1),
              (''games'', JArray [entryJson])]"

text \<open>A machine with a catalog file whose root is an object with a \<^verbatim>\<open>games\<close> array, on
  which every expanded path exists as an empty directory.\<close>

definition wrappedCatalogHost :: catalogHost where
  "wrappedCatalogHost =
     \<lparr>ch_existsSync = (\<lambda>p. True), ch_statMtimeMs = (\<lambda>p. Some 1000),
       ch_readJson = (\<lambda>p. Some wrappedCatalogJson),
       ch_readExeMetadataFromFile = (\<lambda>p. None),
       ch_readRegistryValuesFromKey = (\<lambda>k. []), ch_detectSteamLibraries = [],
       ch_expandLocationTemplate = (\<lambda>template ctx. [template]),
       ch_scoreCandidatePath = (\<lambda>p source rawLocation.
          Some \<lparr>cand_path = p, cand_score = 3 / 4, cand_source = source,
                 cand_rawLocation = rawLocation, cand_reasons = [''path exists'']\<rparr>)\<rparr>"

text \<open>The same machine with the same entry in a catalog file whose root is a bare
  array.\<close>

definition arrayCatalogHost :: catalogHost where
  "arrayCatalogHost = wrappedCatalogHost\<lparr>ch_readJson := (\<lambda>p. Some (JArray [entryJson]))\<rparr>"

definition noAdapters :: CatalogDetectionAdapters where
  "noAdapters =
     \<lparr>ad_readExeMetadata = None, ad_readRegistryValues = None, ad_listSteamLibraries = None,
       ad_loadCatalogEntries = None\<rparr>"

definition wrappedInput :: CatalogSaveDetectionInput where
  "wrappedInput =
     \<lparr>catalogPath = ''/data/games-db.json'', gameName = ''Wrapped Game'',
       exePath = ''/games/wrapped/wrapped.exe'', installPath = ''/games/wrapped'',
       onProgress = None\<rparr>"

definition freshDetectionState :: detectionState where
  "freshDetectionState = \<lparr>catalogCache = Map.empty, delivered = []\<rparr>"

text \<open>The entry that \<^verbatim>\<open>entryJson\<close> stands for, and the result of detection for it.\<close>

definition wrappedEntry :: ParsedCatalogEntry where
  "wrappedEntry =
     \<lparr>pe_title = ''Wrapped Game'',
       pe_saveLocations = [\<lparr>cl_system = ''Windows'', cl_location = ''/saves''\<rparr>]\<rparr>"

definition wrappedResult :: CatalogSaveDetectionResult where
  "wrappedResult =
     \<lparr>rs_status = Matched, rs_matchedTitle = Some ''Wrapped Game'', rs_matchScore = 1,
       rs_titleAmbiguous = False,
       rs_candidates =
         [\<lparr>cand_path = ''/saves'', cand_score = 3 / 4,
           cand_source = Filesystem, cand_rawLocation = ''/saves'',
           cand_reasons = [''path exists'']\<rparr>],
       rs_metadata = None, rs_warnings = []\<rparr>"

definition wrappedCache :: "string \<rightharpoonup> rat \<times> ParsedCatalogEntry list" where
  "wrappedCache = [''/data/games-db.json'' \<mapsto> (1000, [wrappedEntry])]"

text \<open>The state of a service that has loaded the catalog of \<^verbatim>\<open>wrappedCatalogHost\<close>
  before.\<close>

definition cachedDetectionState :: detectionState where
  "cachedDetectionState = \<lparr>catalogCache = wrappedCache, delivered = []\<rparr>"

text \<open>A callback that throws whenever it is called.\<close>

definition throwingCallback :: progressCallback where
  "throwingCallback = (\<lambda>given payload. Some (Error ''boom''))"

definition throwingInput :: CatalogSaveDetectionInput where
  "throwingInput = wrappedInput\<lparr>onProgress := Some throwingCallback\<rparr>"

text \<open>A callback that returns normally, and the six payloads it is given in a run that
  matches \<^verbatim>\<open>wrappedEntry\<close>.\<close>

definition listeningCallback :: progressCallback where
  "listeningCallback = (\<lambda>given payload. None)"

definition listeningInput :: CatalogSaveDetectionInput where
  "listeningInput = wrappedInput\<lparr>onProgress := Some listeningCallback\<rparr>"

definition listeningPayloads :: "CatalogSaveDetectionProgress list" where
  "listeningPayloads =
     [loadingPayload,
      \<lparr>pr_percent = 15, pr_processed = 0, pr_total = 1,
        pr_message = ''Matching game title using executable metadata...'',
        pr_matchedTitle = None\<rparr>,
      \<lparr>pr_percent = 20, pr_processed = 0, pr_total = 1,
        pr_message = matchedMessage ''Wrapped Game'', pr_matchedTitle = Some ''Wrapped Game''\<rparr>,
      \<lparr>pr_percent = 20, pr_processed = 0, pr_total = 1,
        pr_message = ''Checking location 1/1...'', pr_matchedTitle = Some ''Wrapped Game''\<rparr>,
      \<lparr>pr_percent = 90, pr_processed = 1, pr_total = 1,
        pr_message = ''Validated 1/1 locations.'', pr_matchedTitle = Some ''Wrapped Game''\<rparr>,
      \<lparr>pr_percent = 95, pr_processed = 1, pr_total = 1,
        pr_message = ''Ranking candidate save paths...'',
        pr_matchedTitle = Some ''Wrapped Game''\<rparr>]"

text \<open>A catalog entry and a game name that share nine of their twenty distinct words,
  neither containing the other: the Jaccard index is 9/20.\<close>

definition boundaryEntry :: ParsedCatalogEntry where
  "boundaryEntry =
     \<lparr>pe_title = ''a b c d e f g h j p q r s t u'',
       pe_saveLocations =
         [\<lparr>cl_system = ''Windows'', cl_location = ''/saves''\<rparr>]\<rparr>"

definition boundaryAdapters :: CatalogDetectionAdapters where
  "boundaryAdapters = noAdapters\<lparr>ad_loadCatalogEntries := Some (\<lambda>p. Inr (Some [boundaryEntry]))\<rparr>"

definition boundaryInput :: CatalogSaveDetectionInput where
  "boundaryInput =
     \<lparr>catalogPath = ''/data/games-db.json'',
       gameName = ''a b c d e f g h j k l m n o'',
       exePath = ''/games/zz/yy.exe'', installPath = ''/games/zz'', onProgress = None\<rparr>"

definition boundaryResult :: CatalogSaveDetectionResult where
  "boundaryResult =
     \<lparr>rs_status = Matched,
       rs_matchedTitle = Some ''a b c d e f g h j p q r s t u'',
       rs_matchScore = toDouble (45 / 100), rs_titleAmbiguous = False,
       rs_candidates =
         [\<lparr>cand_path = ''/saves'', cand_score = 3 / 4,
           cand_source = Filesystem, cand_rawLocation = ''/saves'',
           cand_reasons = [''path exists'']\<rparr>],
       rs_metadata = None, rs_warnings = []\<rparr>"

text \<open>A game name that contains the catalog title and shares three of ten distinct words
  with it: the Jaccard index 0.3 plus the bonus 0.15 is 0.44999999999999996 in doubles.\<close>

definition nearMissEntry :: ParsedCatalogEntry where
  "nearMissEntry =
     \<lparr>pe_title = ''a b c'',
       pe_saveLocations = [\<lparr>cl_system = ''Windows'', cl_location = ''/saves''\<rparr>]\<rparr>"

definition nearMissAdapters :: CatalogDetectionAdapters where
  "nearMissAdapters = noAdapters\<lparr>ad_loadCatalogEntries := Some (\<lambda>p. Inr (Some [nearMissEntry]))\<rparr>"

definition nearMissInput :: CatalogSaveDetectionInput where
  "nearMissInput = boundaryInput\<lparr>gameName := ''a b c d e f g h j k''\<rparr>"

definition nearMissResult :: CatalogSaveDetectionResult where
  "nearMissResult =
     \<lparr>rs_status = NoMatch, rs_matchedTitle = None,
       rs_matchScore = 2026619832316723 / 4503599627370496, rs_titleAmbiguous = False,
       rs_candidates = [], rs_metadata = None, rs_warnings = []\<rparr>"

section \<open>Properties of the backup service\<close>

subsection \<open>Evaluating the examples\<close>

lemmas example_defs =
  examplePlatform_def exampleHost_def traversalHost_def lockedHost_def exampleState_def
  exampleDb_def exampleGame_def exampleLocation_def snapshotOne_def snapshotTwo_def fileOne_def
  exampleSettings_def noLocationsState_def

lemmas manifest_defs =
  readSnapshotManifest_def validateManifest_def manifestJson_def SNAPSHOT_MANIFEST_FILE_NAME_def
  parseSnapshotReason_def isObjectValue_def parseManifestLocation_def trim_def isWhiteSpace_def

lemmas backup_defs =
  backupGame_def backupTry_def getStoredGameById_def listSaveLocations_def
  resolveUniqueSnapshotFolderName_def uniqueSnapshotFolderLoop.simps isDirectoryPath_def
  buildLocationStorageFolders_def ensureUniqueFolderName_def uniqueFolderNameLoop.simps
  resolveLocationStorageFolderBase_def isSlash_def listFilesForLocation_def
  writeSnapshotManifest_def posixBasename_def

lemma example_root_normalized:
  "normalizePathForKey examplePlatform ''/backups/game-1/Snapshots/s1'' = ''/backups/game-1/Snapshots/s1''"
  by code_simp

lemma example_outside_resolved:
  "path_resolve examplePlatform [''/backups/game-1/Snapshots/s1'', ''../../outside'', ''profile.sav'']
     = ''/backups/game-1/outside/profile.sav''"
  by code_simp

lemma example_inside_resolved:
  "path_resolve examplePlatform [''/backups/game-1/Snapshots/s1'', ''Saves'', ''profile.sav'']
     = ''/backups/game-1/Snapshots/s1/Saves/profile.sav''"
  by code_simp

lemma example_outside_escapes:
  "\<not> specWithinRoot examplePlatform ''/backups/game-1/Snapshots/s1'' ''/backups/game-1/outside/profile.sav''"
  by code_simp

lemma example_inside_within:
  "specWithinRoot examplePlatform ''/backups/game-1/Snapshots/s1''
     ''/backups/game-1/Snapshots/s1/Saves/profile.sav''"
  by code_simp

lemma example_root_no_separator:
  "\<not> suffix (path_sep examplePlatform) (normalizePathForKey examplePlatform ''/backups/game-1/Snapshots/s1'')"
  by code_simp

lemma numberToString_3: "numberToString 3 = ''3''"
  by code_simp

lemma find_None_sn_id:
  "snapshotId \<notin> sn_id ` set rows \<Longrightarrow> find (\<lambda>item. sn_id item = snapshotId) rows = None"
  by (auto simp: find_None_iff)

subsection \<open>The aggregate checksum and the order of the rows\<close>

text \<open>
  C1. The aggregate checksum is meant to be the same for every order of the rows. The
  comparator of \<^verbatim>\<open>computeSnapshotChecksum\<close> reads \<^verbatim>\<open>relative_path\<close> only, so two rows
  of different locations with the same relative path stay in input order: whatever the
  collation answers for equal strings, the text that is hashed for \<open>[rowLocOne, rowLocTwo]\<close>
  is not the text that is hashed for \<open>[rowLocTwo, rowLocOne]\<close>.
\<close>

theorem computeSnapshotChecksum_follows_row_order:
  "snapshotChecksumPayload pf [rowLocOne, rowLocTwo]
     = (if localeCompare pf ''save.dat'' ''save.dat'' \<le> 0
        then ''loc-1:save.dat:aaa:3|loc-2:save.dat:bbb:3''
        else ''loc-2:save.dat:bbb:3|loc-1:save.dat:aaa:3'')
   \<and> snapshotChecksumPayload pf [rowLocTwo, rowLocOne]
     = (if localeCompare pf ''save.dat'' ''save.dat'' \<le> 0
        then ''loc-2:save.dat:bbb:3|loc-1:save.dat:aaa:3''
        else ''loc-1:save.dat:aaa:3|loc-2:save.dat:bbb:3'')
   \<and> computeSnapshotChecksum pf [rowLocOne, rowLocTwo]
     = hashText pf (snapshotChecksumPayload pf [rowLocOne, rowLocTwo])
   \<and> computeSnapshotChecksum pf [rowLocTwo, rowLocOne]
     = hashText pf (snapshotChecksumPayload pf [rowLocTwo, rowLocOne])"
  by (simp add: snapshotChecksumPayload_def computeSnapshotChecksum_def sortBy_def
        rowLocOne_def rowLocTwo_def snapshotFileLine_def numberToString_3)

subsection \<open>Deleting a snapshot\<close>

text \<open>
  C6. When the snapshot is in the index and removing its directory throws,
  \<^verbatim>\<open>deleteSnapshot\<close> rejects with that error and the database is the one it started
  with: the snapshot row and its file rows are untouched. Only the attempted removal is
  added to the history of host calls.
\<close>

theorem deleteSnapshot_keeps_rows_when_removal_fails:
  assumes "find (\<lambda>item. sn_id item = snapshotId) (snapshots (db s)) = Some snapshot"
      and "removeDirSafe h (trace s) (sn_storage_path snapshot) = Some e"
  shows "deleteSnapshot h snapshotId logIt s
           = (Inl e, s\<lparr>trace := trace s @ [RemoveDir (sn_storage_path snapshot)]\<rparr>)
       \<and> db (snd (deleteSnapshot h snapshotId logIt s)) = db s
       \<and> snapshots (db (snd (deleteSnapshot h snapshotId logIt s))) = snapshots (db s)
       \<and> snapshotFiles (db (snd (deleteSnapshot h snapshotId logIt s))) = snapshotFiles (db s)"
  using assms by (simp add: deleteSnapshot_def Let_def)

theorem deleteSnapshot_keeps_rows_when_removal_fails_witness:
  "find (\<lambda>item. sn_id item = ''snap-1'') (snapshots (db exampleState)) = Some snapshotOne
   \<and> removeDirSafe lockedHost (trace exampleState) (sn_storage_path snapshotOne)
       = Some (Error ''locked'')
   \<and> fst (deleteSnapshot lockedHost ''snap-1'' True exampleState) = Inl (Error ''locked'')
   \<and> snapshots (db (snd (deleteSnapshot lockedHost ''snap-1'' True exampleState)))
       = [snapshotOne, snapshotTwo]
   \<and> snapshotFiles (db (snd (deleteSnapshot lockedHost ''snap-1'' True exampleState)))
       = [fileOne]"
proof -
  have found: "find (\<lambda>item. sn_id item = ''snap-1'') (snapshots (db exampleState))
                 = Some snapshotOne"
    by (simp add: exampleState_def exampleDb_def snapshotOne_def)
  have locked: "removeDirSafe lockedHost (trace exampleState) (sn_storage_path snapshotOne)
                  = Some (Error ''locked'')"
    by (simp add: lockedHost_def)
  from deleteSnapshot_keeps_rows_when_removal_fails [OF found locked, of True]
  show ?thesis using found locked by (simp add: exampleState_def exampleDb_def)
qed

text \<open>
  C10. For an id that no snapshot row has, \<^verbatim>\<open>deleteSnapshot\<close> resolves and the state
  (database, in-flight set and history of host calls) is the one it was given, while
  \<^verbatim>\<open>verifySnapshot\<close> and \<^verbatim>\<open>restoreSnapshot\<close> reject with \<^verbatim>\<open>Snapshot not found\<close>.
\<close>

theorem deleteSnapshot_unknown_id_is_noop:
  assumes "snapshotId \<notin> sn_id ` set (snapshots (db s))"
  shows "deleteSnapshot h snapshotId logIt s = (Inr (), s)
       \<and> verifySnapshot pf h snapshotId s = (Inl (Error ''Snapshot not found''), s)
       \<and> restoreSnapshot pf h settings snapshotId s
           = Some (Inl (Error ''Snapshot not found''), s)"
  using find_None_sn_id [OF assms]
  by (simp add: deleteSnapshot_def verifySnapshot_def restoreSnapshot_def)

theorem deleteSnapshot_unknown_id_is_noop_witness:
  "''snap-404'' \<notin> sn_id ` set (snapshots (db exampleState))
   \<and> deleteSnapshot exampleHost ''snap-404'' True exampleState = (Inr (), exampleState)
   \<and> verifySnapshot examplePlatform exampleHost ''snap-404'' exampleState
       = (Inl (Error ''Snapshot not found''), exampleState)
   \<and> restoreSnapshot examplePlatform exampleHost exampleSettings ''snap-404'' exampleState
       = Some (Inl (Error ''Snapshot not found''), exampleState)"
proof -
  have absent: "''snap-404'' \<notin> sn_id ` set (snapshots (db exampleState))"
    by (simp add: exampleState_def exampleDb_def snapshotOne_def snapshotTwo_def)
  from deleteSnapshot_unknown_id_is_noop [OF absent] absent show ?thesis by simp
qed

subsection \<open>One backup per game at a time\<close>

text \<open>
  C7. When the game id is in the in-flight set, \<^verbatim>\<open>backupGame\<close> resolves to
  \<^verbatim>\<open>null\<close> and the state is the one it was given: no row of the database changed and
  no call reached the host, so nothing was written to disk.
\<close>

theorem backupGame_in_flight_returns_null:
  assumes "gameId \<in> inFlight s"
  shows "backupGame pf h settings gameId reason skipRetention s = Some (Inr None, s)"
  using assms by (simp add: backupGame_def)

theorem backupGame_in_flight_returns_null_witness:
  "''game-1'' \<in> inFlight busyState
   \<and> backupGame examplePlatform exampleHost exampleSettings ''game-1'' Manual False busyState
       = Some (Inr None, busyState)"
proof -
  have busy: "''game-1'' \<in> inFlight busyState"
    by (simp add: busyState_def)
  from backupGame_in_flight_returns_null [OF busy] busy show ?thesis by simp
qed

subsection \<open>Snapshot file paths stay under the snapshot directory\<close>

lemma verifyFiles_append:
  "verifyFiles pf h rootPath manifest (xs @ ys) issues tr =
     (case verifyFiles pf h rootPath manifest xs issues tr of
        (Inl e, tr') \<Rightarrow> (Inl e, tr')
      | (Inr issues', tr') \<Rightarrow> verifyFiles pf h rootPath manifest ys issues' tr')"
  by (induction xs arbitrary: issues tr) (auto simp: Let_def split: sum.splits)

lemma restoreFiles_append:
  "restoreFiles pf h rootPath manifest locationMap (xs @ ys) tr =
     (case restoreFiles pf h rootPath manifest locationMap xs tr of
        (Inl e, tr') \<Rightarrow> (Inl e, tr')
      | (Inr u, tr') \<Rightarrow> restoreFiles pf h rootPath manifest locationMap ys tr')"
  by (induction xs arbitrary: tr) (auto simp: Let_def split: sum.splits option.splits)

lemma restoreFiles_skip:
  assumes "case locationMap (sf_location_id file) of
             None \<Rightarrow> True | Some location \<Rightarrow> \<not> loc_enabled location"
  shows "restoreFiles pf h storagePath manifest locationMap (before @ file # after) tr
           = restoreFiles pf h storagePath manifest locationMap (before @ after) tr"
proof -
  have "restoreFiles pf h storagePath manifest locationMap (file # after) tr'
          = restoreFiles pf h storagePath manifest locationMap after tr'" for tr'
  proof (cases "locationMap (sf_location_id file)")
    case None
    then show ?thesis by simp
  next
    case (Some location)
    with assms have "\<not> loc_enabled location" by simp
    with Some show ?thesis by simp
  qed
  note step = this
  show ?thesis
  proof (cases "restoreFiles pf h storagePath manifest locationMap before tr")
    case (Pair r tr')
    then show ?thesis
      by (cases r) (simp_all add: restoreFiles_append [of _ _ _ _ _ before] step
                      del: restoreFiles.simps)
  qed
qed

lemma assertPathWithinRoot_spec:
  assumes "\<not> suffix (path_sep pf) (normalizePathForKey pf rootPath)"
  shows "assertPathWithinRoot pf rootPath targetPath contextName =
           (if specWithinRoot pf rootPath targetPath then Inr ()
            else Inl (Error (contextName @ '' resolves outside its allowed root.'')))"
  using assms by (simp add: assertPathWithinRoot_def specWithinRoot_def Let_def)

lemma resolve_spec:
  assumes "mf_locations manifest (sf_location_id file) = Some ml"
      and "trim (ml_storage_folder ml) \<noteq> []"
      and "\<not> suffix (path_sep pf) (normalizePathForKey pf rootPath)"
  shows "resolveSnapshotFileAbsolutePath pf rootPath file manifest =
           (if specWithinRoot pf rootPath
                 (path_resolve pf [rootPath, ml_storage_folder ml, sf_relative_path file])
            then Inr (path_resolve pf [rootPath, ml_storage_folder ml, sf_relative_path file])
            else Inl (Error ''Snapshot file path resolves outside its allowed root.''))"
proof -
  have "ml_storage_folder ml \<noteq> []" using assms(2) by (auto simp: trim_def)
  then show ?thesis using assms
    by (simp add: resolveSnapshotFileAbsolutePath_def assertPathWithinRoot_spec Let_def)
qed

text \<open>
  C2, amended. Let the manifest map the file's location to a non-blank storage folder, and
  let the normalized snapshot directory not end in the separator (it is the path of a
  directory below the storage root). Then \<^verbatim>\<open>resolveSnapshotFileAbsolutePath\<close> accepts
  exactly the paths the specification's rule accepts: a resolved path equal to the snapshot
  directory or below it is returned, any other is rejected with
  \<^verbatim>\<open>Snapshot file path resolves outside its allowed root.\<close> When the loop of
  \<^verbatim>\<open>verifySnapshot\<close> reaches such a row it rejects with that error. The loop of
  \<^verbatim>\<open>restoreSnapshot\<close> rejects with it only for a row whose location is still one of the
  game's save locations and enabled, once the safety backup has been created; in both the
  history of host calls ends where the earlier rows left it, so no call reads or writes the
  escaping path. A row whose location is deleted or disabled is skipped by the restore loop
  before its path is resolved: the loop runs as if the row were not there, and the restore
  can complete.
\<close>

theorem snapshot_path_escape_is_rejected:
  assumes mapping: "mf_locations manifest (sf_location_id file) = Some ml"
      and nonblank: "trim (ml_storage_folder ml) \<noteq> []"
      and rootsep: "\<not> suffix (path_sep pf) (normalizePathForKey pf (sn_storage_path snapshot))"
      and found: "find (\<lambda>item. sn_id item = snapshotId) (snapshots (db s)) = Some snapshot"
      and rows: "filter (\<lambda>item. sf_snapshot_id item = snapshotId) (snapshotFiles (db s))
                   = before @ file # after"
      and manifest: "readSnapshotManifest pf h (sn_storage_path snapshot) (trace s)
                       = (Some manifest, tr1)"
  shows "(specWithinRoot pf (sn_storage_path snapshot)
            (path_resolve pf [sn_storage_path snapshot, ml_storage_folder ml, sf_relative_path file])
          \<longrightarrow> resolveSnapshotFileAbsolutePath pf (sn_storage_path snapshot) file manifest
                = Inr (path_resolve pf
                         [sn_storage_path snapshot, ml_storage_folder ml, sf_relative_path file]))
       \<and> (\<not> specWithinRoot pf (sn_storage_path snapshot)
              (path_resolve pf [sn_storage_path snapshot, ml_storage_folder ml, sf_relative_path file])
          \<longrightarrow> resolveSnapshotFileAbsolutePath pf (sn_storage_path snapshot) file manifest
                = Inl (Error ''Snapshot file path resolves outside its allowed root.'')
            \<and> (\<forall>issues tr2.
                  verifyFiles pf h (sn_storage_path snapshot) manifest before 0 tr1
                    = (Inr issues, tr2)
                  \<longrightarrow> verifySnapshot pf h snapshotId s
                        = (Inl (Error ''Snapshot file path resolves outside its allowed root.''),
                           s\<lparr>trace := tr2\<rparr>))
            \<and> (\<forall>safetySnapshot s2 tr3 location.
                  backupGame pf h settings (sn_game_id snapshot) PreRestore True (s\<lparr>trace := tr1\<rparr>)
                    = Some (Inr (Some safetySnapshot), s2)
                  \<and> restoreFiles pf h (sn_storage_path snapshot) manifest
                       (map_of (rev (map (\<lambda>loc. (loc_id loc, loc))
                          (listSaveLocations (db s) (sn_game_id snapshot)))))
                       before (trace s2) = (Inr (), tr3)
                  \<and> map_of (rev (map (\<lambda>loc. (loc_id loc, loc))
                          (listSaveLocations (db s) (sn_game_id snapshot)))) (sf_location_id file)
                       = Some location
                  \<and> loc_enabled location
                  \<longrightarrow> restoreSnapshot pf h settings snapshotId s
                        = Some (Inl (Error ''Snapshot file path resolves outside its allowed root.''),
                                s2\<lparr>trace := tr3\<rparr>)))
       \<and> (\<forall>locationMap tr.
            (case locationMap (sf_location_id file) of
               None \<Rightarrow> True
             | Some location \<Rightarrow> \<not> loc_enabled location)
            \<longrightarrow> restoreFiles pf h (sn_storage_path snapshot) manifest locationMap
                  (before @ file # after) tr
                = restoreFiles pf h (sn_storage_path snapshot) manifest locationMap
                    (before @ after) tr)"
proof -
  note r = resolve_spec [OF mapping nonblank rootsep]
  show ?thesis
  proof (intro conjI impI allI)
    assume "specWithinRoot pf (sn_storage_path snapshot)
              (path_resolve pf [sn_storage_path snapshot, ml_storage_folder ml, sf_relative_path file])"
    then show "resolveSnapshotFileAbsolutePath pf (sn_storage_path snapshot) file manifest
                = Inr (path_resolve pf
                         [sn_storage_path snapshot, ml_storage_folder ml, sf_relative_path file])"
      by (simp add: r)
  next
    assume out: "\<not> specWithinRoot pf (sn_storage_path snapshot)
              (path_resolve pf [sn_storage_path snapshot, ml_storage_folder ml, sf_relative_path file])"
    then show esc: "resolveSnapshotFileAbsolutePath pf (sn_storage_path snapshot) file manifest
                = Inl (Error ''Snapshot file path resolves outside its allowed root.'')"
      by (simp add: r)
    {
      fix issues tr2
      assume "verifyFiles pf h (sn_storage_path snapshot) manifest before 0 tr1 = (Inr issues, tr2)"
      then show "verifySnapshot pf h snapshotId s
                        = (Inl (Error ''Snapshot file path resolves outside its allowed root.''),
                           s\<lparr>trace := tr2\<rparr>)"
        using found rows manifest esc
        by (simp add: verifySnapshot_def verifyFiles_append)
    }
    {
      fix safetySnapshot s2 tr3 location
      assume a: "backupGame pf h settings (sn_game_id snapshot) PreRestore True (s\<lparr>trace := tr1\<rparr>)
                    = Some (Inr (Some safetySnapshot), s2)
                  \<and> restoreFiles pf h (sn_storage_path snapshot) manifest
                       (map_of (rev (map (\<lambda>loc. (loc_id loc, loc))
                          (listSaveLocations (db s) (sn_game_id snapshot)))))
                       before (trace s2) = (Inr (), tr3)
                  \<and> map_of (rev (map (\<lambda>loc. (loc_id loc, loc))
                          (listSaveLocations (db s) (sn_game_id snapshot)))) (sf_location_id file)
                       = Some location
                  \<and> loc_enabled location"
      then show "restoreSnapshot pf h settings snapshotId s
                        = Some (Inl (Error ''Snapshot file path resolves outside its allowed root.''),
                                s2\<lparr>trace := tr3\<rparr>)"
        using found rows manifest esc
        by (simp add: restoreSnapshot_def restoreFiles_append Let_def)
    }
  next
    fix locationMap :: "string \<rightharpoonup> SaveLocation" and tr
    assume "case locationMap (sf_location_id file) of
              None \<Rightarrow> True | Some location \<Rightarrow> \<not> loc_enabled location"
    then show "restoreFiles pf h (sn_storage_path snapshot) manifest locationMap
                 (before @ file # after) tr
               = restoreFiles pf h (sn_storage_path snapshot) manifest locationMap
                   (before @ after) tr"
      by (rule restoreFiles_skip)
  qed
qed

theorem snapshot_path_escape_is_rejected_witness:
  "find (\<lambda>item. sn_id item = ''snap-1'') (snapshots (db exampleState)) = Some snapshotOne
   \<and> filter (\<lambda>item. sf_snapshot_id item = ''snap-1'') (snapshotFiles (db exampleState)) = [fileOne]
   \<and> \<not> suffix (path_sep examplePlatform)
          (normalizePathForKey examplePlatform (sn_storage_path snapshotOne))
   \<and> (\<exists>manifest tr1 ml.
         readSnapshotManifest examplePlatform traversalHost (sn_storage_path snapshotOne)
           (trace exampleState) = (Some manifest, tr1)
       \<and> mf_locations manifest (sf_location_id fileOne) = Some ml
       \<and> ml_storage_folder ml = ''../../outside''
       \<and> \<not> specWithinRoot examplePlatform (sn_storage_path snapshotOne)
              (path_resolve examplePlatform
                 [sn_storage_path snapshotOne, ml_storage_folder ml, sf_relative_path fileOne])
       \<and> resolveSnapshotFileAbsolutePath examplePlatform (sn_storage_path snapshotOne) fileOne
           manifest = Inl (Error ''Snapshot file path resolves outside its allowed root.'')
       \<and> verifySnapshot examplePlatform traversalHost ''snap-1'' exampleState
           = (Inl (Error ''Snapshot file path resolves outside its allowed root.''),
              exampleState\<lparr>trace := tr1\<rparr>)
       \<and> restoreFiles examplePlatform traversalHost (sn_storage_path snapshotOne) manifest
           Map.empty [fileOne] tr1 = (Inr (), tr1)
       \<and> (\<exists>safetySnapshot s2.
             backupGame examplePlatform traversalHost exampleSettings (sn_game_id snapshotOne)
               PreRestore True (exampleState\<lparr>trace := tr1\<rparr>) = Some (Inr (Some safetySnapshot), s2)
           \<and> restoreSnapshot examplePlatform traversalHost exampleSettings ''snap-1'' exampleState
               = Some (Inl (Error ''Snapshot file path resolves outside its allowed root.''), s2)))
   \<and> (\<exists>manifest tr1 ml.
         readSnapshotManifest examplePlatform exampleHost (sn_storage_path snapshotOne)
           (trace exampleState) = (Some manifest, tr1)
       \<and> mf_locations manifest (sf_location_id fileOne) = Some ml
       \<and> ml_storage_folder ml = ''Saves''
       \<and> resolveSnapshotFileAbsolutePath examplePlatform (sn_storage_path snapshotOne) fileOne
           manifest = Inr ''/backups/game-1/Snapshots/s1/Saves/profile.sav'')"
proof -
  let ?root = "sn_storage_path snapshotOne"
  have root: "?root = ''/backups/game-1/Snapshots/s1''" by (simp add: snapshotOne_def)
  have found: "find (\<lambda>item. sn_id item = ''snap-1'') (snapshots (db exampleState)) = Some snapshotOne"
    by (simp add: example_defs)
  have rows: "filter (\<lambda>item. sf_snapshot_id item = ''snap-1'') (snapshotFiles (db exampleState))
                = [] @ fileOne # []"
    by (simp add: example_defs)
  have rootsep: "\<not> suffix (path_sep examplePlatform) (normalizePathForKey examplePlatform ?root)"
    unfolding root by (rule example_root_no_separator)
  have rel: "sf_relative_path fileOne = ''profile.sav''" "sf_location_id fileOne = ''loc-1''"
    by (simp_all add: fileOne_def)
  \<comment> \<open>the manifest that climbs out of the snapshot directory\<close>
  obtain mT trT mlT where
    mT: "readSnapshotManifest examplePlatform traversalHost ?root (trace exampleState) = (Some mT, trT)"
    and mapT: "mf_locations mT (sf_location_id fileOne) = Some mlT"
    and folderT: "ml_storage_folder mlT = ''../../outside''"
    by (simp add: manifest_defs example_defs Let_def)
  have nonblankT: "trim (ml_storage_folder mlT) \<noteq> []"
    unfolding folderT by code_simp
  have outside: "\<not> specWithinRoot examplePlatform ?root
                    (path_resolve examplePlatform [?root, ml_storage_folder mlT, sf_relative_path fileOne])"
    unfolding root folderT rel example_outside_resolved by (rule example_outside_escapes)
  obtain safetySnapshot s2 where
    backup: "backupGame examplePlatform traversalHost exampleSettings (sn_game_id snapshotOne)
               PreRestore True (exampleState\<lparr>trace := trT\<rparr>) = Some (Inr (Some safetySnapshot), s2)"
    by (simp add: backup_defs example_defs Let_def)
  have loc: "map_of (rev (map (\<lambda>loc. (loc_id loc, loc))
               (listSaveLocations (db exampleState) (sn_game_id snapshotOne)))) (sf_location_id fileOne)
             = Some exampleLocation"
    by (simp add: example_defs listSaveLocations_def)
  have enabled: "loc_enabled exampleLocation" by (simp add: exampleLocation_def)
  note T = snapshot_path_escape_is_rejected [OF mapT nonblankT rootsep found rows mT,
             where settings = exampleSettings]
  from T outside have escT:
    "resolveSnapshotFileAbsolutePath examplePlatform ?root fileOne mT
       = Inl (Error ''Snapshot file path resolves outside its allowed root.'')"
    by blast
  from T outside have verifyT:
    "verifySnapshot examplePlatform traversalHost ''snap-1'' exampleState
       = (Inl (Error ''Snapshot file path resolves outside its allowed root.''),
          exampleState\<lparr>trace := trT\<rparr>)"
    by simp
  from T outside backup loc enabled have restoreT:
    "restoreSnapshot examplePlatform traversalHost exampleSettings ''snap-1'' exampleState
       = Some (Inl (Error ''Snapshot file path resolves outside its allowed root.''),
               s2\<lparr>trace := trace s2\<rparr>)"
    by simp
  from T [THEN conjunct2, THEN conjunct2, rule_format,
          where locationMap = Map.empty and tr = trT]
  have skipT: "restoreFiles examplePlatform traversalHost ?root mT Map.empty [fileOne] trT
                 = (Inr (), trT)"
    by simp
  \<comment> \<open>the manifest that stores the location under the snapshot directory\<close>
  obtain mS trS mlS where
    mS: "readSnapshotManifest examplePlatform exampleHost ?root (trace exampleState) = (Some mS, trS)"
    and mapS: "mf_locations mS (sf_location_id fileOne) = Some mlS"
    and folderS: "ml_storage_folder mlS = ''Saves''"
    by (simp add: manifest_defs example_defs Let_def)
  have nonblankS: "trim (ml_storage_folder mlS) \<noteq> []"
    unfolding folderS by code_simp
  have inside: "specWithinRoot examplePlatform ?root
                  (path_resolve examplePlatform [?root, ml_storage_folder mlS, sf_relative_path fileOne])"
    unfolding root folderS rel example_inside_resolved by (rule example_inside_within)
  from snapshot_path_escape_is_rejected [OF mapS nonblankS rootsep found rows mS] inside
  have okS: "resolveSnapshotFileAbsolutePath examplePlatform ?root fileOne mS
               = Inr ''/backups/game-1/Snapshots/s1/Saves/profile.sav''"
    unfolding root folderS rel example_inside_resolved by blast
  show ?thesis
    using found rows rootsep mT mapT folderT outside escT verifyT skipT backup restoreT mS mapS
      folderS okS
    by auto
qed

text \<open>The claim C2 as it is worded fails for restore. On the manifest whose storage folder
  climbs out of the snapshot directory \<^verbatim>\<open>verifySnapshot\<close> raises the path-escape error;
  \<^verbatim>\<open>restoreSnapshot\<close> on the same snapshot, the location of the row being gone from the
  game's save locations, skips the row and returns normally.\<close>

theorem restore_completes_on_escaping_manifest:
  "fst (verifySnapshot examplePlatform traversalHost ''snap-1'' movedState)
     = Inl (Error ''Snapshot file path resolves outside its allowed root.'')
   \<and> map_option fst (restoreSnapshot examplePlatform traversalHost exampleSettings ''snap-1''
                        movedState) = Some (Inr ())"
proof -
  let ?root = "sn_storage_path snapshotOne"
  have root: "?root = ''/backups/game-1/Snapshots/s1''" by (simp add: snapshotOne_def)
  have found: "find (\<lambda>item. sn_id item = ''snap-1'') (snapshots (db movedState)) = Some snapshotOne"
    by (simp add: example_defs movedState_def)
  have rows: "filter (\<lambda>item. sf_snapshot_id item = ''snap-1'') (snapshotFiles (db movedState))
                = [fileOne]"
    by (simp add: example_defs movedState_def)
  have rootsep: "\<not> suffix (path_sep examplePlatform) (normalizePathForKey examplePlatform ?root)"
    unfolding root by (rule example_root_no_separator)
  have rel: "sf_relative_path fileOne = ''profile.sav''" "sf_location_id fileOne = ''loc-1''"
    by (simp_all add: fileOne_def)
  obtain mT trT mlT where
    mT: "readSnapshotManifest examplePlatform traversalHost ?root (trace movedState) = (Some mT, trT)"
    and mapT: "mf_locations mT (sf_location_id fileOne) = Some mlT"
    and folderT: "ml_storage_folder mlT = ''../../outside''"
    by (simp add: manifest_defs example_defs movedState_def Let_def)
  have nonblankT: "trim (ml_storage_folder mlT) \<noteq> []"
    unfolding folderT by code_simp
  have outside: "\<not> specWithinRoot examplePlatform ?root
                    (path_resolve examplePlatform [?root, ml_storage_folder mlT, sf_relative_path fileOne])"
    unfolding root folderT rel example_outside_resolved by (rule example_outside_escapes)
  have esc: "resolveSnapshotFileAbsolutePath examplePlatform ?root fileOne mT
               = Inl (Error ''Snapshot file path resolves outside its allowed root.'')"
    using outside by (simp add: resolve_spec [OF mapT nonblankT rootsep])
  have verify: "fst (verifySnapshot examplePlatform traversalHost ''snap-1'' movedState)
                  = Inl (Error ''Snapshot file path resolves outside its allowed root.'')"
    using found rows mT esc by (simp add: verifySnapshot_def Let_def)
  obtain safetySnapshot s2 where
    backup: "backupGame examplePlatform traversalHost exampleSettings (sn_game_id snapshotOne)
               PreRestore True (movedState\<lparr>trace := trT\<rparr>) = Some (Inr (Some safetySnapshot), s2)"
    by (simp add: backup_defs example_defs movedState_def movedLocation_def Let_def)
  have gone: "map_of (rev (map (\<lambda>loc. (loc_id loc, loc))
               (listSaveLocations (db movedState) (sn_game_id snapshotOne)))) (sf_location_id fileOne)
             = None"
    by (simp add: example_defs movedState_def movedLocation_def listSaveLocations_def)
  have "map_option fst (restoreSnapshot examplePlatform traversalHost exampleSettings ''snap-1''
                          movedState) = Some (Inr ())"
    using found rows mT backup gone by (simp add: restoreSnapshot_def Let_def)
  with verify show ?thesis by simp
qed

subsection \<open>File copies made by a backup\<close>

lemma isCopyFile_simps [simp]:
  "isCopyFile (CopyFile a b n)" "\<not> isCopyFile (EnsureDir p)" "\<not> isCopyFile (ExistsSync p)"
  "\<not> isCopyFile (StatIsDirectory p)" "\<not> isCopyFile (WalkFiles p)" "\<not> isCopyFile (StatSize p)"
  "\<not> isCopyFile (HashFile p)" "\<not> isCopyFile (RemoveDir p)" "\<not> isCopyFile (WriteManifest p m)"
  "\<not> isCopyFile (ReadJsonFile p)" "\<not> isCopyFile (PersistDb d)" "\<not> isCopyFile Uuid"
  "\<not> isCopyFile Now"
  by (simp_all add: isCopyFile_def)

lemma isDirectoryPath_copies:
  "filter isCopyFile (snd (isDirectoryPath h p tr)) = filter isCopyFile tr"
  by (simp add: isDirectoryPath_def Let_def split: sum.splits)

lemma uniqueSnapshotFolderLoop_copies:
  assumes "uniqueSnapshotFolderLoop pf h rootDir gameFolder base candidate n tr = Some y"
  shows "filter isCopyFile (snd y) = filter isCopyFile tr"
  using assms
proof (induction rule: uniqueSnapshotFolderLoop.raw_induct [rotated 1, consumes 1])
  case (1 loop pf h rootDir gameFolder base candidate n tr y)
  show ?case
  proof (cases "fst (isDirectoryPath h (getSnapshotRoot pf rootDir gameFolder candidate) tr)")
    case True
    with 1(2) have "loop pf h rootDir gameFolder base (base @ ''_'' @ numberToString n) (n + 1)
                      (snd (isDirectoryPath h (getSnapshotRoot pf rootDir gameFolder candidate) tr))
                    = Some y"
      by (simp add: Let_def)
    from 1(1) [OF this] show ?thesis by (simp add: isDirectoryPath_copies)
  next
    case False
    with 1(2) show ?thesis by (auto simp: Let_def isDirectoryPath_copies)
  qed
qed

lemma readSnapshotManifest_copies:
  "filter isCopyFile (snd (readSnapshotManifest pf h p tr)) = filter isCopyFile tr"
  by (simp add: readSnapshotManifest_def Let_def split: option.splits)

lemma backupFiles_copies:
  "backupFiles pf h snapshotRoot snapshotId folders location files acc tr = (Inr acc', tr')
   \<Longrightarrow> length (fst acc') + length (filter isCopyFile tr)
         = length (fst acc) + length (filter isCopyFile tr')
       \<and> length (filter isCopyFile tr) \<le> length (filter isCopyFile tr')"
proof (induction files arbitrary: acc tr)
  case Nil
  then show ?case by simp
next
  case (Cons filePath rest)
  then show ?case
    by (fastforce simp: Let_def split: option.splits sum.splits)
qed

lemma backupLocations_copies:
  "backupLocations pf h gameId snapshotRoot snapshotId folders locations acc s = (Inr acc', s')
   \<Longrightarrow> length (fst acc') + length (filter isCopyFile (trace s))
         = length (fst acc) + length (filter isCopyFile (trace s'))
       \<and> length (filter isCopyFile (trace s)) \<le> length (filter isCopyFile (trace s'))"
proof (induction locations arbitrary: acc s)
  case Nil
  then show ?case by simp
next
  case (Cons location rest)
  show ?case
  proof (cases "existsSync h (trace s) (loc_path location)")
    case False
    with Cons.prems have
      "backupLocations pf h gameId snapshotRoot snapshotId folders rest
         (fst acc, fst (snd acc), snd (snd acc) + 1)
         (s\<lparr>db := logEvent (db s) gameId ErrorEvent (''Save location missing: '' @ loc_path location),
            trace := trace s @ [ExistsSync (loc_path location)]\<rparr>) = (Inr acc', s')"
      by (simp add: Let_def)
    from Cons.IH [OF this] show ?thesis by simp
  next
    case True
    with Cons.prems obtain files tr2 accF tr3 where
      l: "listFilesForLocation h location (trace s @ [ExistsSync (loc_path location)]) = (Inr files, tr2)"
      and f: "backupFiles pf h snapshotRoot snapshotId folders location files (fst acc, fst (snd acc)) tr2
                = (Inr accF, tr3)"
      and r: "backupLocations pf h gameId snapshotRoot snapshotId folders rest
                (fst accF, snd accF, snd (snd acc)) (s\<lparr>trace := tr3\<rparr>) = (Inr acc', s')"
      by (auto simp: Let_def split: prod.splits sum.splits)
    from l have c2: "filter isCopyFile tr2 = filter isCopyFile (trace s)"
      by (auto simp: listFilesForLocation_def split: if_splits)
    from backupFiles_copies [OF f] Cons.IH [OF r] c2 show ?thesis by simp
  qed
qed

lemma prefix_snoc_left: "prefix (xs @ [x]) ys \<Longrightarrow> prefix xs ys"
  by (metis append_prefixD)

lemma filter_prefix_same_length:
  assumes "prefix xs ys" and "length (filter P xs) = length (filter P ys)"
  shows "filter P ys = filter P xs"
proof -
  from assms(1) obtain zs where "ys = xs @ zs" by (auto simp: prefix_def)
  with assms(2) show ?thesis by simp
qed

lemma backupFiles_prefix:
  "backupFiles pf h snapshotRoot snapshotId folders location files acc tr = (r, tr')
   \<Longrightarrow> prefix tr tr'"
proof (induction files arbitrary: acc tr)
  case Nil
  then show ?case by simp
next
  case (Cons filePath rest)
  then show ?case
    by (auto simp: Let_def split: option.splits sum.splits dest!: Cons.IH append_prefixD)
qed

lemma backupLocations_prefix:
  "backupLocations pf h gameId snapshotRoot snapshotId folders locations acc s = (r, s')
   \<Longrightarrow> prefix (trace s) (trace s')"
proof (induction locations arbitrary: acc s)
  case Nil
  then show ?case by simp
next
  case (Cons location rest)
  show ?case
  proof (cases "existsSync h (trace s) (loc_path location)")
    case False
    with Cons.prems have
      "backupLocations pf h gameId snapshotRoot snapshotId folders rest
         (fst acc, fst (snd acc), snd (snd acc) + 1)
         (s\<lparr>db := logEvent (db s) gameId ErrorEvent (''Save location missing: '' @ loc_path location),
            trace := trace s @ [ExistsSync (loc_path location)]\<rparr>) = (r, s')"
      by (simp add: Let_def)
    from Cons.IH [OF this] show ?thesis by (auto dest: append_prefixD)
  next
    case True
    obtain lf tr2 where
      l: "listFilesForLocation h location (trace s @ [ExistsSync (loc_path location)]) = (lf, tr2)"
      by (cases "listFilesForLocation h location (trace s @ [ExistsSync (loc_path location)])")
    then have p2: "prefix (trace s) tr2"
      by (auto simp: listFilesForLocation_def split: if_splits)
    show ?thesis
    proof (cases lf)
      case (Inl e)
      with Cons.prems True l p2 show ?thesis by (auto simp: Let_def)
    next
      case (Inr files)
      obtain bf tr3 where
        f: "backupFiles pf h snapshotRoot snapshotId folders location files (fst acc, fst (snd acc)) tr2
              = (bf, tr3)"
        by (cases "backupFiles pf h snapshotRoot snapshotId folders location files
                     (fst acc, fst (snd acc)) tr2")
      from backupFiles_prefix [OF f] p2 have p3: "prefix (trace s) tr3" by auto
      show ?thesis
      proof (cases bf)
        case (Inl e)
        with Cons.prems True l Inr f p3 show ?thesis by (auto simp: Let_def)
      next
        case (Inr accF)
        with Cons.prems True l \<open>lf = Inr files\<close> f have
          "backupLocations pf h gameId snapshotRoot snapshotId folders rest
             (fst accF, snd accF, snd (snd acc)) (s\<lparr>trace := tr3\<rparr>) = (r, s')"
          by (simp add: Let_def)
        from Cons.IH [OF this] p3 show ?thesis by auto
      qed
    qed
  qed
qed

lemma backupTry_null_copies:
  assumes "backupTry pf h settings gameId reason skipRetention snapshotId createdAt snapshotRoot s
             = Some (Inr None, s')"
  shows "filter isCopyFile (trace s') = filter isCopyFile (trace s)"
proof (cases "ensureDir h (trace s) snapshotRoot")
  case (Some e)
  with assms show ?thesis by (simp add: backupTry_def Let_def)
next
  case None
  let ?locations = "filter loc_enabled (listSaveLocations (db s) gameId)"
  from assms None obtain folders where
    fo: "buildLocationStorageFolders pf ?locations = Some folders"
    by (auto simp: backupTry_def Let_def split: option.splits)
  show ?thesis
  proof (cases "?locations = []")
    case True
    with assms None fo show ?thesis by (auto simp: backupTry_def Let_def)
  next
    case False
    let ?s1 = "s\<lparr>trace := trace s @ [EnsureDir snapshotRoot]\<rparr>"
    from assms None fo False obtain acc s2 where
      bl: "backupLocations pf h gameId snapshotRoot snapshotId folders ?locations ([], 0, 0) ?s1
             = (Inr acc, s2)"
      and empty: "fst acc = []"
      and tr: "trace s' = trace s2 @ [RemoveDir snapshotRoot]"
      by (auto simp: backupTry_def Let_def split: prod.splits sum.splits if_splits option.splits)
    from backupLocations_copies [OF bl] empty
    have "length (filter isCopyFile (trace ?s1)) = length (filter isCopyFile (trace s2))"
      by simp
    from filter_prefix_same_length [OF backupLocations_prefix [OF bl] this]
    show ?thesis using tr by simp
  qed
qed

lemma backupGame_null_copies:
  assumes "backupGame pf h settings gameId reason skipRetention s = Some (Inr None, s')"
  shows "filter isCopyFile (trace s') = filter isCopyFile (trace s)"
proof (cases "gameId \<in> inFlight s")
  case True
  with assms show ?thesis by (simp add: backupGame_def)
next
  case False
  let ?s1 = "s\<lparr>inFlight := insert gameId (inFlight s)\<rparr>"
  from assms False obtain game y s2 where
    g: "getStoredGameById (db s) gameId = Some game"
    and u: "resolveUniqueSnapshotFolderName pf h (storageRoot settings) (g_folder_name game)
              (nowISOString h (trace s @ [Uuid])) (trace s @ [Uuid, Now]) = Some y"
    and t: "backupTry pf h settings gameId reason skipRetention (uuid h (trace s))
              (nowISOString h (trace s @ [Uuid]))
              (getSnapshotRoot pf (storageRoot settings) (g_folder_name game) (fst y))
              (?s1\<lparr>trace := snd y\<rparr>) = Some (Inr None, s2)"
    and tr: "trace s' = trace s2"
    by (auto simp: backupGame_def Let_def split: option.splits prod.splits sum.splits)
  from u have "filter isCopyFile (snd y) = filter isCopyFile (trace s @ [Uuid, Now])"
    by (simp add: resolveUniqueSnapshotFolderName_def Let_def uniqueSnapshotFolderLoop_copies)
  with backupTry_null_copies [OF t] tr show ?thesis by simp
qed

subsection \<open>Restore needs its safety backup\<close>

text \<open>
  C3. For a snapshot of the index whose manifest reads as valid: when the pre-restore
  safety backup (\<^verbatim>\<open>backupGame\<close> with reason \<^verbatim>\<open>pre-restore\<close> and
  \<^verbatim>\<open>skipRetention: true\<close>) resolves to \<^verbatim>\<open>null\<close>, \<^verbatim>\<open>restoreSnapshot\<close> rejects with
  \<^verbatim>\<open>Restore blocked: failed to create safety backup before restore.\<close> in the state the
  backup left, and the file copies in the history of host calls are the ones that were
  there before the restore began: nothing was copied to a save location.
\<close>

theorem restore_blocked_when_safety_backup_is_null:
  assumes found: "find (\<lambda>item. sn_id item = snapshotId) (snapshots (db s)) = Some snapshot"
      and manifest: "readSnapshotManifest pf h (sn_storage_path snapshot) (trace s)
                       = (Some manifest, tr1)"
      and safety: "backupGame pf h settings (sn_game_id snapshot) PreRestore True (s\<lparr>trace := tr1\<rparr>)
                     = Some (Inr None, s2)"
  shows "restoreSnapshot pf h settings snapshotId s
           = Some (Inl (Error ''Restore blocked: failed to create safety backup before restore.''),
                   s2)
       \<and> filter isCopyFile (trace s2) = filter isCopyFile (trace s)"
proof -
  from readSnapshotManifest_copies [of pf h "sn_storage_path snapshot" "trace s"] manifest
  have "filter isCopyFile tr1 = filter isCopyFile (trace s)" by simp
  with backupGame_null_copies [OF safety] found manifest safety show ?thesis
    by (simp add: restoreSnapshot_def Let_def)
qed

theorem restore_blocked_when_safety_backup_is_null_witness:
  "find (\<lambda>item. sn_id item = ''snap-1'') (snapshots (db noLocationsState)) = Some snapshotOne
   \<and> (\<exists>manifest tr1 s2.
         readSnapshotManifest examplePlatform exampleHost (sn_storage_path snapshotOne)
           (trace noLocationsState) = (Some manifest, tr1)
       \<and> backupGame examplePlatform exampleHost exampleSettings (sn_game_id snapshotOne)
           PreRestore True (noLocationsState\<lparr>trace := tr1\<rparr>) = Some (Inr None, s2)
       \<and> restoreSnapshot examplePlatform exampleHost exampleSettings ''snap-1'' noLocationsState
           = Some (Inl (Error ''Restore blocked: failed to create safety backup before restore.''),
                   s2)
       \<and> filter isCopyFile (trace s2) = [])"
proof -
  have found: "find (\<lambda>item. sn_id item = ''snap-1'') (snapshots (db noLocationsState))
                 = Some snapshotOne"
    by (simp add: example_defs)
  obtain manifest tr1 where
    m: "readSnapshotManifest examplePlatform exampleHost (sn_storage_path snapshotOne)
          (trace noLocationsState) = (Some manifest, tr1)"
    by (simp add: manifest_defs example_defs Let_def)
  obtain s2 where
    b: "backupGame examplePlatform exampleHost exampleSettings (sn_game_id snapshotOne)
          PreRestore True (noLocationsState\<lparr>trace := tr1\<rparr>) = Some (Inr None, s2)"
    by (simp add: backup_defs example_defs Let_def)
  from restore_blocked_when_safety_backup_is_null [OF found m b] found m b
  show ?thesis by (auto simp: noLocationsState_def exampleState_def)
qed

subsection \<open>Sorting with a comparator\<close>

lemma set_insertBy [simp]: "set (insertBy cmp x xs) = insert x (set xs)"
  by (induction xs) auto

lemma length_insertBy [simp]: "length (insertBy cmp x xs) = Suc (length xs)"
  by (induction xs) auto

lemma distinct_insertBy [simp]: "distinct (insertBy cmp x xs) = (x \<notin> set xs \<and> distinct xs)"
  by (induction xs) auto

lemma sortBy_Nil [simp]: "sortBy cmp [] = []"
  by (simp add: sortBy_def)

lemma sortBy_Cons [simp]: "sortBy cmp (x # xs) = insertBy cmp x (sortBy cmp xs)"
  by (simp add: sortBy_def)

lemma set_sortBy [simp]: "set (sortBy cmp xs) = set xs"
  by (induction xs) auto

lemma length_sortBy [simp]: "length (sortBy cmp xs) = length xs"
  by (induction xs) auto

lemma distinct_sortBy [simp]: "distinct (sortBy cmp xs) = distinct xs"
  by (induction xs) auto

lemma sorted_insertBy:
  assumes total: "\<And>a b. cmp a b \<le> 0 \<or> cmp b a \<le> 0"
      and trans: "\<And>a b c. cmp a b \<le> 0 \<Longrightarrow> cmp b c \<le> 0 \<Longrightarrow> cmp a c \<le> 0"
  shows "sorted_wrt (\<lambda>a b. cmp a b \<le> 0) xs \<Longrightarrow> sorted_wrt (\<lambda>a b. cmp a b \<le> (0::int)) (insertBy cmp x xs)"
proof (induction xs)
  case Nil
  then show ?case by simp
next
  case (Cons y ys)
  show ?case
  proof (cases "cmp x y \<le> 0")
    case True
    with Cons.prems trans show ?thesis by auto
  next
    case False
    with total have "cmp y x \<le> 0" by blast
    with False Cons show ?thesis by auto
  qed
qed

lemma sorted_sortBy:
  assumes total: "\<And>a b. cmp a b \<le> 0 \<or> cmp b a \<le> 0"
      and trans: "\<And>a b c. cmp a b \<le> 0 \<Longrightarrow> cmp b c \<le> 0 \<Longrightarrow> cmp a c \<le> 0"
  shows "sorted_wrt (\<lambda>a b. cmp a b \<le> (0::int)) (sortBy cmp xs)"
proof (induction xs)
  case Nil
  then show ?case by simp
next
  case (Cons x xs)
  from sorted_insertBy [of cmp, OF total trans Cons] show ?case by simp
qed

lemma sorted_wrt_take_drop:
  assumes "sorted_wrt R xs" and "k \<in> set (take n xs)" and "r \<in> set (drop n xs)"
  shows "R k r"
proof -
  have "sorted_wrt R (take n xs @ drop n xs)" using assms(1) by simp
  then show ?thesis using assms(2,3) unfolding sorted_wrt_append by blast
qed

subsection \<open>Deleting rows\<close>

lemma deleteSnapshot_rows:
  assumes "deleteSnapshot h snapshotId logIt s = (Inr u, s')"
  shows "snapshots (db s') = filter (\<lambda>item. sn_id item \<noteq> snapshotId) (snapshots (db s))"
proof (cases "find (\<lambda>item. sn_id item = snapshotId) (snapshots (db s))")
  case None
  then have "\<forall>item \<in> set (snapshots (db s)). sn_id item \<noteq> snapshotId"
    by (auto simp: find_None_iff)
  then have "filter (\<lambda>item. sn_id item \<noteq> snapshotId) (snapshots (db s)) = snapshots (db s)"
    by (simp add: filter_id_conv)
  with assms None show ?thesis by (simp add: deleteSnapshot_def)
next
  case (Some snapshot)
  with assms show ?thesis
    by (auto simp: deleteSnapshot_def Let_def logEvent_def split: option.splits if_splits)
qed

lemma deleteSnapshots_rows:
  "deleteSnapshots h rm s = (Inr u, s')
   \<Longrightarrow> snapshots (db s') = filter (\<lambda>item. sn_id item \<notin> sn_id ` set rm) (snapshots (db s))"
proof (induction rm arbitrary: s)
  case Nil
  then show ?case by simp
next
  case (Cons snapshot rest)
  from Cons.prems obtain s1 where
    d: "deleteSnapshot h (sn_id snapshot) False s = (Inr (), s1)"
    and r: "deleteSnapshots h rest s1 = (Inr u, s')"
    by (auto split: prod.splits sum.splits)
  from Cons.IH [OF r] deleteSnapshot_rows [OF d] show ?case
    by (auto intro: filter_cong)
qed

lemma applyRetentionPolicy_rows:
  assumes "applyRetentionPolicy pf h settings gameId s = (Inr u, s')"
  shows "snapshots (db s') =
           filter (\<lambda>item. sn_id item \<notin> sn_id ` set (drop (nat (max 1 (retentionCount settings)))
                     (retentionOrder pf gameId (snapshots (db s)))))
             (snapshots (db s))"
  using assms by (simp add: applyRetentionPolicy_def Let_def deleteSnapshots_rows)

lemma retention_kept_rows:
  assumes distinct: "distinct (map sn_id rows)"
  shows "set (filter (\<lambda>item. sn_game_id item = gameId)
            (filter (\<lambda>item. sn_id item \<notin> sn_id ` set (drop n (retentionOrder pf gameId rows))) rows))
         = set (take n (retentionOrder pf gameId rows))"
    and "length (filter (\<lambda>item. sn_game_id item = gameId)
            (filter (\<lambda>item. sn_id item \<notin> sn_id ` set (drop n (retentionOrder pf gameId rows))) rows))
         = min n (length (filter (\<lambda>item. sn_game_id item = gameId) rows))"
proof -
  let ?S = "retentionOrder pf gameId rows"
  let ?K = "take n ?S" and ?R = "drop n ?S"
  let ?kept = "filter (\<lambda>item. sn_game_id item = gameId)
                 (filter (\<lambda>item. sn_id item \<notin> sn_id ` set ?R) rows)"
  from distinct have d: "distinct rows" and inj: "inj_on sn_id (set rows)"
    by (simp_all add: distinct_map)
  have setS: "set ?S = {item \<in> set rows. sn_game_id item = gameId}"
    by (auto simp: retentionOrder_def)
  have dS: "distinct ?S" using d by (simp add: retentionOrder_def)
  have subR: "set ?R \<subseteq> set rows" using setS set_drop_subset [of n ?S] by blast
  have idR: "\<And>item. item \<in> set rows \<Longrightarrow> sn_id item \<in> sn_id ` set ?R \<longleftrightarrow> item \<in> set ?R"
    using inj subR by (auto dest: inj_onD)
  have split: "set ?K \<union> set ?R = set ?S" "set ?K \<inter> set ?R = {}"
    using dS set_append [of ?K ?R] distinct_append [of ?K ?R] by simp_all
  have "set ?kept = {item \<in> set rows. sn_game_id item = gameId \<and> item \<notin> set ?R}"
    using idR by auto
  also have "\<dots> = set ?S - set ?R" using setS by auto
  also have "\<dots> = set ?K" using split by blast
  finally show k: "set ?kept = set ?K" .
  have dk: "distinct ?kept" using d by simp
  have dK: "distinct ?K" using dS by simp
  have "length ?kept = card (set ?kept)" by (rule distinct_card [OF dk, symmetric])
  also have "\<dots> = card (set ?K)" using k by simp
  also have "\<dots> = length ?K" by (rule distinct_card [OF dK])
  also have "\<dots> = min n (length (filter (\<lambda>item. sn_game_id item = gameId) rows))"
    by (simp add: retentionOrder_def min.commute)
  finally show "length ?kept = min n (length (filter (\<lambda>item. sn_game_id item = gameId) rows))" .
qed

lemma retentionOrder_sorted:
  assumes total: "\<forall>a b. localeCompare pf a b \<le> 0 \<or> localeCompare pf b a \<le> 0"
      and trans: "\<forall>a b c. localeCompare pf a b \<le> 0 \<and> localeCompare pf b c \<le> 0
                    \<longrightarrow> localeCompare pf a c \<le> 0"
  shows "sorted_wrt (\<lambda>left right. localeCompare pf (sn_created_at right) (sn_created_at left) \<le> 0)
           (retentionOrder pf gameId rows)"
  unfolding retentionOrder_def
  by (rule sorted_sortBy) (use total trans in blast)+

subsection \<open>What a successful backup did\<close>

lemma backupLocations_snapshots:
  "backupLocations pf h gameId snapshotRoot snapshotId folders locations acc s = (r, s')
   \<Longrightarrow> snapshots (db s') = snapshots (db s)"
proof (induction locations arbitrary: acc s)
  case Nil
  then show ?case by simp
next
  case (Cons location rest)
  then show ?case
    by (auto simp: Let_def logEvent_def split: if_splits prod.splits sum.splits dest!: Cons.IH)
qed

lemma backupTry_success:
  assumes "backupTry pf h settings gameId reason False snapshotId createdAt snapshotRoot s
             = Some (Inr (Some snapshot), s')"
  shows "\<exists>s3 s4. applyRetentionPolicy pf h settings gameId s3 = (Inr (), s4)
           \<and> snapshots (db s3) = snapshots (db s) @ [snapshot]
           \<and> snapshots (db s') = snapshots (db s4)
           \<and> sn_game_id snapshot = gameId \<and> sn_id snapshot = snapshotId"
  using assms
  apply (auto simp: backupTry_def Let_def logEvent_def updateGameStatus_def
           split: option.splits if_splits prod.splits sum.splits
           dest!: backupLocations_snapshots)
   apply (intro exI conjI, assumption, simp_all)+
  done

lemma backupGame_success:
  assumes "backupGame pf h settings gameId reason False s = Some (Inr (Some snapshot), s')"
  shows "\<exists>s3 s4. applyRetentionPolicy pf h settings gameId s3 = (Inr (), s4)
           \<and> snapshots (db s3) = snapshots (db s) @ [snapshot]
           \<and> snapshots (db s') = snapshots (db s4)
           \<and> sn_game_id snapshot = gameId \<and> sn_id snapshot = uuid h (trace s)"
proof -
  from assms obtain snapshotId createdAt snapshotRoot s1 s2 where
    t: "backupTry pf h settings gameId reason False snapshotId createdAt snapshotRoot s1
          = Some (Inr (Some snapshot), s2)"
    and s1: "snapshots (db s1) = snapshots (db s)"
    and s2: "snapshots (db s') = snapshots (db s2)"
    and u: "snapshotId = uuid h (trace s)"
    by (auto simp: backupGame_def Let_def split: if_splits option.splits prod.splits sum.splits)
  from backupTry_success [OF t] s1 s2 u show ?thesis by auto
qed

subsection \<open>Retention after a backup\<close>

text \<open>
  C8. Let \<^verbatim>\<open>backupGame\<close> without \<^verbatim>\<open>skipRetention\<close> resolve to a snapshot, in an index
  whose snapshot ids are distinct and do not contain the new id, with a retention count
  of at least one (the settings' constraint) and a collation that is a total preorder.
  If the game then has more snapshots than the retention count, exactly that many rows
  of the game remain; they are the first rows of the game's snapshots ordered by
  \<^verbatim>\<open>created_at\<close> descending, and no removed row is more recent than a kept one.
\<close>

theorem backupGame_applies_retention:
  assumes ok: "backupGame pf h settings gameId reason False s = Some (Inr (Some snapshot), s')"
      and ids: "distinct (map sn_id (snapshots (db s)))"
      and fresh: "sn_id snapshot \<notin> sn_id ` set (snapshots (db s))"
      and setting: "1 \<le> retentionCount settings"
      and over: "nat (retentionCount settings)
                   < length (filter (\<lambda>item. sn_game_id item = gameId)
                               (snapshots (db s) @ [snapshot]))"
      and total: "\<forall>a b. localeCompare pf a b \<le> 0 \<or> localeCompare pf b a \<le> 0"
      and trans: "\<forall>a b c. localeCompare pf a b \<le> 0 \<and> localeCompare pf b c \<le> 0
                    \<longrightarrow> localeCompare pf a c \<le> 0"
  shows "length (filter (\<lambda>item. sn_game_id item = gameId) (snapshots (db s')))
           = nat (retentionCount settings)
       \<and> set (filter (\<lambda>item. sn_game_id item = gameId) (snapshots (db s')))
           = set (take (nat (retentionCount settings))
                    (retentionOrder pf gameId (snapshots (db s) @ [snapshot])))
       \<and> (\<forall>kept \<in> set (filter (\<lambda>item. sn_game_id item = gameId) (snapshots (db s'))).
            \<forall>removed \<in> set (filter (\<lambda>item. sn_game_id item = gameId)
                                (snapshots (db s) @ [snapshot]))
                          - set (filter (\<lambda>item. sn_game_id item = gameId) (snapshots (db s'))).
              localeCompare pf (sn_created_at removed) (sn_created_at kept) \<le> 0)"
proof -
  let ?rows = "snapshots (db s) @ [snapshot]"
  let ?n = "nat (retentionCount settings)"
  let ?S = "retentionOrder pf gameId ?rows"
  let ?game = "\<lambda>item. sn_game_id item = gameId"
  from backupGame_success [OF ok] obtain s3 s4 where
    r: "applyRetentionPolicy pf h settings gameId s3 = (Inr (), s4)"
    and s3: "snapshots (db s3) = ?rows"
    and s4: "snapshots (db s') = snapshots (db s4)"
    by blast
  have n: "nat (max 1 (retentionCount settings)) = ?n" using setting by simp
  have after: "snapshots (db s')
                 = filter (\<lambda>item. sn_id item \<notin> sn_id ` set (drop ?n ?S)) ?rows"
    using applyRetentionPolicy_rows [OF r] s3 s4 n by simp
  have d: "distinct (map sn_id ?rows)" using ids fresh by simp
  note kept = retention_kept_rows [OF d, of gameId ?n pf]
  have len: "length (filter ?game (snapshots (db s'))) = ?n"
    using kept(2) over unfolding after by simp
  have set: "set (filter ?game (snapshots (db s'))) = set (take ?n ?S)"
    using kept(1) unfolding after by simp
  have setS: "set ?S = set (filter ?game ?rows)" by (simp add: retentionOrder_def)
  have recent: "localeCompare pf (sn_created_at removed) (sn_created_at kept) \<le> 0"
    if k: "kept \<in> set (filter ?game (snapshots (db s')))"
    and r: "removed \<in> set (filter ?game ?rows) - set (filter ?game (snapshots (db s')))"
    for kept removed
  proof -
    from k have k': "kept \<in> set (take ?n ?S)" unfolding set .
    from r have "removed \<in> set ?S - set (take ?n ?S)" unfolding set setS .
    then have "removed \<in> set (take ?n ?S @ drop ?n ?S) - set (take ?n ?S)" by simp
    then have r': "removed \<in> set (drop ?n ?S)" unfolding set_append by blast
    from sorted_wrt_take_drop [OF retentionOrder_sorted [OF total trans] k' r']
    show ?thesis .
  qed
  from len set recent show ?thesis by blast
qed

text \<open>The code-unit comparison of the example platform is a total preorder.\<close>

lemma compareCodeUnits_Cons_le:
  "compareCodeUnits (x # xs) (y # ys) \<le> 0
     \<longleftrightarrow> (of_char x :: nat) < of_char y \<or> (x = y \<and> compareCodeUnits xs ys \<le> 0)"
proof (cases "(of_char x :: nat) < of_char y")
  case True
  then show ?thesis by simp
next
  case False
  show ?thesis
  proof (cases "(of_char y :: nat) < of_char x")
    case True
    with False show ?thesis by auto
  next
    case False
    with \<open>\<not> (of_char x :: nat) < of_char y\<close> have "(of_char x :: nat) = of_char y" by simp
    then have "x = y" by simp
    then show ?thesis by simp
  qed
qed

lemma compareCodeUnits_Nil_le: "compareCodeUnits [] b \<le> 0"
  by (cases b) simp_all

lemma compareCodeUnits_le_Nil: "compareCodeUnits a [] \<le> 0 \<longleftrightarrow> a = []"
  by (cases a) simp_all

lemma compareCodeUnits_total: "compareCodeUnits a b \<le> 0 \<or> compareCodeUnits b a \<le> 0"
proof (induction a arbitrary: b)
  case Nil
  then show ?case by (simp add: compareCodeUnits_Nil_le)
next
  case (Cons x xs)
  show ?case
  proof (cases b)
    case Nil
    then show ?thesis by (simp add: compareCodeUnits_Nil_le)
  next
    case (Cons y ys)
    from Cons.IH [of ys] show ?thesis
      unfolding Cons compareCodeUnits_Cons_le by (cases "(of_char x :: nat) < of_char y") auto
  qed
qed

lemma compareCodeUnits_trans:
  "compareCodeUnits a b \<le> 0 \<Longrightarrow> compareCodeUnits b c \<le> 0 \<Longrightarrow> compareCodeUnits a c \<le> 0"
proof (induction a arbitrary: b c)
  case Nil
  then show ?case by (simp add: compareCodeUnits_Nil_le)
next
  case (Cons x xs)
  from Cons.prems(1) obtain y ys where b: "b = y # ys"
    by (cases b) simp_all
  from Cons.prems(2) b obtain z zs where c: "c = z # zs"
    by (cases c) simp_all
  from Cons.prems have
    xy: "(of_char x :: nat) < of_char y \<or> (x = y \<and> compareCodeUnits xs ys \<le> 0)"
    and yz: "(of_char y :: nat) < of_char z \<or> (y = z \<and> compareCodeUnits ys zs \<le> 0)"
    unfolding b c compareCodeUnits_Cons_le by blast+
  from xy yz Cons.IH [of ys zs]
  have "(of_char x :: nat) < of_char z \<or> (x = z \<and> compareCodeUnits xs zs \<le> 0)"
    by (metis order_less_trans)
  then show ?case unfolding c compareCodeUnits_Cons_le .
qed

lemma example_created_order:
  "compareCodeUnits ''2024-01-03T00:00:00.000Z'' ''2024-01-02T00:00:00.000Z'' = 1"
  "compareCodeUnits ''2024-01-03T00:00:00.000Z'' ''2024-01-01T00:00:00.000Z'' = 1"
  "compareCodeUnits ''2024-01-02T00:00:00.000Z'' ''2024-01-01T00:00:00.000Z'' = 1"
  "compareCodeUnits ''2024-01-01T00:00:00.000Z'' ''2024-01-02T00:00:00.000Z'' = -1"
  "compareCodeUnits ''2024-01-01T00:00:00.000Z'' ''2024-01-03T00:00:00.000Z'' = -1"
  "compareCodeUnits ''2024-01-02T00:00:00.000Z'' ''2024-01-03T00:00:00.000Z'' = -1"
  by code_simp+

lemma numberToString_0: "numberToString 0 = ''0''"
  by code_simp

lemma example_backup_with_retention:
  "\<exists>snapshot s'.
     backupGame examplePlatform exampleHost exampleSettings ''game-1'' Manual False exampleState
       = Some (Inr (Some snapshot), s')
     \<and> sn_id snapshot = ''id-0'' \<and> sn_game_id snapshot = ''game-1''
     \<and> sn_created_at snapshot = ''2024-01-03T00:00:00.000Z''"
  by (simp add: backup_defs example_defs Let_def applyRetentionPolicy_def retentionOrder_def
        example_created_order deleteSnapshot_def numberToString_0)

theorem backupGame_applies_retention_witness:
  "distinct (map sn_id (snapshots (db exampleState)))
   \<and> 1 \<le> retentionCount exampleSettings
   \<and> (\<exists>snapshot s'.
         backupGame examplePlatform exampleHost exampleSettings ''game-1'' Manual False exampleState
           = Some (Inr (Some snapshot), s')
       \<and> sn_id snapshot \<notin> sn_id ` set (snapshots (db exampleState))
       \<and> sn_created_at snapshot = ''2024-01-03T00:00:00.000Z''
       \<and> length (filter (\<lambda>item. sn_game_id item = ''game-1'')
                   (snapshots (db exampleState) @ [snapshot])) = 3
       \<and> length (filter (\<lambda>item. sn_game_id item = ''game-1'') (snapshots (db s'))) = 2
       \<and> set (filter (\<lambda>item. sn_game_id item = ''game-1'') (snapshots (db s')))
           = {snapshot, snapshotTwo})"
proof -
  have ids: "distinct (map sn_id (snapshots (db exampleState)))"
    by (simp add: example_defs)
  have setting: "1 \<le> retentionCount exampleSettings"
    by (simp add: example_defs)
  from example_backup_with_retention obtain snapshot s' where
    ok: "backupGame examplePlatform exampleHost exampleSettings ''game-1'' Manual False exampleState
           = Some (Inr (Some snapshot), s')"
    and id: "sn_id snapshot = ''id-0''"
    and game: "sn_game_id snapshot = ''game-1''"
    and created: "sn_created_at snapshot = ''2024-01-03T00:00:00.000Z''"
    by blast
  have fresh: "sn_id snapshot \<notin> sn_id ` set (snapshots (db exampleState))"
    by (simp add: id example_defs)
  have count: "length (filter (\<lambda>item. sn_game_id item = ''game-1'')
                 (snapshots (db exampleState) @ [snapshot])) = 3"
    by (simp add: game example_defs)
  have over: "nat (retentionCount exampleSettings)
                < length (filter (\<lambda>item. sn_game_id item = ''game-1'')
                            (snapshots (db exampleState) @ [snapshot]))"
    unfolding count by (simp add: example_defs)
  have total: "\<forall>a b. localeCompare examplePlatform a b \<le> 0 \<or> localeCompare examplePlatform b a \<le> 0"
    using compareCodeUnits_total by (simp add: examplePlatform_def)
  have trans: "\<forall>a b c. localeCompare examplePlatform a b \<le> 0 \<and> localeCompare examplePlatform b c \<le> 0
                 \<longrightarrow> localeCompare examplePlatform a c \<le> 0"
    using compareCodeUnits_trans by (simp add: examplePlatform_def) blast
  have order: "take (nat (retentionCount exampleSettings))
                 (retentionOrder examplePlatform ''game-1'' (snapshots (db exampleState) @ [snapshot]))
               = [snapshot, snapshotTwo]"
    by (simp add: retentionOrder_def game created example_defs example_created_order)
  note kept = backupGame_applies_retention [OF ok ids fresh setting over total trans]
  have len: "length (filter (\<lambda>item. sn_game_id item = ''game-1'') (snapshots (db s'))) = 2"
    using kept by (simp add: exampleSettings_def)
  have set: "set (filter (\<lambda>item. sn_game_id item = ''game-1'') (snapshots (db s')))
               = {snapshot, snapshotTwo}"
    using kept unfolding order by simp
  from ids setting ok fresh created count len set show ?thesis by blast
qed

section \<open>Properties of catalog detection\<close>

subsection \<open>Double arithmetic at the threshold\<close>

text \<open>The literal \<^verbatim>\<open>0.45\<close> and the quotient \<^verbatim>\<open>9 / 20\<close> are the same double; the sum
  \<^verbatim>\<open>3 / 10 + 0.15\<close> is the double just below it.\<close>

lemma double_threshold:
  "toDouble (45 / 100) = 8106479329266893 / 18014398509481984"
  "toDouble (9 / 20) = 8106479329266893 / 18014398509481984"
  by code_simp+

lemma double_quotient_at_threshold: "doubleAdd (doubleDiv 9 20) 0 = toDouble (45 / 100)"
  by code_simp

lemma double_sum_below_threshold:
  "doubleAdd (doubleDiv 3 10) (toDouble (15 / 100)) = 2026619832316723 / 4503599627370496"
  "doubleAdd (doubleDiv 3 10) (toDouble (15 / 100)) < toDouble (45 / 100)"
  by code_simp+

lemma double_difference_above_literal:
  "\<not> doubleSub (toDouble (8 / 10)) (toDouble (75 / 100)) \<le> toDouble (5 / 100)"
  by code_simp

lemma scoreTitleSimilarity_le_1: "scoreTitleSimilarity pf leftTitle rightTitle \<le> 1"
  by (simp add: scoreTitleSimilarity_def Let_def)

subsection \<open>The boundary example\<close>

text \<open>Evaluation of the boundary example: the game name scores 0.45 against the catalog
  title, the folder and executable names score 0.\<close>

lemma boundary_title_normalized:
  "normalizeTitle catalogPlatform ''a b c d e f g h j p q r s t u'' = ''a b c d e f g h j p q r s t u''"
  by code_simp

lemma boundary_name_normalized:
  "normalizeTitle catalogPlatform ''a b c d e f g h j k l m n o'' = ''a b c d e f g h j k l m n o''"
  by code_simp

lemma boundary_folder_normalized: "normalizeTitle catalogPlatform ''zz'' = ''zz''"
  by code_simp

lemma boundary_exe_normalized: "normalizeTitle catalogPlatform ''yy'' = ''yy''"
  by code_simp

lemma boundary_name_score:
  "scoreTitleSimilarity catalogPlatform ''a b c d e f g h j k l m n o''
     ''a b c d e f g h j p q r s t u'' = toDouble (45 / 100)"
  unfolding scoreTitleSimilarity_def boundary_title_normalized boundary_name_normalized Let_def
  by code_simp

lemma boundary_folder_score:
  "scoreTitleSimilarity catalogPlatform ''zz'' ''a b c d e f g h j p q r s t u'' = 0"
  unfolding scoreTitleSimilarity_def boundary_title_normalized boundary_folder_normalized Let_def
  by code_simp

lemma boundary_exe_score:
  "scoreTitleSimilarity catalogPlatform ''yy'' ''a b c d e f g h j p q r s t u'' = 0"
  unfolding scoreTitleSimilarity_def boundary_title_normalized boundary_exe_normalized Let_def
  by code_simp

lemma boundary_query_names:
  "detectionQueryNames catalogPlatform None boundaryInput
     = [''a b c d e f g h j k l m n o'', ''zz'', ''yy'']"
  by code_simp

lemma boundary_windows_locations:
  "windowsLocationsOf catalogPlatform boundaryEntry = [''/saves'']"
  by code_simp

lemma boundary_not_registry: "\<not> isRegistryPath ''/saves''"
  by code_simp

lemma boundary_title_score:
  "titleScore catalogPlatform [''a b c d e f g h j k l m n o'', ''zz'', ''yy''] boundaryEntry
     = toDouble (45 / 100)"
  by (simp add: titleScore_def boundaryEntry_def boundary_name_score boundary_folder_score
        boundary_exe_score double_threshold)

lemma example_metadata:
  "readExeMetadataOf wrappedCatalogHost (noAdapters\<lparr>ad_loadCatalogEntries := loader\<rparr>) p = None"
  by (simp add: readExeMetadataOf_def noAdapters_def wrappedCatalogHost_def)

lemma example_candidates:
  "resolveLocationCandidates wrappedCatalogHost (noAdapters\<lparr>ad_loadCatalogEntries := loader\<rparr>)
     ctx ''/saves''
   = [\<lparr>cand_path = ''/saves'', cand_score = 3 / 4, cand_source = Filesystem,
        cand_rawLocation = ''/saves'', cand_reasons = [''path exists'']\<rparr>]"
  by (simp add: resolveLocationCandidates_def boundary_not_registry wrappedCatalogHost_def
        noAdapters_def List.map_filter_simps)

lemma fresh_delivered: "delivered freshDetectionState = []"
  by (simp add: freshDetectionState_def)

lemma fresh_state: "\<lparr>catalogCache = Map.empty, delivered = []\<rparr> = freshDetectionState"
  by (simp add: freshDetectionState_def)

lemma boundary_detection:
  "detectCatalogSavePaths catalogPlatform wrappedCatalogHost boundaryInput boundaryAdapters
     freshDetectionState = (Inr boundaryResult, freshDetectionState)"
proof -
  have ranked: "rankCatalogEntries catalogPlatform
                  (detectionQueryNames catalogPlatform None boundaryInput) [boundaryEntry]
                = [(boundaryEntry, toDouble (45 / 100))]"
    by (simp add: rankCatalogEntries_def sortBy_def boundary_query_names boundary_title_score)
  have cb: "onProgress boundaryInput = None"
    by (simp add: boundaryInput_def)
  have load: "loadCatalogEntries catalogPlatform wrappedCatalogHost (catalogPath boundaryInput)
                boundaryAdapters (catalogCache freshDetectionState)
              = (Inr (Some [boundaryEntry]), Map.empty)"
    by (simp add: loadCatalogEntries_def boundaryAdapters_def noAdapters_def freshDetectionState_def)
  have title: "pe_title boundaryEntry = ''a b c d e f g h j p q r s t u''"
    by (simp add: boundaryEntry_def)
  show ?thesis
    by (simp add: detectCatalogSavePaths_def fresh_delivered fresh_state detectWithEntries_def
          detectWithMatch_def reportProgress_def cb load
          example_metadata [of "Some (\<lambda>p. Inr (Some [boundaryEntry]))",
            folded boundaryAdapters_def]
          example_candidates [of "Some (\<lambda>p. Inr (Some [boundaryEntry]))",
            folded boundaryAdapters_def]
          ranked boundary_windows_locations title mergeCandidatesByPath_def sortBy_def
          boundaryResult_def Let_def)
qed

lemma boundary_load:
  "fst (loadCatalogEntries catalogPlatform wrappedCatalogHost (catalogPath boundaryInput)
          boundaryAdapters (catalogCache freshDetectionState)) = Inr (Some [boundaryEntry])"
  by (simp add: loadCatalogEntries_def boundaryAdapters_def noAdapters_def)

lemma boundary_best_score:
  "bestRankedScore catalogPlatform wrappedCatalogHost boundaryInput boundaryAdapters
     [boundaryEntry] = toDouble (45 / 100)"
  by (simp add: bestRankedScore_def
        example_metadata [of "Some (\<lambda>p. Inr (Some [boundaryEntry]))", folded boundaryAdapters_def]
        rankCatalogEntries_def sortBy_def boundary_query_names boundary_title_score)

subsection \<open>The example just below the threshold\<close>

lemma near_miss_title_normalized: "normalizeTitle catalogPlatform ''a b c'' = ''a b c''"
  by code_simp

lemma near_miss_name_normalized:
  "normalizeTitle catalogPlatform ''a b c d e f g h j k'' = ''a b c d e f g h j k''"
  by code_simp

lemma near_miss_name_score:
  "scoreTitleSimilarity catalogPlatform ''a b c d e f g h j k'' ''a b c''
     = 2026619832316723 / 4503599627370496"
  unfolding scoreTitleSimilarity_def near_miss_title_normalized near_miss_name_normalized Let_def
  by code_simp

lemma near_miss_folder_score: "scoreTitleSimilarity catalogPlatform ''zz'' ''a b c'' = 0"
  unfolding scoreTitleSimilarity_def near_miss_title_normalized boundary_folder_normalized Let_def
  by code_simp

lemma near_miss_exe_score: "scoreTitleSimilarity catalogPlatform ''yy'' ''a b c'' = 0"
  unfolding scoreTitleSimilarity_def near_miss_title_normalized boundary_exe_normalized Let_def
  by code_simp

lemma near_miss_query_names:
  "detectionQueryNames catalogPlatform None nearMissInput = [''a b c d e f g h j k'', ''zz'', ''yy'']"
  by code_simp

lemma near_miss_title_score:
  "titleScore catalogPlatform [''a b c d e f g h j k'', ''zz'', ''yy''] nearMissEntry
     = 2026619832316723 / 4503599627370496"
  by (simp add: titleScore_def nearMissEntry_def near_miss_name_score near_miss_folder_score
        near_miss_exe_score)

lemma near_miss_best_score:
  "bestRankedScore catalogPlatform wrappedCatalogHost nearMissInput nearMissAdapters
     [nearMissEntry] = 2026619832316723 / 4503599627370496"
  by (simp add: bestRankedScore_def
        example_metadata [of "Some (\<lambda>p. Inr (Some [nearMissEntry]))", folded nearMissAdapters_def]
        rankCatalogEntries_def sortBy_def near_miss_query_names near_miss_title_score)

lemma near_miss_load:
  "fst (loadCatalogEntries catalogPlatform wrappedCatalogHost (catalogPath nearMissInput)
          nearMissAdapters (catalogCache freshDetectionState)) = Inr (Some [nearMissEntry])"
  by (simp add: loadCatalogEntries_def nearMissAdapters_def noAdapters_def)

lemma near_miss_detection:
  "detectCatalogSavePaths catalogPlatform wrappedCatalogHost nearMissInput nearMissAdapters
     freshDetectionState = (Inr nearMissResult, freshDetectionState)"
proof -
  have ranked: "rankCatalogEntries catalogPlatform
                  (detectionQueryNames catalogPlatform None nearMissInput) [nearMissEntry]
                = [(nearMissEntry, 2026619832316723 / 4503599627370496)]"
    by (simp add: rankCatalogEntries_def sortBy_def near_miss_query_names near_miss_title_score)
  have cb: "onProgress nearMissInput = None"
    by (simp add: nearMissInput_def boundaryInput_def)
  have load: "loadCatalogEntries catalogPlatform wrappedCatalogHost (catalogPath nearMissInput)
                nearMissAdapters (catalogCache freshDetectionState)
              = (Inr (Some [nearMissEntry]), Map.empty)"
    by (simp add: loadCatalogEntries_def nearMissAdapters_def noAdapters_def freshDetectionState_def)
  show ?thesis
    by (simp add: detectCatalogSavePaths_def fresh_delivered fresh_state detectWithEntries_def
          reportProgress_def cb load
          example_metadata [of "Some (\<lambda>p. Inr (Some [nearMissEntry]))",
            folded nearMissAdapters_def]
          ranked double_threshold emptyResult_def nearMissResult_def Let_def)
qed

subsection \<open>The similarity threshold\<close>

lemma detectWithMatch_result:
  assumes "detectWithMatch pf h input adapters metadata best second s = (Inr result, s')"
  shows "rs_status result \<in> {NoWindowsLocations, NoValidCandidates, Matched}
       \<and> rs_matchScore result = snd best"
  using assms
  by (auto simp: detectWithMatch_def Let_def
           split: if_splits prod.splits option.splits sum.splits)

lemma rankCatalogEntries_nonempty:
  assumes "entries \<noteq> []"
  shows "rankCatalogEntries pf queryNames entries \<noteq> []"
proof -
  from assms have "length (rankCatalogEntries pf queryNames entries) > 0"
    by (simp add: rankCatalogEntries_def)
  then show ?thesis by auto
qed

text \<open>The boundary case of C4 as the claim words it. The only catalog entry scores exactly
  0.45 against the game name (nine shared words of twenty; the quotient 9 / 20 and the
  literal 0.45 are the same double) and 0 against the folder and executable names, so the
  best score is 0.45; the run does not end in \<^verbatim>\<open>no-match\<close>: it resolves the entry's
  location and returns status \<^verbatim>\<open>matched\<close> with match score 0.45.\<close>

theorem boundary_score_is_accepted:
  "bestRankedScore catalogPlatform wrappedCatalogHost boundaryInput boundaryAdapters
     [boundaryEntry] = toDouble (45 / 100)
   \<and> fst (detectCatalogSavePaths catalogPlatform wrappedCatalogHost boundaryInput
            boundaryAdapters freshDetectionState) = Inr boundaryResult
   \<and> rs_status boundaryResult = Matched
   \<and> rs_matchScore boundaryResult = toDouble (45 / 100)"
  by (simp add: boundary_best_score boundary_detection boundaryResult_def)

text \<open>C4, amended: for a run that loads a catalog with entries and returns a result, with
  the best title score computed in double arithmetic and compared with the double that the
  literal 0.45 denotes: the result has status \<^verbatim>\<open>no-match\<close> when the best score is below
  0.45; when the best score is 0.45 or more (so at exactly 0.45, and at 0.46) the entry is
  accepted: the run goes on to location resolution, its status is one of
  \<^verbatim>\<open>no-windows-locations\<close>, \<^verbatim>\<open>no-valid-candidates\<close> and \<^verbatim>\<open>matched\<close>, and its match
  score is the best score.\<close>

theorem no_match_exactly_below_threshold:
  assumes load: "fst (loadCatalogEntries pf h (catalogPath input) adapters (catalogCache s))
                   = Inr (Some entries)"
      and nonempty: "entries \<noteq> []"
      and returned: "detectCatalogSavePaths pf h input adapters s = (Inr result, s')"
  shows "(bestRankedScore pf h input adapters entries < toDouble (45 / 100)
            \<longrightarrow> rs_status result = NoMatch)
       \<and> (toDouble (45 / 100) \<le> bestRankedScore pf h input adapters entries
            \<longrightarrow> rs_status result \<in> {NoWindowsLocations, NoValidCandidates, Matched}
              \<and> rs_matchScore result = bestRankedScore pf h input adapters entries)"
proof -
  let ?metadata = "readExeMetadataOf h adapters (exePath input)"
  let ?ranked = "rankCatalogEntries pf (detectionQueryNames pf ?metadata input) entries"
  from rankCatalogEntries_nonempty [OF nonempty] obtain best others where
    ranked: "?ranked = best # others"
    by (cases ?ranked) auto
  then have score: "bestRankedScore pf h input adapters entries = snd best"
    by (simp add: bestRankedScore_def)
  from load obtain cache1 where
    l: "loadCatalogEntries pf h (catalogPath input) adapters (catalogCache s)
          = (Inr (Some entries), cache1)"
    by (cases "loadCatalogEntries pf h (catalogPath input) adapters (catalogCache s)") auto
  from returned l nonempty obtain s1 where
    e: "detectWithEntries pf h input adapters entries s1 = (Inr result, s')"
    by (auto simp: detectCatalogSavePaths_def split: prod.splits option.splits)
  show ?thesis
  proof (cases "snd best < toDouble (45 / 100)")
    case True
    with e ranked have "rs_status result = NoMatch"
      by (auto simp: detectWithEntries_def Let_def emptyResult_def
               split: prod.splits option.splits)
    with True score show ?thesis by simp
  next
    case False
    with e ranked obtain second s2 where
      "detectWithMatch pf h input adapters ?metadata best second s2 = (Inr result, s')"
      by (auto simp: detectWithEntries_def Let_def split: prod.splits option.splits)
    from detectWithMatch_result [OF this] False score show ?thesis by simp
  qed
qed

theorem no_match_exactly_below_threshold_witness:
  "bestRankedScore catalogPlatform wrappedCatalogHost nearMissInput nearMissAdapters
     [nearMissEntry] < toDouble (45 / 100)
   \<and> detectCatalogSavePaths catalogPlatform wrappedCatalogHost nearMissInput nearMissAdapters
        freshDetectionState = (Inr nearMissResult, freshDetectionState)
   \<and> rs_status nearMissResult = NoMatch
   \<and> toDouble (45 / 100) \<le> bestRankedScore catalogPlatform wrappedCatalogHost boundaryInput
                              boundaryAdapters [boundaryEntry]
   \<and> detectCatalogSavePaths catalogPlatform wrappedCatalogHost boundaryInput boundaryAdapters
        freshDetectionState = (Inr boundaryResult, freshDetectionState)
   \<and> rs_status boundaryResult \<in> {NoWindowsLocations, NoValidCandidates, Matched}
   \<and> rs_matchScore boundaryResult
       = bestRankedScore catalogPlatform wrappedCatalogHost boundaryInput boundaryAdapters
           [boundaryEntry]"
  using no_match_exactly_below_threshold [OF near_miss_load _ near_miss_detection]
        no_match_exactly_below_threshold [OF boundary_load _ boundary_detection]
  by (simp add: boundary_best_score near_miss_best_score double_threshold near_miss_detection
        boundary_detection)

subsection \<open>The root of the catalog document\<close>

text \<open>Evaluation of the example catalog with one entry, for a game of the same name.\<close>

lemma wrapped_title_normalized: "normalizeTitle catalogPlatform ''Wrapped Game'' = ''wrapped game''"
  by code_simp

lemma wrapped_folder_normalized: "normalizeTitle catalogPlatform ''wrapped'' = ''wrapped''"
  by code_simp

lemma wrapped_name_score:
  "scoreTitleSimilarity catalogPlatform ''Wrapped Game'' ''Wrapped Game'' = 1"
  unfolding scoreTitleSimilarity_def wrapped_title_normalized Let_def
  by code_simp

lemma wrapped_query_names:
  "detectionQueryNames catalogPlatform None wrappedInput = [''Wrapped Game'', ''wrapped'']"
  by code_simp

lemma wrapped_title_score:
  "titleScore catalogPlatform [''Wrapped Game'', ''wrapped''] wrappedEntry = 1"
  using scoreTitleSimilarity_le_1 [of catalogPlatform "''wrapped''" "''Wrapped Game''"]
  by (simp add: titleScore_def wrappedEntry_def wrapped_name_score)

lemma wrapped_windows_locations: "windowsLocationsOf catalogPlatform wrappedEntry = [''/saves'']"
  by code_simp

lemma wrapped_entries: "parseCatalogEntries catalogPlatform [entryJson] = [wrappedEntry]"
  by code_simp

lemma wrapped_cache_key: "path_resolve catalogPlatform [''/data/games-db.json''] = ''/data/games-db.json''"
  by code_simp

lemma wrapped_load:
  "loadCatalogEntries catalogPlatform wrappedCatalogHost ''/data/games-db.json'' noAdapters
     Map.empty = (Inr (Some [wrappedEntry]), wrappedCache)"
  by (simp add: loadCatalogEntries_def noAdapters_def wrappedCatalogHost_def wrapped_cache_key
        getCatalogGamesArray_def isObjectValue_def wrappedCatalogJson_def wrapped_entries
        wrappedCache_def Let_def)

lemma listening_query_names:
  "detectionQueryNames catalogPlatform None listeningInput = [''Wrapped Game'', ''wrapped'']"
  by code_simp

lemma wrapped_ranked:
  "rankCatalogEntries catalogPlatform [''Wrapped Game'', ''wrapped''] [wrappedEntry]
     = [(wrappedEntry, 1)]"
  by (simp add: rankCatalogEntries_def sortBy_def wrapped_title_score)

lemma wrapped_metadata: "readExeMetadataOf wrappedCatalogHost noAdapters p = None"
  by (simp add: readExeMetadataOf_def noAdapters_def wrappedCatalogHost_def)

lemma wrapped_candidates:
  "resolveLocationCandidates wrappedCatalogHost noAdapters ctx ''/saves''
     = [\<lparr>cand_path = ''/saves'', cand_score = 3 / 4, cand_source = Filesystem,
          cand_rawLocation = ''/saves'', cand_reasons = [''path exists'']\<rparr>]"
  by (simp add: resolveLocationCandidates_def boundary_not_registry wrappedCatalogHost_def
        noAdapters_def List.map_filter_simps)

lemma wrapped_detection:
  "detectCatalogSavePaths catalogPlatform wrappedCatalogHost wrappedInput noAdapters
     freshDetectionState
   = (Inr wrappedResult, \<lparr>catalogCache = wrappedCache, delivered = []\<rparr>)"
proof -
  have input: "onProgress wrappedInput = None" "catalogPath wrappedInput = ''/data/games-db.json''"
    by (simp_all add: wrappedInput_def)
  have fresh: "catalogCache freshDetectionState = Map.empty" "delivered freshDetectionState = []"
    by (simp_all add: freshDetectionState_def)
  have title: "pe_title wrappedEntry = ''Wrapped Game''"
    by (simp add: wrappedEntry_def)
  show ?thesis
    by (simp add: detectCatalogSavePaths_def detectWithEntries_def detectWithMatch_def
          reportProgress_def input fresh wrapped_load wrapped_metadata wrapped_query_names
          wrapped_ranked wrapped_windows_locations wrapped_candidates title
          mergeCandidatesByPath_def sortBy_def wrappedResult_def Let_def double_threshold)
qed

lemma wrapped_checking:
  "checkingPayload ''Wrapped Game'' (Suc 0) 0
     = \<lparr>pr_percent = 20, pr_processed = 0, pr_total = 1,
         pr_message = ''Checking location 1/1...'', pr_matchedTitle = Some ''Wrapped Game''\<rparr>"
  by code_simp

lemma wrapped_validated:
  "validatedPayload ''Wrapped Game'' (Suc 0) 0
     = \<lparr>pr_percent = 90, pr_processed = 1, pr_total = 1,
         pr_message = ''Validated 1/1 locations.'', pr_matchedTitle = Some ''Wrapped Game''\<rparr>"
  by code_simp

lemma listening_detection:
  "detectCatalogSavePaths catalogPlatform wrappedCatalogHost listeningInput noAdapters
     freshDetectionState
   = (Inr wrappedResult, \<lparr>catalogCache = wrappedCache, delivered = listeningPayloads\<rparr>)"
proof -
  have input: "onProgress listeningInput = Some listeningCallback"
    "catalogPath listeningInput = ''/data/games-db.json''"
    by (simp_all add: listeningInput_def wrappedInput_def)
  have fresh: "catalogCache freshDetectionState = Map.empty" "delivered freshDetectionState = []"
    by (simp_all add: freshDetectionState_def)
  have title: "pe_title wrappedEntry = ''Wrapped Game''"
    by (simp add: wrappedEntry_def)
  have call: "listeningCallback given payload = None" for given payload
    by (simp add: listeningCallback_def)
  show ?thesis
    by (simp add: detectCatalogSavePaths_def detectWithEntries_def detectWithMatch_def
          reportProgress_def input fresh wrapped_load wrapped_metadata listening_query_names
          wrapped_ranked wrapped_windows_locations wrapped_candidates title call
          mergeCandidatesByPath_def sortBy_def wrappedResult_def Let_def loadingPayload_def
          double_threshold
          listeningPayloads_def wrapped_checking wrapped_validated)
qed

lemma array_root: "ch_readJson arrayCatalogHost p = Some (JArray [entryJson])"
  by (simp add: arrayCatalogHost_def)

lemma throwing_call: "throwingCallback given payload = Some (Error ''boom'')"
  by (simp add: throwingCallback_def)

lemma listening_call: "listeningCallback given payload = None"
  by (simp add: listeningCallback_def)

lemma throwing_input: "onProgress throwingInput = Some throwingCallback"
  by (simp add: throwingInput_def)

lemma array_detection:
  "detectCatalogSavePaths catalogPlatform arrayCatalogHost wrappedInput noAdapters
     freshDetectionState = (Inr (emptyResult CatalogInvalid), freshDetectionState)"
  by (simp add: detectCatalogSavePaths_def loadCatalogEntries_def reportProgress_def
        wrappedInput_def noAdapters_def arrayCatalogHost_def wrappedCatalogHost_def
        freshDetectionState_def getCatalogGamesArray_def)

lemma throwing_detection:
  "detectCatalogSavePaths catalogPlatform wrappedCatalogHost throwingInput noAdapters
     freshDetectionState
   = (Inl (Error ''boom''), \<lparr>catalogCache = Map.empty, delivered = [loadingPayload]\<rparr>)"
  by (simp add: detectCatalogSavePaths_def reportProgress_def throwingInput_def
        throwingCallback_def freshDetectionState_def loadingPayload_def)

lemma getCatalogGamesArray_Some:
  "getCatalogGamesArray parsed = Some gamesArray
     \<longleftrightarrow> (\<exists>kvs. parsed = JObject kvs \<and> map_of kvs ''games'' = Some (JArray gamesArray))"
  by (cases parsed)
     (auto simp: getCatalogGamesArray_def isObjectValue_def split: option.splits json.splits)

text \<open>The claim C5 as it is worded fails on this example. The entry of the catalog is
  valid: under a root object with a \<^verbatim>\<open>games\<close> array it is parsed and detection
  returns \<^verbatim>\<open>matched\<close>. The same entry in a bare array at the root is not parsed:
  detection returns \<^verbatim>\<open>catalog-invalid\<close>.\<close>

theorem bare_array_catalog_reported_invalid:
  "parseCatalogEntries catalogPlatform [entryJson] = [wrappedEntry]
   \<and> fst (detectCatalogSavePaths catalogPlatform wrappedCatalogHost wrappedInput noAdapters
            freshDetectionState) = Inr wrappedResult
   \<and> rs_status wrappedResult = Matched
   \<and> ch_readJson arrayCatalogHost (catalogPath wrappedInput) = Some (JArray [entryJson])
   \<and> fst (detectCatalogSavePaths catalogPlatform arrayCatalogHost wrappedInput noAdapters
            freshDetectionState) = Inr (emptyResult CatalogInvalid)
   \<and> rs_status (emptyResult CatalogInvalid) = CatalogInvalid"
  by (simp add: wrapped_entries wrapped_detection array_detection array_root wrappedResult_def
        emptyResult_def)

text \<open>C5, amended: the built-in loader (no loader adapter, the file exists and its
  modification time can be read) parses entries only from the \<^verbatim>\<open>games\<close> array of a root
  object. When the cache holds entries for the resolved path under the same modification
  time, those are returned and the file is not read. Otherwise the file is read: a document
  whose root is a bare array gives no entries, whatever the array holds, nothing is cached,
  and detection, if its first progress report does not throw, returns
  \<^verbatim>\<open>catalog-invalid\<close>; a root object with a \<^verbatim>\<open>games\<close> array gives the parsed entries,
  which are cached under the resolved path, and detection proceeds with them when there are
  any; and whenever the loader returns entries at all, the root is such an object and the
  entries are those parsed from its \<^verbatim>\<open>games\<close> array.\<close>

theorem catalog_root_must_be_object:
  assumes noLoader: "ad_loadCatalogEntries adapters = None"
      and present: "ch_existsSync h (catalogPath input)"
      and stat: "ch_statMtimeMs h (catalogPath input) = Some mtimeMs"
  shows "(catalogCache s (path_resolve pf [catalogPath input]) = Some (mtimeMs, cachedEntries)
            \<longrightarrow> loadCatalogEntries pf h (catalogPath input) adapters (catalogCache s)
                  = (Inr (Some cachedEntries), catalogCache s))
       \<and> ((case catalogCache s (path_resolve pf [catalogPath input]) of
              None \<Rightarrow> True
            | Some cached \<Rightarrow> fst cached \<noteq> mtimeMs)
            \<longrightarrow> (ch_readJson h (catalogPath input) = Some (JArray items)
                    \<longrightarrow> loadCatalogEntries pf h (catalogPath input) adapters (catalogCache s)
                          = (Inr (Some []), catalogCache s)
                      \<and> (reportProgress (onProgress input) loadingPayload (delivered s)
                            = (None, reported)
                          \<longrightarrow> detectCatalogSavePaths pf h input adapters s
                                = (Inr (emptyResult CatalogInvalid), s\<lparr>delivered := reported\<rparr>)))
              \<and> (ch_readJson h (catalogPath input) = Some (JObject kvs)
                    \<and> map_of kvs ''games'' = Some (JArray gamesArray)
                    \<longrightarrow> loadCatalogEntries pf h (catalogPath input) adapters (catalogCache s)
                          = (Inr (Some (parseCatalogEntries pf gamesArray)),
                             (catalogCache s)(path_resolve pf [catalogPath input]
                                \<mapsto> (mtimeMs, parseCatalogEntries pf gamesArray)))
                      \<and> (parseCatalogEntries pf gamesArray \<noteq> []
                          \<and> reportProgress (onProgress input) loadingPayload (delivered s)
                              = (None, reported)
                          \<longrightarrow> detectCatalogSavePaths pf h input adapters s
                                = detectWithEntries pf h input adapters
                                    (parseCatalogEntries pf gamesArray)
                                    \<lparr>catalogCache =
                                       (catalogCache s)(path_resolve pf [catalogPath input]
                                          \<mapsto> (mtimeMs, parseCatalogEntries pf gamesArray)),
                                     delivered = reported\<rparr>))
              \<and> (\<forall>entries.
                    fst (loadCatalogEntries pf h (catalogPath input) adapters (catalogCache s))
                      = Inr (Some entries) \<and> entries \<noteq> []
                    \<longrightarrow> (\<exists>rootFields games.
                           ch_readJson h (catalogPath input) = Some (JObject rootFields)
                           \<and> map_of rootFields ''games'' = Some (JArray games)
                           \<and> entries = parseCatalogEntries pf games)))"
proof (intro conjI impI)
  assume "catalogCache s (path_resolve pf [catalogPath input]) = Some (mtimeMs, cachedEntries)"
  then show "loadCatalogEntries pf h (catalogPath input) adapters (catalogCache s)
               = (Inr (Some cachedEntries), catalogCache s)"
    using assms by (simp add: loadCatalogEntries_def Let_def)
next
  assume miss: "case catalogCache s (path_resolve pf [catalogPath input]) of
                  None \<Rightarrow> True | Some cached \<Rightarrow> fst cached \<noteq> mtimeMs"
  then have lookup:
    "(case catalogCache s (path_resolve pf [catalogPath input]) of
        Some cached \<Rightarrow> if fst cached = mtimeMs then Some (snd cached) else None
      | None \<Rightarrow> None) = None"
    by (auto split: option.splits)
  have load: "loadCatalogEntries pf h (catalogPath input) adapters (catalogCache s)
      = (case ch_readJson h (catalogPath input) of
           None \<Rightarrow> (Inr (Some []), catalogCache s)
         | Some parsed \<Rightarrow>
             (case getCatalogGamesArray parsed of
                None \<Rightarrow> (Inr (Some []), catalogCache s)
              | Some gamesArray \<Rightarrow>
                  (Inr (Some (parseCatalogEntries pf gamesArray)),
                   (catalogCache s)(path_resolve pf [catalogPath input]
                      \<mapsto> (mtimeMs, parseCatalogEntries pf gamesArray)))))"
    using assms lookup by (simp add: loadCatalogEntries_def Let_def split: option.splits)
  {
    assume root: "ch_readJson h (catalogPath input) = Some (JArray items)"
    then show l: "loadCatalogEntries pf h (catalogPath input) adapters (catalogCache s)
               = (Inr (Some []), catalogCache s)"
      by (simp add: load getCatalogGamesArray_def)
    assume "reportProgress (onProgress input) loadingPayload (delivered s) = (None, reported)"
    then show "detectCatalogSavePaths pf h input adapters s
                 = (Inr (emptyResult CatalogInvalid), s\<lparr>delivered := reported\<rparr>)"
      by (simp add: detectCatalogSavePaths_def l)
  }
  {
    assume root: "ch_readJson h (catalogPath input) = Some (JObject kvs)
                  \<and> map_of kvs ''games'' = Some (JArray gamesArray)"
    then have g: "getCatalogGamesArray (JObject kvs) = Some gamesArray"
      by (simp add: getCatalogGamesArray_Some)
    with root show l: "loadCatalogEntries pf h (catalogPath input) adapters (catalogCache s)
               = (Inr (Some (parseCatalogEntries pf gamesArray)),
                  (catalogCache s)(path_resolve pf [catalogPath input]
                     \<mapsto> (mtimeMs, parseCatalogEntries pf gamesArray)))"
      by (simp add: load)
    assume "parseCatalogEntries pf gamesArray \<noteq> []
            \<and> reportProgress (onProgress input) loadingPayload (delivered s) = (None, reported)"
    then show "detectCatalogSavePaths pf h input adapters s
                 = detectWithEntries pf h input adapters (parseCatalogEntries pf gamesArray)
                     \<lparr>catalogCache =
                        (catalogCache s)(path_resolve pf [catalogPath input]
                           \<mapsto> (mtimeMs, parseCatalogEntries pf gamesArray)),
                      delivered = reported\<rparr>"
      by (simp add: detectCatalogSavePaths_def l)
  }
  show "\<forall>entries.
          fst (loadCatalogEntries pf h (catalogPath input) adapters (catalogCache s))
            = Inr (Some entries) \<and> entries \<noteq> []
          \<longrightarrow> (\<exists>rootFields games.
                 ch_readJson h (catalogPath input) = Some (JObject rootFields)
                 \<and> map_of rootFields ''games'' = Some (JArray games)
                 \<and> entries = parseCatalogEntries pf games)"
    by (auto simp: load getCatalogGamesArray_Some split: option.splits)
qed

theorem catalog_root_must_be_object_witness:
  "ch_readJson arrayCatalogHost (catalogPath wrappedInput) = Some (JArray [entryJson])
   \<and> catalogCache freshDetectionState (path_resolve catalogPlatform [catalogPath wrappedInput])
       = None
   \<and> detectCatalogSavePaths catalogPlatform arrayCatalogHost wrappedInput noAdapters
        freshDetectionState = (Inr (emptyResult CatalogInvalid), freshDetectionState)
   \<and> ch_readJson wrappedCatalogHost (catalogPath wrappedInput) = Some wrappedCatalogJson
   \<and> fst (loadCatalogEntries catalogPlatform wrappedCatalogHost (catalogPath wrappedInput)
            noAdapters (catalogCache freshDetectionState))
       = Inr (Some (parseCatalogEntries catalogPlatform [entryJson]))
   \<and> catalogCache cachedDetectionState (path_resolve catalogPlatform [catalogPath wrappedInput])
       = Some (1000, [wrappedEntry])
   \<and> loadCatalogEntries catalogPlatform arrayCatalogHost (catalogPath wrappedInput) noAdapters
        (catalogCache cachedDetectionState) = (Inr (Some [wrappedEntry]), wrappedCache)"
proof -
  let ?fields = "[(''source'', JString ''PCGamingWiki''), (''count'', JNumber 1),
                  (''games'', JArray [entryJson])]"
  have noLoader: "ad_loadCatalogEntries noAdapters = None"
    by (simp add: noAdapters_def)
  have presentA: "ch_existsSync arrayCatalogHost (catalogPath wrappedInput)"
    and statA: "ch_statMtimeMs arrayCatalogHost (catalogPath wrappedInput) = Some 1000"
    and presentW: "ch_existsSync wrappedCatalogHost (catalogPath wrappedInput)"
    and statW: "ch_statMtimeMs wrappedCatalogHost (catalogPath wrappedInput) = Some 1000"
    by (simp_all add: arrayCatalogHost_def wrappedCatalogHost_def)
  have key: "path_resolve catalogPlatform [catalogPath wrappedInput] = ''/data/games-db.json''"
    by (simp add: wrappedInput_def wrapped_cache_key)
  have fresh: "catalogCache freshDetectionState
                 (path_resolve catalogPlatform [catalogPath wrappedInput]) = None"
    by (simp add: freshDetectionState_def)
  then have miss: "case catalogCache freshDetectionState
                          (path_resolve catalogPlatform [catalogPath wrappedInput]) of
                     None \<Rightarrow> True | Some cached \<Rightarrow> fst cached \<noteq> 1000"
    by simp
  have hit: "catalogCache cachedDetectionState
               (path_resolve catalogPlatform [catalogPath wrappedInput])
             = Some (1000, [wrappedEntry])"
    unfolding key by (simp add: cachedDetectionState_def wrappedCache_def)
  have rootA: "ch_readJson arrayCatalogHost (catalogPath wrappedInput) = Some (JArray [entryJson])"
    by (rule array_root)
  have rootW: "ch_readJson wrappedCatalogHost (catalogPath wrappedInput) = Some (JObject ?fields)"
    by (simp add: wrappedCatalogHost_def wrappedCatalogJson_def)
  have games: "map_of ?fields ''games'' = Some (JArray [entryJson])"
    by simp
  have report: "reportProgress (onProgress wrappedInput) loadingPayload
                  (delivered freshDetectionState) = (None, [])"
    by (simp add: reportProgress_def wrappedInput_def freshDetectionState_def)
  have same: "freshDetectionState\<lparr>delivered := []\<rparr> = freshDetectionState"
    "catalogCache cachedDetectionState = wrappedCache"
    by (simp_all add: freshDetectionState_def cachedDetectionState_def)
  from catalog_root_must_be_object [OF noLoader presentA statA,
         where pf = catalogPlatform and s = freshDetectionState and reported = "[]"
           and items = "[entryJson]"]
       miss rootA report
  have invalid: "detectCatalogSavePaths catalogPlatform arrayCatalogHost wrappedInput noAdapters
                   freshDetectionState
                 = (Inr (emptyResult CatalogInvalid), freshDetectionState\<lparr>delivered := []\<rparr>)"
    by blast
  from catalog_root_must_be_object [OF noLoader presentW statW,
         where pf = catalogPlatform and s = freshDetectionState and kvs = ?fields
           and gamesArray = "[entryJson]"]
       miss rootW games
  have parsed: "loadCatalogEntries catalogPlatform wrappedCatalogHost (catalogPath wrappedInput)
                  noAdapters (catalogCache freshDetectionState)
                = (Inr (Some (parseCatalogEntries catalogPlatform [entryJson])),
                   (catalogCache freshDetectionState)
                     (path_resolve catalogPlatform [catalogPath wrappedInput]
                        \<mapsto> (1000, parseCatalogEntries catalogPlatform [entryJson])))"
    by blast
  from catalog_root_must_be_object [OF noLoader presentA statA,
         where pf = catalogPlatform and s = cachedDetectionState
           and cachedEntries = "[wrappedEntry]"]
       hit
  have cached: "loadCatalogEntries catalogPlatform arrayCatalogHost (catalogPath wrappedInput)
                  noAdapters (catalogCache cachedDetectionState)
                = (Inr (Some [wrappedEntry]), catalogCache cachedDetectionState)"
    by blast
  show ?thesis
    using rootA fresh invalid rootW parsed hit cached
    by (simp add: same wrappedCatalogJson_def)
qed

subsection \<open>Exceptions of the progress callback\<close>

lemma quietFrom_append:
  "quietFrom cb given (ps @ qs) = (quietFrom cb given ps \<and> quietFrom cb (given @ ps) qs)"
  by (induction ps arbitrary: given) auto

lemma callbackRun_refl: "callbackRun cb given given None"
  by (simp add: callbackRun_def)

lemma callbackRun_trans:
  assumes "callbackRun cb given given1 None" and "callbackRun cb given1 given2 outcome"
  shows "callbackRun cb given given2 outcome"
proof -
  from assms(1) obtain ps where ps: "given1 = given @ ps" "quietFrom cb given ps"
    by (auto simp: callbackRun_def)
  show ?thesis
  proof (cases outcome)
    case None
    with assms(2) obtain qs where "given2 = given1 @ qs" "quietFrom cb given1 qs"
      by (auto simp: callbackRun_def)
    with ps have "given2 = given @ (ps @ qs) \<and> quietFrom cb given (ps @ qs)"
      by (simp add: quietFrom_append)
    with None show ?thesis unfolding callbackRun_def by (simp only: option.case) blast
  next
    case (Some e)
    with assms(2) obtain qs p where
      "given2 = given1 @ qs @ [p]" "quietFrom cb given1 qs" "cb (given1 @ qs) p = Some e"
      by (auto simp: callbackRun_def)
    with ps have "given2 = given @ (ps @ qs) @ [p] \<and> quietFrom cb given (ps @ qs)
                    \<and> cb (given @ (ps @ qs)) p = Some e"
      by (simp add: quietFrom_append)
    with Some show ?thesis unfolding callbackRun_def by (simp only: option.case) blast
  qed
qed

lemma reportProgress_run:
  assumes "reportProgress (Some cb) payload given = (outcome, given1)"
  shows "callbackRun cb given given1 outcome"
proof -
  from assms obtain p where p: "given1 = given @ [p]" "cb given p = outcome"
    by (auto simp: reportProgress_def Let_def)
  show ?thesis
  proof (cases outcome)
    case None
    with p have "given1 = given @ [p] \<and> quietFrom cb given [p]" by simp
    with None show ?thesis unfolding callbackRun_def by (simp only: option.case) blast
  next
    case (Some e)
    with p have "given1 = given @ [] @ [p] \<and> quietFrom cb given [] \<and> cb (given @ []) p = Some e"
      by simp
    with Some show ?thesis unfolding callbackRun_def by (simp only: option.case) blast
  qed
qed

lemma resolveLocations_run:
  assumes "resolveLocations h adapters ctx (Some cb) title totalLocations index locations
             resolved given = (r, given')"
  shows "callbackRun cb given given' (outcomeOf r)"
  using assms
proof (induction locations arbitrary: index resolved given)
  case Nil
  then show ?case by (auto simp: callbackRun_refl)
next
  case (Cons rawLocation rest)
  show ?case
  proof (cases "rawLocation = []")
    case True
    with Cons show ?thesis by simp
  next
    case False
    obtain o1 given1 where
      r1: "reportProgress (Some cb) (checkingPayload title totalLocations index) given
             = (o1, given1)"
      by (cases "reportProgress (Some cb) (checkingPayload title totalLocations index) given")
    note run1 = reportProgress_run [OF r1]
    show ?thesis
    proof (cases o1)
      case (Some e)
      with Cons.prems False r1 run1 show ?thesis by auto
    next
      case None
      obtain o2 given2 where
        r2: "reportProgress (Some cb) (validatedPayload title totalLocations index) given1
               = (o2, given2)"
        by (cases "reportProgress (Some cb) (validatedPayload title totalLocations index) given1")
      from callbackRun_trans [OF _ reportProgress_run [OF r2]] run1 None
      have run2: "callbackRun cb given given2 o2" by simp
      show ?thesis
      proof (cases o2)
        case (Some e)
        with Cons.prems False r1 r2 None run2 show ?thesis by (auto simp: Let_def)
      next
        case o2None: None
        with Cons.prems False r1 r2 None
        have "resolveLocations h adapters ctx (Some cb) title totalLocations (index + 1) rest
                (resolved @ resolveLocationCandidates h adapters ctx rawLocation) given2
              = (r, given')"
          by (simp add: Let_def)
        from callbackRun_trans [OF _ Cons.IH [OF this]] run2 o2None show ?thesis by simp
      qed
    qed
  qed
qed

lemma detectWithMatch_run:
  assumes cb: "onProgress input = Some cb"
      and returned: "detectWithMatch pf h input adapters metadata best second s = (r, s')"
  shows "callbackRun cb (delivered s) (delivered s') (outcomeOf r)"
proof (cases "length (windowsLocationsOf pf (fst best)) = 0")
  case True
  with returned show ?thesis by (auto simp: detectWithMatch_def Let_def callbackRun_refl)
next
  case False
  let ?title = "pe_title (fst best)"
  let ?total = "length (windowsLocationsOf pf (fst best))"
  let ?ctx = "\<lparr>rc_installPath = installPath input, rc_gameName = gameName input,
                rc_steamLibraries =
                  (case ad_listSteamLibraries adapters of
                     Some libraries \<Rightarrow> libraries
                   | None \<Rightarrow> ch_detectSteamLibraries h)\<rparr>"
  obtain o1 given1 where
    r1: "reportProgress (Some cb)
           \<lparr>pr_percent = 20, pr_processed = 0, pr_total = int ?total,
             pr_message = matchedMessage ?title, pr_matchedTitle = Some ?title\<rparr> (delivered s)
         = (o1, given1)"
    by (cases "reportProgress (Some cb)
           \<lparr>pr_percent = 20, pr_processed = 0, pr_total = int ?total,
             pr_message = matchedMessage ?title, pr_matchedTitle = Some ?title\<rparr> (delivered s)")
  note run1 = reportProgress_run [OF r1]
  show ?thesis
  proof (cases o1)
    case (Some e)
    with returned False cb r1 run1 show ?thesis
      by (auto simp: detectWithMatch_def Let_def)
  next
    case None
    obtain r2 given2 where
      l2: "resolveLocations h adapters ?ctx (Some cb) ?title ?total 0
             (windowsLocationsOf pf (fst best)) [] given1 = (r2, given2)"
      by (cases "resolveLocations h adapters ?ctx (Some cb) ?title ?total 0
             (windowsLocationsOf pf (fst best)) [] given1")
    from callbackRun_trans [OF _ resolveLocations_run [OF l2]] run1 None
    have run2: "callbackRun cb (delivered s) given2 (outcomeOf r2)" by simp
    show ?thesis
    proof (cases r2)
      case (Inl e)
      with returned False cb r1 None l2 run2 show ?thesis
        by (auto simp: detectWithMatch_def Let_def)
    next
      case (Inr resolvedCandidates)
      obtain o3 given3 where
        r3: "reportProgress (Some cb)
               \<lparr>pr_percent = 95, pr_processed = int ?total, pr_total = int ?total,
                 pr_message = ''Ranking candidate save paths...'',
                 pr_matchedTitle = Some ?title\<rparr> given2 = (o3, given3)"
        by (cases "reportProgress (Some cb)
               \<lparr>pr_percent = 95, pr_processed = int ?total, pr_total = int ?total,
                 pr_message = ''Ranking candidate save paths...'',
                 pr_matchedTitle = Some ?title\<rparr> given2")
      from callbackRun_trans [OF _ reportProgress_run [OF r3]] run2 Inr
      have run3: "callbackRun cb (delivered s) given3 o3" by simp
      from returned False cb r1 None l2 Inr r3 have "delivered s' = given3 \<and> outcomeOf r = o3"
        by (cases o3) (auto simp: detectWithMatch_def Let_def split: if_splits)
      with run3 show ?thesis by simp
    qed
  qed
qed

lemma detectWithEntries_run:
  assumes cb: "onProgress input = Some cb"
      and returned: "detectWithEntries pf h input adapters entries s = (r, s')"
  shows "callbackRun cb (delivered s) (delivered s') (outcomeOf r)"
proof -
  obtain o1 given1 where
    r1: "reportProgress (Some cb)
           \<lparr>pr_percent = 15, pr_processed = 0, pr_total = 1,
             pr_message = ''Matching game title using executable metadata...'',
             pr_matchedTitle = None\<rparr> (delivered s) = (o1, given1)"
    by (cases "reportProgress (Some cb)
           \<lparr>pr_percent = 15, pr_processed = 0, pr_total = 1,
             pr_message = ''Matching game title using executable metadata...'',
             pr_matchedTitle = None\<rparr> (delivered s)")
  note run1 = reportProgress_run [OF r1]
  show ?thesis
  proof (cases o1)
    case (Some e)
    with returned cb r1 run1 show ?thesis by (auto simp: detectWithEntries_def)
  next
    case None
    let ?metadata = "readExeMetadataOf h adapters (exePath input)"
    let ?ranked = "rankCatalogEntries pf (detectionQueryNames pf ?metadata input) entries"
    show ?thesis
    proof (cases ?ranked)
      case Nil
      with returned cb r1 None run1 show ?thesis by (auto simp: detectWithEntries_def Let_def)
    next
      case (Cons best others)
      show ?thesis
      proof (cases "snd best < toDouble (45 / 100)")
        case True
        with returned cb r1 None run1 Cons show ?thesis
          by (auto simp: detectWithEntries_def Let_def)
      next
        case False
        with returned cb r1 None Cons obtain second where
          m: "detectWithMatch pf h input adapters ?metadata best second
                (s\<lparr>delivered := given1\<rparr>) = (r, s')"
          by (auto simp: detectWithEntries_def Let_def)
        from callbackRun_trans [OF _ detectWithMatch_run [OF cb m]] run1 None
        show ?thesis by simp
      qed
    qed
  qed
qed

text \<open>The claim C9 as it is worded fails on this example: with a callback that throws,
  detection does not return the result it returns without the callback; the run ends with
  the error of the callback, at the first progress report.\<close>

theorem throwing_callback_aborts_detection:
  "fst (detectCatalogSavePaths catalogPlatform wrappedCatalogHost wrappedInput noAdapters
          freshDetectionState) = Inr wrappedResult
   \<and> onProgress throwingInput = Some throwingCallback
   \<and> throwingCallback [] loadingPayload = Some (Error ''boom'')
   \<and> fst (detectCatalogSavePaths catalogPlatform wrappedCatalogHost throwingInput noAdapters
            freshDetectionState) = Inl (Error ''boom'')"
  by (simp add: wrapped_detection throwing_detection throwing_input throwing_call)

text \<open>C9, amended: an exception thrown by the progress callback is not swallowed. In a run
  with a callback whose catalog loader does not fail, detection returns a result only if
  every call of the callback returned normally; otherwise the run ends at the first call
  that throws, no further payload is delivered, and the error of the run is the one the
  callback threw.\<close>

theorem callback_exception_ends_run:
  assumes cb: "onProgress input = Some cb"
      and loader: "outcomeOf (fst (loadCatalogEntries pf h (catalogPath input) adapters
                                     (catalogCache s))) = None"
      and returned: "detectCatalogSavePaths pf h input adapters s = (r, s')"
  shows "case r of
           Inr result \<Rightarrow>
             \<exists>ps. delivered s' = delivered s @ ps \<and> quietFrom cb (delivered s) ps
         | Inl e \<Rightarrow>
             \<exists>ps p. delivered s' = delivered s @ ps @ [p] \<and> quietFrom cb (delivered s) ps
                    \<and> cb (delivered s @ ps) p = Some e"
proof -
  obtain o1 given1 where
    r1: "reportProgress (Some cb) loadingPayload (delivered s) = (o1, given1)"
    by (cases "reportProgress (Some cb) loadingPayload (delivered s)")
  note run1 = reportProgress_run [OF r1]
  have "callbackRun cb (delivered s) (delivered s') (outcomeOf r)"
  proof (cases o1)
    case (Some e)
    with returned cb r1 run1 show ?thesis by (auto simp: detectCatalogSavePaths_def)
  next
    case None
    obtain l cache1 where
      l: "loadCatalogEntries pf h (catalogPath input) adapters (catalogCache s) = (l, cache1)"
      by (cases "loadCatalogEntries pf h (catalogPath input) adapters (catalogCache s)")
    with loader obtain loaded where loaded: "l = Inr loaded" by (cases l) auto
    show ?thesis
    proof (cases "\<exists>entries. loaded = Some entries \<and> length entries \<noteq> 0")
      case False
      with returned cb r1 None l loaded run1 show ?thesis
        by (cases loaded) (auto simp: detectCatalogSavePaths_def)
    next
      case True
      then obtain entries where "loaded = Some entries" "length entries \<noteq> 0" by blast
      with returned cb r1 None l loaded have
        e: "detectWithEntries pf h input adapters entries
              \<lparr>catalogCache = cache1, delivered = given1\<rparr> = (r, s')"
        by (simp add: detectCatalogSavePaths_def)
      from callbackRun_trans [OF _ detectWithEntries_run [OF cb e]] run1 None
      show ?thesis by simp
    qed
  qed
  then show ?thesis by (cases r) (simp_all add: callbackRun_def)
qed

theorem callback_exception_ends_run_witness:
  "onProgress throwingInput = Some throwingCallback
   \<and> detectCatalogSavePaths catalogPlatform wrappedCatalogHost throwingInput noAdapters
        freshDetectionState
       = (Inl (Error ''boom''), \<lparr>catalogCache = Map.empty, delivered = [loadingPayload]\<rparr>)
   \<and> (\<exists>ps p. [loadingPayload] = delivered freshDetectionState @ ps @ [p]
              \<and> quietFrom throwingCallback (delivered freshDetectionState) ps
              \<and> throwingCallback (delivered freshDetectionState @ ps) p = Some (Error ''boom''))
   \<and> onProgress listeningInput = Some listeningCallback
   \<and> detectCatalogSavePaths catalogPlatform wrappedCatalogHost listeningInput noAdapters
        freshDetectionState
       = (Inr wrappedResult, \<lparr>catalogCache = wrappedCache, delivered = listeningPayloads\<rparr>)
   \<and> (\<exists>ps. listeningPayloads = delivered freshDetectionState @ ps
            \<and> quietFrom listeningCallback (delivered freshDetectionState) ps)"
proof -
  have throwing: "onProgress throwingInput = Some throwingCallback"
    by (simp add: throwingInput_def)
  have listening: "onProgress listeningInput = Some listeningCallback"
    by (simp add: listeningInput_def)
  have loads:
    "outcomeOf (fst (loadCatalogEntries catalogPlatform wrappedCatalogHost
                       (catalogPath throwingInput) noAdapters
                       (catalogCache freshDetectionState))) = None"
    "outcomeOf (fst (loadCatalogEntries catalogPlatform wrappedCatalogHost
                       (catalogPath listeningInput) noAdapters
                       (catalogCache freshDetectionState))) = None"
    by (simp_all add: throwingInput_def listeningInput_def wrappedInput_def
          freshDetectionState_def wrapped_load)
  from callback_exception_ends_run [OF throwing loads(1) throwing_detection]
       callback_exception_ends_run [OF listening loads(2) listening_detection]
  show ?thesis
    by (simp add: throwing listening throwing_detection listening_detection fresh_delivered
          throwing_call)
qed

end
